theory Spec2Isabelle
  imports Main "HOL-Library.Word"
begin

section \<open>Emergency reparent: data model\<close>

text \<open>
  The development follows \<^verbatim>\<open>src/unnamed/part_000\<close>, package \<^verbatim>\<open>reparentutil\<close>
  (lines 83 to 746): the \<^verbatim>\<open>EmergencyReparenter\<close> and its operations.

  A tablet alias is the pair of a cell and a uid (\<^verbatim>\<open>topodatapb.TabletAlias\<close>, a
  \<^verbatim>\<open>uint32\<close> uid). Of a tablet the code under study reads the alias only.
  A \<^verbatim>\<open>*topodatapb.Tablet\<close> is a pointer: line 627 compares two of them with
  \<^verbatim>\<open>==\<close>, which compares addresses, so a pointer is modelled as the address together
  with the object it points to (no tablet is written to by this code).
\<close>

record TabletAlias =
  Cell :: string
  Uid :: "32 word"

record Tablet =
  Alias :: TabletAlias

record TabletPtr =
  addr :: nat
  obj :: Tablet

record TabletInfo =
  Tablet :: TabletPtr

record ShardInfo =
  keyspace :: string
  shardName :: string
  PrimaryAlias :: "TabletAlias option"

text \<open>\<^verbatim>\<open>events.Reparent\<close>: the event object the operation fills in and returns.\<close>

record Reparent =
  ShardInfo :: ShardInfo
  NewPrimary :: "Tablet option"

text \<open>\<^verbatim>\<open>EmergencyReparentOptions\<close>, lines 121 to 130.\<close>

record EmergencyReparentOptions =
  NewPrimaryAlias :: "TabletAlias option"
  IgnoreReplicas :: "string set"
  WaitReplicasTimeout :: int
  PreventCrossCellPromotion :: bool
  lockAction :: string

datatype CandidatePromotionRule =
    MustPromoteRule
  | PreferPromoteRule
  | NeutralPromoteRule
  | PreferNotPromoteRule
  | MustNotPromoteRule

subsection \<open>Errors\<close>

text \<open>
  \<^verbatim>\<open>vterrors.Errorf(code, format, args...)\<close> and \<^verbatim>\<open>vterrors.Wrapf(err, format, args...)\<close>
  are kept symbolic: the code, the format string and the arguments. \<open>AllErrors\<close> is
  what \<^verbatim>\<open>AllErrorRecorder.Error()\<close> aggregates.
\<close>

datatype Code =
    OK
  | UNKNOWN
  | DEADLINE_EXCEEDED
  | FAILED_PRECONDITION
  | ABORTED
  | INTERNAL
  | UNAVAILABLE

datatype fmtarg =
    Str string
  | Num int
  | AliasArg TabletAlias
  | ErrArg error
and error =
    Errorf Code string "fmtarg list"
  | Wrapf error string "fmtarg list"
  | AllErrors "error list"

text \<open>
  A Go function either returns or panics; the only panic the code can raise on the
  modelled data is an index out of range in \<^verbatim>\<open>findMostAdvanced\<close>.
\<close>

datatype 'a outcome = Return 'a | Panic

subsection \<open>Functions of the package that are not part of the sources\<close>

text \<open>
  The code calls helpers of its own package and of \<^verbatim>\<open>mysql\<close>, \<^verbatim>\<open>topoproto\<close> that
  are not among the source files. They are parameters of the model: every theorem
  holds for whatever these functions compute. \<open>'pos\<close> is \<^verbatim>\<open>mysql.Position\<close>,
  \<open>'st\<close> is \<^verbatim>\<open>replicationdatapb.StopReplicationStatus\<close>, \<open>'ps\<close> is the map of
  \<^verbatim>\<open>replicationdatapb.PrimaryStatus\<close>.

  Go maps that the code iterates over are association lists (the order of the list
  is the order of the iteration, which Go leaves open); maps that are only looked up
  are partial functions.

  \<open>sortTabletsForERS\<close> sorts its two slices in place: the model returns them.
\<close>

record ('pos, 'st, 'ps) deps =
  AtLeast :: "'pos \<Rightarrow> 'pos \<Rightarrow> bool"
  TabletAliasString :: "TabletAlias \<Rightarrow> string"
  PromotionRule :: "Tablet \<Rightarrow> CandidatePromotionRule"
  getValidCandidatesAndPositionsAsList ::
    "(string \<times> 'pos) list \<Rightarrow> (string \<times> TabletInfo) list \<Rightarrow> error + (TabletPtr list \<times> 'pos list)"
  sortTabletsForERS ::
    "TabletPtr list \<Rightarrow> 'pos list \<Rightarrow> string \<Rightarrow> error + (TabletPtr list \<times> 'pos list)"
  findPossibleCandidateFromListWithRestrictions ::
    "TabletPtr \<Rightarrow> TabletPtr option \<Rightarrow> TabletPtr list \<Rightarrow> bool \<Rightarrow> bool \<Rightarrow> TabletPtr option"
  ReplicaWasRunning :: "'st \<Rightarrow> error + bool"
  FindValidEmergencyReparentCandidates ::
    "(string \<rightharpoonup> 'st) \<Rightarrow> 'ps \<Rightarrow> error + (string \<times> 'pos) list"
  restrictValidCandidates ::
    "(string \<times> 'pos) list \<Rightarrow> (string \<times> TabletInfo) list \<Rightarrow> error + (string \<times> 'pos) list"

definition TabletAliasEqual :: "TabletAlias \<Rightarrow> TabletAlias \<Rightarrow> bool" where
  \<comment> \<open>Modelled from the spec: \<^verbatim>\<open>topoproto.TabletAliasEqual\<close> is not part of the sources;
      an alias is the pair \<open>{cell, uid}\<close>, and two aliases are equal when both parts are.\<close>
  "TabletAliasEqual a b \<longleftrightarrow> Cell a = Cell b \<and> Uid a = Uid b"

section \<open>Selection\<close>

subsection \<open>findMostAdvanced, lines 406 to 461\<close>

text \<open>
  The loop of lines 434 to 438 over \<^verbatim>\<open>tabletPositions\<close>, with its index: the first
  position the winning position is not at least ends the function with the split
  brain error, whose message reads \<^verbatim>\<open>validTablets[i]\<close>.
\<close>

fun splitBrainLoop ::
  "('pos \<Rightarrow> 'pos \<Rightarrow> bool) \<Rightarrow> 'pos \<Rightarrow> TabletPtr \<Rightarrow> TabletPtr list \<Rightarrow> nat \<Rightarrow> 'pos list
    \<Rightarrow> error option outcome" where
  "splitBrainLoop isAtLeast winningPosition winningPrimaryTablet validTablets i [] = Return None"
| "splitBrainLoop isAtLeast winningPosition winningPrimaryTablet validTablets i (position # rest) =
     (if \<not> isAtLeast winningPosition position then
        (if i < length validTablets then
           Return (Some (Errorf FAILED_PRECONDITION
             ''split brain detected between servers - %v and %v''
             [AliasArg (Alias (obj winningPrimaryTablet)),
              AliasArg (Alias (obj (validTablets ! i)))]))
         else Panic)
      else splitBrainLoop isAtLeast winningPosition winningPrimaryTablet validTablets (Suc i) rest)"

text \<open>Lines 443 to 460: the requested primary, when there is one.\<close>

definition electRequested ::
  "('pos, 'st, 'ps) deps \<Rightarrow> (string \<times> 'pos) list \<Rightarrow> (string \<times> TabletInfo) list
    \<Rightarrow> EmergencyReparentOptions \<Rightarrow> TabletPtr \<Rightarrow> 'pos \<Rightarrow> TabletPtr list
    \<Rightarrow> error + (TabletPtr \<times> TabletPtr list)" where
  "electRequested d validCandidates tabletMap opts winningPrimaryTablet winningPosition validTablets =
     (case NewPrimaryAlias opts of
        None \<Rightarrow> Inr (winningPrimaryTablet, validTablets)
      | Some newPrimaryAlias \<Rightarrow>
          (let requestedPrimaryAlias = TabletAliasString d newPrimaryAlias in
           case map_of validCandidates requestedPrimaryAlias of
             None \<Rightarrow>
               Inl (Errorf FAILED_PRECONDITION ''requested primary elect %v has errant GTIDs''
                     [Str requestedPrimaryAlias])
           | Some pos \<Rightarrow>
               if AtLeast d pos winningPosition then
                 (case map_of tabletMap requestedPrimaryAlias of
                    None \<Rightarrow>
                      Inl (Errorf INTERNAL
                        ''candidate %v not found in the tablet map; this an impossible situation''
                        [Str requestedPrimaryAlias])
                  | Some requestedPrimaryInfo \<Rightarrow> Inr (Tablet requestedPrimaryInfo, validTablets))
               else Inr (winningPrimaryTablet, validTablets)))"

definition findMostAdvanced ::
  "('pos, 'st, 'ps) deps \<Rightarrow> TabletPtr option \<Rightarrow> (string \<times> 'pos) list
    \<Rightarrow> (string \<times> TabletInfo) list \<Rightarrow> EmergencyReparentOptions
    \<Rightarrow> (error + (TabletPtr \<times> TabletPtr list)) outcome" where
  "findMostAdvanced d prevPrimary validCandidates tabletMap opts =
     (case getValidCandidatesAndPositionsAsList d validCandidates tabletMap of
        Inl err \<Rightarrow> Return (Inl err)
      | Inr (validTablets0, tabletPositions0) \<Rightarrow>
          (let idealCell = (case prevPrimary of None \<Rightarrow> [] | Some p \<Rightarrow> Cell (Alias (obj p))) in
           case sortTabletsForERS d validTablets0 tabletPositions0 idealCell of
             Inl err \<Rightarrow> Return (Inl err)
           | Inr (validTablets, tabletPositions) \<Rightarrow>
               (case validTablets of
                  [] \<Rightarrow> Panic
                | winningPrimaryTablet # _ \<Rightarrow>
                    (case tabletPositions of
                       [] \<Rightarrow> Panic
                     | winningPosition # _ \<Rightarrow>
                         (case splitBrainLoop (AtLeast d) winningPosition winningPrimaryTablet
                                 validTablets 0 tabletPositions of
                            Panic \<Rightarrow> Panic
                          | Return (Some err) \<Rightarrow> Return (Inl err)
                          | Return None \<Rightarrow>
                              Return (electRequested d validCandidates tabletMap opts
                                        winningPrimaryTablet winningPosition validTablets))))))"

subsection \<open>identifyPrimaryCandidate, lines 631 to 720\<close>

fun firstNonNil :: "'a option list \<Rightarrow> 'a option" where
  "firstNonNil [] = None"
| "firstNonNil (None # rest) = firstNonNil rest"
| "firstNonNil (Some c # rest) = Some c"

definition identifyPrimaryCandidate ::
  "('pos, 'st, 'ps) deps \<Rightarrow> TabletPtr \<Rightarrow> TabletPtr option \<Rightarrow> TabletPtr list
    \<Rightarrow> (string \<times> TabletInfo) list \<Rightarrow> EmergencyReparentOptions \<Rightarrow> error + TabletPtr" where
  "identifyPrimaryCandidate d newPrimary prevPrimary validCandidates tabletMap opts =
     (case NewPrimaryAlias opts of
        Some newPrimaryAlias \<Rightarrow>
          (let requestedPrimaryAlias = TabletAliasString d newPrimaryAlias in
           case map_of tabletMap requestedPrimaryAlias of
             None \<Rightarrow>
               Inl (Errorf INTERNAL
                 ''candidate %v not found in the tablet map; this an impossible situation''
                 [Str requestedPrimaryAlias])
           | Some requestedPrimaryInfo \<Rightarrow>
               if list_ex (\<lambda>validCandidate.
                     TabletAliasEqual (Alias (obj validCandidate)) newPrimaryAlias) validCandidates
               then Inr (Tablet requestedPrimaryInfo)
               else Inl (Errorf ABORTED ''requested candidate %v is not in valid candidates list''
                          [Str requestedPrimaryAlias]))
      | None \<Rightarrow>
          (let preferredCandidates =
                 filter (\<lambda>candidate.
                   PromotionRule d (obj candidate) = MustPromoteRule \<or>
                   PromotionRule d (obj candidate) = PreferPromoteRule) validCandidates;
               neutralReplicas =
                 filter (\<lambda>candidate. PromotionRule d (obj candidate) = NeutralPromoteRule)
                   validCandidates;
               possible = findPossibleCandidateFromListWithRestrictions d newPrimary prevPrimary;
               crossCell = \<not> PreventCrossCellPromotion opts
           in case firstNonNil
                ([possible preferredCandidates True True,
                  possible preferredCandidates False True]
                 @ (if crossCell
                    then [possible preferredCandidates True False,
                          possible preferredCandidates False False]
                    else [])
                 @ [possible neutralReplicas True True,
                    possible neutralReplicas False True]
                 @ (if crossCell
                    then [possible neutralReplicas True False,
                          possible neutralReplicas False False]
                    else [])) of
                Some candidate \<Rightarrow> Inr candidate
              | None \<Rightarrow> Inr newPrimary))"

text \<open>Lines 621 to 628; the comparison of line 627 is one of pointers.\<close>

definition intermediateCandidateIsIdeal ::
  "('pos, 'st, 'ps) deps \<Rightarrow> TabletPtr \<Rightarrow> TabletPtr option \<Rightarrow> TabletPtr list
    \<Rightarrow> (string \<times> TabletInfo) list \<Rightarrow> EmergencyReparentOptions \<Rightarrow> error + bool" where
  "intermediateCandidateIsIdeal d newPrimary prevPrimary validCandidates tabletMap opts =
     (case identifyPrimaryCandidate d newPrimary prevPrimary validCandidates tabletMap opts of
        Inl err \<Rightarrow> Inl err
      | Inr candidate \<Rightarrow> Inr (addr candidate = addr newPrimary))"

subsection \<open>checkIfConstraintsSatisfied, lines 723 to 731\<close>

definition checkIfConstraintsSatisfied ::
  "('pos, 'st, 'ps) deps \<Rightarrow> TabletPtr \<Rightarrow> TabletPtr option \<Rightarrow> EmergencyReparentOptions
    \<Rightarrow> error option" where
  "checkIfConstraintsSatisfied d newPrimary prevPrimary opts =
     (if PreventCrossCellPromotion opts \<and>
         (case prevPrimary of
            None \<Rightarrow> False
          | Some p \<Rightarrow> Cell (Alias (obj newPrimary)) \<noteq> Cell (Alias (obj p)))
      then Some (Errorf ABORTED ''elected primary does not satisfy geographic constraint - %s''
                  [Str (TabletAliasString d (Alias (obj newPrimary)))])
      else if PromotionRule d (obj newPrimary) = MustNotPromoteRule
      then Some (Errorf ABORTED ''elected primary does not satisfy promotion rule constraint - %s''
                  [Str (TabletAliasString d (Alias (obj newPrimary)))])
      else None)"

section \<open>The environment and the state of a run\<close>

text \<open>
  The run keeps a log of the steps it has completed, each with its arguments and its
  outcome. The log is not a variable of the Go code: it is what lets a theorem speak
  about the order of the steps. A step of the log is one call statement of the
  orchestrator (\<^verbatim>\<open>ReparentShard\<close>, \<^verbatim>\<open>reparentShardLocked\<close>, \<^verbatim>\<open>promoteIntermediatePrimary\<close>,
  \<^verbatim>\<open>promoteNewPrimary\<close>, \<^verbatim>\<open>reparentReplicas\<close>); calls a pure function makes inside its
  own body are not logged again (line 623, inside \<^verbatim>\<open>intermediateCandidateIsIdeal\<close>).
\<close>

datatype ('pos, 'st, 'ps) step =
    LockShard_step string string string "error option"
  | Unlock_step "error option"
  | DispatchUpdate_step string "fmtarg list"
  | GetShard_step "error + ShardInfo"
  | GetTablet_step TabletAlias "error + TabletInfo"
  | GetTabletMapForShard_step "error + (string \<times> TabletInfo) list"
  | StopReplicationAndBuildStatusMaps_step "error + ((string \<rightharpoonup> 'st) \<times> 'ps)"
  | CheckShardLocked_step "error option"
  | FindValidEmergencyReparentCandidates_step "error + (string \<times> 'pos) list"
  | restrictValidCandidates_step "error + (string \<times> 'pos) list"
  | waitForAllRelayLogsToApply_step "error option"
  | findMostAdvanced_step "(error + (TabletPtr \<times> TabletPtr list)) outcome"
  | intermediateCandidateIsIdeal_step TabletPtr "TabletPtr list" "error + bool"
  | identifyPrimaryCandidate_step TabletPtr "TabletPtr list" "error + TabletPtr"
  | waitForCatchUp_step TabletPtr TabletPtr "error option"
  | checkIfConstraintsSatisfied_step TabletPtr "TabletPtr option" "error option"
  | PromoteReplica_step TabletPtr "error + string"
  | reparentReplicas_step TabletPtr bool bool "error + TabletPtr list"
  | promoteNewPrimary_step TabletPtr "error option"

text \<open>
  The topology server, the tablet manager client and the Go scheduler are outside
  the code. Each of their answers is a function of the request and of the log so
  far, so an answer may change from one call to the next. \<open>selectSuccessFirst\<close> is
  the scheduler's choice at the \<^verbatim>\<open>select\<close> of line 593 when both contexts are done.
\<close>

record ('pos, 'st, 'ps) world =
  LockShard :: "('pos, 'st, 'ps) step list \<Rightarrow> string \<Rightarrow> string \<Rightarrow> string \<Rightarrow> error option"
  GetShard :: "('pos, 'st, 'ps) step list \<Rightarrow> string \<Rightarrow> string \<Rightarrow> error + ShardInfo"
  GetTablet :: "('pos, 'st, 'ps) step list \<Rightarrow> TabletAlias \<Rightarrow> error + TabletInfo"
  GetTabletMapForShard ::
    "('pos, 'st, 'ps) step list \<Rightarrow> string \<Rightarrow> string \<Rightarrow> error + (string \<times> TabletInfo) list"
  CheckShardLocked :: "('pos, 'st, 'ps) step list \<Rightarrow> string \<Rightarrow> string \<Rightarrow> error option"
  StopReplicationAndBuildStatusMaps ::
    "('pos, 'st, 'ps) step list \<Rightarrow> (string \<times> TabletInfo) list \<Rightarrow> int \<Rightarrow> string set
      \<Rightarrow> error + ((string \<rightharpoonup> 'st) \<times> 'ps)"
  WaitForRelayLogsToApply ::
    "('pos, 'st, 'ps) step list \<Rightarrow> TabletInfo option \<Rightarrow> 'st \<Rightarrow> error option"
  MasterPosition :: "('pos, 'st, 'ps) step list \<Rightarrow> TabletPtr \<Rightarrow> error + string"
  PopulateReparentJournal ::
    "('pos, 'st, 'ps) step list \<Rightarrow> TabletPtr \<Rightarrow> int \<Rightarrow> string \<Rightarrow> TabletAlias \<Rightarrow> string
      \<Rightarrow> error option"
  SetMaster ::
    "('pos, 'st, 'ps) step list \<Rightarrow> TabletPtr \<Rightarrow> TabletAlias \<Rightarrow> int \<Rightarrow> string \<Rightarrow> bool
      \<Rightarrow> error option"
  PromoteReplica :: "('pos, 'st, 'ps) step list \<Rightarrow> TabletPtr \<Rightarrow> error + string"
  waitForCatchUp ::
    "('pos, 'st, 'ps) step list \<Rightarrow> TabletPtr \<Rightarrow> TabletPtr \<Rightarrow> int \<Rightarrow> error option"
  UnixNano :: "('pos, 'st, 'ps) step list \<Rightarrow> int"
  selectSuccessFirst :: "('pos, 'st, 'ps) step list \<Rightarrow> bool"

text \<open>
  The three gauges of lines 133 to 137 (\<^verbatim>\<open>stats.Gauge\<close>, an \<^verbatim>\<open>int64\<close>), the log, and
  the event object \<^verbatim>\<open>ev\<close> allocated at line 173.
\<close>

record ('pos, 'st, 'ps) state =
  ersCounter :: "64 word"
  ersSuccessCounter :: "64 word"
  ersFailureCounter :: "64 word"
  trace :: "('pos, 'st, 'ps) step list"
  ev :: Reparent

definition logStep ::
  "('pos, 'st, 'ps) step \<Rightarrow> ('pos, 'st, 'ps) state \<Rightarrow> ('pos, 'st, 'ps) state" where
  "logStep x s = s\<lparr>trace := trace s @ [x]\<rparr>"

definition emitted ::
  "('pos, 'st, 'ps) state \<Rightarrow> ('pos, 'st, 'ps) state \<Rightarrow> ('pos, 'st, 'ps) step list" where
  \<comment> \<open>the steps logged between two states of one run\<close>
  "emitted s s' = drop (length (trace s)) (trace s')"

section \<open>The fan-outs\<close>

subsection \<open>waitForAllRelayLogsToApply, lines 349 to 403\<close>

text \<open>
  One waiter per valid candidate that has a stop-replication status. The error group
  (\<^verbatim>\<open>NumAllowedErrors: 0\<close>) has recorded an error exactly when a waiter failed; which
  of several failures it holds when it returns depends on the schedule, and the model
  keeps them all.
\<close>

fun relayLogWaiters ::
  "('pos, 'st, 'ps) world \<Rightarrow> ('pos, 'st, 'ps) step list \<Rightarrow> (string \<times> TabletInfo) list
    \<Rightarrow> (string \<rightharpoonup> 'st) \<Rightarrow> (string \<times> 'pos) list \<Rightarrow> error list" where
  "relayLogWaiters w h tabletMap statusMap [] = []"
| "relayLogWaiters w h tabletMap statusMap ((candidate, position) # rest) =
     (case statusMap candidate of
        None \<Rightarrow> relayLogWaiters w h tabletMap statusMap rest
      | Some status \<Rightarrow>
          (case WaitForRelayLogsToApply w h (map_of tabletMap candidate) status of
             None \<Rightarrow> relayLogWaiters w h tabletMap statusMap rest
           | Some err \<Rightarrow> err # relayLogWaiters w h tabletMap statusMap rest))"

definition waitForAllRelayLogsToApply ::
  "('pos, 'st, 'ps) world \<Rightarrow> ('pos, 'st, 'ps) step list \<Rightarrow> (string \<times> 'pos) list
    \<Rightarrow> (string \<times> TabletInfo) list \<Rightarrow> (string \<rightharpoonup> 'st) \<Rightarrow> int \<Rightarrow> error option" where
  "waitForAllRelayLogsToApply w h validCandidates tabletMap statusMap waitReplicasTimeout =
     (let recErrors = relayLogWaiters w h tabletMap statusMap validCandidates in
      if length recErrors \<noteq> 0 then
        Some (Wrapf (AllErrors recErrors)
          ''could not apply all relay logs within the provided waitReplicasTimeout (%s): %v''
          [Num waitReplicasTimeout, ErrArg (AllErrors recErrors)])
      else None)"

subsection \<open>reparentReplicas, lines 479 to 618\<close>

definition handlePrimary ::
  "('pos, 'st, 'ps) world \<Rightarrow> ('pos, 'st, 'ps) step list \<Rightarrow> EmergencyReparentOptions
    \<Rightarrow> TabletPtr \<Rightarrow> bool \<Rightarrow> error option" where
  "handlePrimary w h opts newPrimaryTablet populateReparentJournal =
     (case MasterPosition w h newPrimaryTablet of
        Inl err \<Rightarrow> Some err
      | Inr position \<Rightarrow>
          if populateReparentJournal then
            PopulateReparentJournal w h newPrimaryTablet (UnixNano w h) (lockAction opts)
              (Alias (obj newPrimaryTablet)) position
          else None)"

text \<open>
  One replica goroutine: \<open>Inl\<close> is the error it records (\<^verbatim>\<open>rec.RecordError\<close>),
  \<open>Inr\<close> the tablet it appends to \<^verbatim>\<open>replicasStartedReplication\<close>.
\<close>

definition handleReplica ::
  "('pos, 'st, 'ps) world \<Rightarrow> ('pos, 'st, 'ps) deps \<Rightarrow> ('pos, 'st, 'ps) step list
    \<Rightarrow> (string \<rightharpoonup> 'st) \<Rightarrow> TabletPtr \<Rightarrow> string \<times> TabletInfo \<Rightarrow> error + TabletPtr" where
  "handleReplica w d h statusMap newPrimaryTablet r =
     (case r of (alias, ti) \<Rightarrow>
       (case (case statusMap alias of
                None \<Rightarrow> Inr False
              | Some status \<Rightarrow> ReplicaWasRunning d status) of
          Inl err \<Rightarrow>
            Inl (Wrapf err ''tablet %v could not determine StopReplicationStatus: %v''
                  [Str alias, ErrArg err])
        | Inr forceStart \<Rightarrow>
            (case SetMaster w h (Tablet ti) (Alias (obj newPrimaryTablet)) 0 [] forceStart of
               Some err \<Rightarrow>
                 Inl (Wrapf err ''tablet %v SetReplicationSource failed: %v''
                       [Str alias, ErrArg err])
             | None \<Rightarrow> Inr (Tablet ti))))"

fun recordedErrors :: "(error + 'a) list \<Rightarrow> error list" where
  "recordedErrors [] = []"
| "recordedErrors (Inl err # rest) = err # recordedErrors rest"
| "recordedErrors (Inr t # rest) = recordedErrors rest"

fun startedReplication :: "(error + 'a) list \<Rightarrow> 'a list" where
  "startedReplication [] = []"
| "startedReplication (Inl err # rest) = startedReplication rest"
| "startedReplication (Inr t # rest) = t # startedReplication rest"

text \<open>The replicas of the loop of lines 555 to 564: not the new primary, not ignored.\<close>

definition fannedOut ::
  "('pos, 'st, 'ps) deps \<Rightarrow> EmergencyReparentOptions \<Rightarrow> TabletPtr
    \<Rightarrow> (string \<times> TabletInfo) list \<Rightarrow> (string \<times> TabletInfo) list" where
  "fannedOut d opts newPrimaryTablet tabletMap =
     filter (\<lambda>r. fst r \<noteq> TabletAliasString d (Alias (obj newPrimaryTablet))
                 \<and> fst r \<notin> IgnoreReplicas opts) tabletMap"

text \<open>What each replica goroutine of the fan-out ends with.\<close>

definition replicaOutcomes ::
  "('pos, 'st, 'ps) world \<Rightarrow> ('pos, 'st, 'ps) deps \<Rightarrow> ('pos, 'st, 'ps) step list \<Rightarrow> TabletPtr
    \<Rightarrow> (string \<times> TabletInfo) list \<Rightarrow> (string \<rightharpoonup> 'st) \<Rightarrow> EmergencyReparentOptions
    \<Rightarrow> (error + TabletPtr) list" where
  "replicaOutcomes w d h newPrimaryTablet tabletMap statusMap opts =
     map (handleReplica w d h statusMap newPrimaryTablet)
       (fannedOut d opts newPrimaryTablet tabletMap)"

text \<open>
  The result of \<^verbatim>\<open>reparentReplicas\<close>, given the log \<open>h\<close> at its call. The list
  \<open>tabletMap\<close> is read in the order in which the replica goroutines finish.
  \<^verbatim>\<open>replSuccessCtx\<close> is cancelled only by a replica that succeeded, and only when
  \<^verbatim>\<open>waitForAllReplicas\<close> is false (lines 548 to 550); \<^verbatim>\<open>allReplicasDoneCtx\<close> is
  cancelled once every replica goroutine is done. A nil slice is the empty list.

  The errors of lines 609 and 611 wrap \<^verbatim>\<open>rec.Error()\<close>. The recorder and
  \<^verbatim>\<open>vterrors.Wrapf\<close> are library code that is not among the sources: the error of a
  recorder that recorded nothing is nil, and \<^verbatim>\<open>Wrapf\<close> of a nil error is nil. So with
  no replica to fan out to, line 611 returns a nil slice and a nil error.
\<close>

definition recError :: "error list \<Rightarrow> error option" where
  \<comment> \<open>\<^verbatim>\<open>rec.Error()\<close> of \<^verbatim>\<open>concurrency.AllErrorRecorder\<close>, which is not part of the sources:
      nil when no error was recorded, the aggregate of the recorded errors otherwise.\<close>
  "recError recErrors = (if recErrors = [] then None else Some (AllErrors recErrors))"

definition reparentReplicasResult ::
  "('pos, 'st, 'ps) world \<Rightarrow> ('pos, 'st, 'ps) deps \<Rightarrow> ('pos, 'st, 'ps) step list \<Rightarrow> TabletPtr
    \<Rightarrow> (string \<times> TabletInfo) list \<Rightarrow> (string \<rightharpoonup> 'st) \<Rightarrow> EmergencyReparentOptions
    \<Rightarrow> bool \<Rightarrow> bool \<Rightarrow> error + TabletPtr list" where
  "reparentReplicasResult w d h newPrimaryTablet tabletMap statusMap opts
      waitForAllReplicas populateReparentJournal =
     (let numReplicas = length (fannedOut d opts newPrimaryTablet tabletMap);
          finished = replicaOutcomes w d h newPrimaryTablet tabletMap statusMap opts;
          recErrors = recordedErrors finished;
          replicasStartedReplication = startedReplication finished
      in case handlePrimary w h opts newPrimaryTablet populateReparentJournal of
           Some primaryErr \<Rightarrow>
             Inl (Wrapf primaryErr ''failed to PopulateReparentJournal on primary: %v''
                   [ErrArg primaryErr])
         | None \<Rightarrow>
             if \<not> waitForAllReplicas \<and> replicasStartedReplication \<noteq> [] \<and> selectSuccessFirst w h
             then Inr []
             else
               (let errCount = length recErrors in
                if errCount > numReplicas then
                  (case recError recErrors of
                     None \<Rightarrow> Inr []
                   | Some err \<Rightarrow>
                       Inl (Wrapf err
                         ''received more errors (= %d) than replicas (= %d), which should be impossible: %v''
                         [Num (int errCount), Num (int numReplicas), ErrArg err]))
                else if errCount = numReplicas then
                  (case recError recErrors of
                     None \<Rightarrow> Inr []
                   | Some err \<Rightarrow>
                       Inl (Wrapf err ''%d replica(s) failed: %v''
                         [Num (int numReplicas), ErrArg err]))
                else Inr replicasStartedReplication))"

text \<open>
  A run of a function of the orchestrator is its result together with the steps it
  logged; the function is given the log \<open>h\<close> at its call. \<^verbatim>\<open>reparentReplicas\<close>
  dispatches the update of line 486 before anything else.
\<close>

definition reparentReplicas ::
  "('pos, 'st, 'ps) world \<Rightarrow> ('pos, 'st, 'ps) deps \<Rightarrow> ('pos, 'st, 'ps) step list \<Rightarrow> TabletPtr
    \<Rightarrow> (string \<times> TabletInfo) list \<Rightarrow> (string \<rightharpoonup> 'st) \<Rightarrow> EmergencyReparentOptions
    \<Rightarrow> bool \<Rightarrow> bool \<Rightarrow> (error + TabletPtr list) \<times> ('pos, 'st, 'ps) step list" where
  "reparentReplicas w d h newPrimaryTablet tabletMap statusMap opts
      waitForAllReplicas populateReparentJournal =
     (let dispatched = DispatchUpdate_step ''reparenting all tablets'' [];
          res = reparentReplicasResult w d (h @ [dispatched]) newPrimaryTablet tabletMap
                  statusMap opts waitForAllReplicas populateReparentJournal
      in (res, [dispatched,
                reparentReplicas_step newPrimaryTablet waitForAllReplicas
                  populateReparentJournal res]))"

section \<open>The orchestrator\<close>

subsection \<open>promoteIntermediatePrimary (lines 464 to 475) and promoteNewPrimary (lines 733 to 746)\<close>

definition promoteIntermediatePrimary ::
  "('pos, 'st, 'ps) world \<Rightarrow> ('pos, 'st, 'ps) deps \<Rightarrow> ('pos, 'st, 'ps) step list \<Rightarrow> TabletPtr
    \<Rightarrow> (string \<times> TabletInfo) list \<Rightarrow> (string \<rightharpoonup> 'st) \<Rightarrow> EmergencyReparentOptions
    \<Rightarrow> (error + TabletPtr list) \<times> ('pos, 'st, 'ps) step list" where
  "promoteIntermediatePrimary w d h newPrimary tabletMap statusMap opts =
     (case reparentReplicas w d h newPrimary tabletMap statusMap opts True False of
        (Inl err, zs) \<Rightarrow> (Inl err, zs)
      | (Inr validCandidatesForImprovement, zs) \<Rightarrow>
          (Inr (validCandidatesForImprovement @ [newPrimary]), zs))"

definition promoteNewPrimary ::
  "('pos, 'st, 'ps) world \<Rightarrow> ('pos, 'st, 'ps) deps \<Rightarrow> ('pos, 'st, 'ps) step list \<Rightarrow> TabletPtr
    \<Rightarrow> EmergencyReparentOptions \<Rightarrow> (string \<times> TabletInfo) list \<Rightarrow> (string \<rightharpoonup> 'st)
    \<Rightarrow> error option \<times> ('pos, 'st, 'ps) step list" where
  "promoteNewPrimary w d h newPrimary opts tabletMap statusMap =
     (let promoted = PromoteReplica w h newPrimary;
          e = PromoteReplica_step newPrimary promoted
      in case promoted of
           Inl err \<Rightarrow>
             (let res = Some (Wrapf err
                          ''primary-elect tablet %v failed to be upgraded to primary: %v''
                          [AliasArg (Alias (obj newPrimary)), ErrArg err])
              in (res, [e, promoteNewPrimary_step newPrimary res]))
         | Inr position \<Rightarrow>
             (case reparentReplicas w d (h @ [e]) newPrimary tabletMap statusMap opts
                     False True of
                (Inl err, zs) \<Rightarrow>
                  (Some err, e # zs @ [promoteNewPrimary_step newPrimary (Some err)])
              | (Inr replicas, zs) \<Rightarrow>
                  (None, e # zs @ [promoteNewPrimary_step newPrimary None])))"

subsection \<open>reparentShardLocked, lines 202 to 347\<close>

text \<open>
  The function is one sequence of steps, each of which returns on an error. The model
  cuts it into stages, last stage first; every stage is the rest of the function body
  from the line named, with the local variables it still reads as arguments. A stage
  is given the log \<open>h\<close> at its start and the event object \<^verbatim>\<open>ev\<close>; it returns its
  result, the steps it logged and the event object. \<open>logged pre\<close> puts the steps
  logged before a stage in front of the steps of that stage.
\<close>

definition logged ::
  "('pos, 'st, 'ps) step list \<Rightarrow> 'r \<times> ('pos, 'st, 'ps) step list \<times> Reparent
    \<Rightarrow> 'r \<times> ('pos, 'st, 'ps) step list \<times> Reparent" where
  "logged pre x = (case x of (r, zs, ev1) \<Rightarrow> (r, pre @ zs, ev1))"

text \<open>Lines 339 to 346: the final promotion.\<close>

definition promoteStage ::
  "('pos, 'st, 'ps) world \<Rightarrow> ('pos, 'st, 'ps) deps \<Rightarrow> ('pos, 'st, 'ps) step list \<Rightarrow> Reparent
    \<Rightarrow> TabletPtr \<Rightarrow> EmergencyReparentOptions
    \<Rightarrow> (string \<times> TabletInfo) list \<Rightarrow> (string \<rightharpoonup> 'st)
    \<Rightarrow> error option \<times> ('pos, 'st, 'ps) step list \<times> Reparent" where
  "promoteStage w d h ev0 newPrimary opts tabletMap statusMap =
     (case promoteNewPrimary w d h newPrimary opts tabletMap statusMap of
        (Some err, zs) \<Rightarrow> (Some err, zs, ev0)
      | (None, zs) \<Rightarrow> (None, zs, ev0\<lparr>NewPrimary := Some (obj newPrimary)\<rparr>))"

text \<open>
  Lines 320 to 337. When the check fails, the closure deferred at line 325 rewrites
  the error the rest of the function returns: it joins an error with the constraint
  failure and replaces a nil error by the constraint failure.
\<close>

definition undoFailed :: "error \<Rightarrow> error \<Rightarrow> error" where
  "undoFailed err constraintFailure =
     Errorf ABORTED ''error in undoing promotion - %v, constraint failure - %v''
       [ErrArg err, ErrArg constraintFailure]"

definition noPrimaryToUndo :: error where
  "noPrimaryToUndo =
     Errorf ABORTED ''could not undo promotion, since shard record has no primary information'' []"

definition constraintStage ::
  "('pos, 'st, 'ps) world \<Rightarrow> ('pos, 'st, 'ps) deps \<Rightarrow> ('pos, 'st, 'ps) step list \<Rightarrow> Reparent
    \<Rightarrow> TabletPtr \<Rightarrow> TabletPtr option
    \<Rightarrow> EmergencyReparentOptions \<Rightarrow> (string \<times> TabletInfo) list \<Rightarrow> (string \<rightharpoonup> 'st)
    \<Rightarrow> error option \<times> ('pos, 'st, 'ps) step list \<times> Reparent" where
  "constraintStage w d h ev0 newPrimary prevPrimary opts tabletMap statusMap =
     (let constraintFailure = checkIfConstraintsSatisfied d newPrimary prevPrimary opts;
          e = checkIfConstraintsSatisfied_step newPrimary prevPrimary constraintFailure
      in case constraintFailure of
           None \<Rightarrow> logged [e] (promoteStage w d (h @ [e]) ev0 newPrimary opts tabletMap statusMap)
         | Some failure \<Rightarrow>
             (case (case prevPrimary of
                      None \<Rightarrow> (Some noPrimaryToUndo, [e], ev0)
                    | Some p \<Rightarrow>
                        logged [e] (promoteStage w d (h @ [e]) ev0 p opts tabletMap statusMap)) of
                (Some err, zs, ev1) \<Rightarrow> (Some (undoFailed err failure), zs, ev1)
              | (None, zs, ev1) \<Rightarrow> (Some failure, zs, ev1)))"

text \<open>Lines 291 to 318: the intermediate reparent and the better candidate.\<close>

definition improveStage ::
  "('pos, 'st, 'ps) world \<Rightarrow> ('pos, 'st, 'ps) deps \<Rightarrow> ('pos, 'st, 'ps) step list \<Rightarrow> Reparent
    \<Rightarrow> bool \<Rightarrow> TabletPtr \<Rightarrow> TabletPtr option
    \<Rightarrow> EmergencyReparentOptions \<Rightarrow> (string \<times> TabletInfo) list \<Rightarrow> (string \<rightharpoonup> 'st)
    \<Rightarrow> error option \<times> ('pos, 'st, 'ps) step list \<times> Reparent" where
  "improveStage w d h ev0 isIdeal intermediateSource prevPrimary opts tabletMap statusMap =
     (if \<not> isIdeal then
        (case promoteIntermediatePrimary w d h intermediateSource tabletMap statusMap opts of
           (Inl err, zs) \<Rightarrow> (Some err, zs, ev0)
         | (Inr validReplacementCandidates, zs) \<Rightarrow>
             (let better = identifyPrimaryCandidate d intermediateSource prevPrimary
                             validReplacementCandidates tabletMap opts;
                  e = identifyPrimaryCandidate_step intermediateSource
                        validReplacementCandidates better
              in case better of
                   Inl err \<Rightarrow> (Some err, zs @ [e], ev0)
                 | Inr betterCandidate \<Rightarrow>
                     if \<not> TabletAliasEqual (Alias (obj betterCandidate))
                            (Alias (obj intermediateSource))
                     then
                       (let caught = waitForCatchUp w (h @ zs @ [e]) intermediateSource
                                       betterCandidate (WaitReplicasTimeout opts);
                            e' = waitForCatchUp_step intermediateSource betterCandidate caught
                        in case caught of
                             Some err \<Rightarrow> (Some err, zs @ [e, e'], ev0)
                           | None \<Rightarrow>
                               logged (zs @ [e, e'])
                                 (constraintStage w d (h @ zs @ [e, e']) ev0 betterCandidate
                                    prevPrimary opts tabletMap statusMap))
                     else
                       logged (zs @ [e])
                         (constraintStage w d (h @ zs @ [e]) ev0 intermediateSource
                            prevPrimary opts tabletMap statusMap)))
      else constraintStage w d h ev0 intermediateSource prevPrimary opts tabletMap statusMap)"

text \<open>Lines 278 to 289: is the intermediate source ideal, and the second lock check.\<close>

definition idealStage ::
  "('pos, 'st, 'ps) world \<Rightarrow> ('pos, 'st, 'ps) deps \<Rightarrow> ('pos, 'st, 'ps) step list \<Rightarrow> Reparent
    \<Rightarrow> string \<Rightarrow> string \<Rightarrow> TabletPtr \<Rightarrow> TabletPtr list \<Rightarrow> TabletPtr option
    \<Rightarrow> EmergencyReparentOptions \<Rightarrow> (string \<times> TabletInfo) list \<Rightarrow> (string \<rightharpoonup> 'st)
    \<Rightarrow> error option \<times> ('pos, 'st, 'ps) step list \<times> Reparent" where
  "idealStage w d h ev0 ks shard intermediateSource validCandidateTablets prevPrimary opts
      tabletMap statusMap =
     (let ideal = intermediateCandidateIsIdeal d intermediateSource prevPrimary
                    validCandidateTablets tabletMap opts;
          e = intermediateCandidateIsIdeal_step intermediateSource validCandidateTablets ideal
      in case ideal of
           Inl err \<Rightarrow> (Some err, [e], ev0)
         | Inr isIdeal \<Rightarrow>
             (let locked = CheckShardLocked w (h @ [e]) ks shard;
                  e' = CheckShardLocked_step locked
              in case locked of
                   Some err \<Rightarrow>
                     (Some (Wrapf err ''lost topology lock, aborting: %v'' [ErrArg err]),
                      [e, e'], ev0)
                 | None \<Rightarrow>
                     logged [e, e']
                       (improveStage w d (h @ [e, e']) ev0 isIdeal intermediateSource
                          prevPrimary opts tabletMap statusMap)))"

text \<open>Lines 263 to 276: the relay logs and the intermediate source.\<close>

definition returned ::
  "error option \<times> ('pos, 'st, 'ps) step list \<times> Reparent
    \<Rightarrow> error option outcome \<times> ('pos, 'st, 'ps) step list \<times> Reparent" where
  "returned x = (case x of (err, zs, ev1) \<Rightarrow> (Return err, zs, ev1))"

definition selectStage ::
  "('pos, 'st, 'ps) world \<Rightarrow> ('pos, 'st, 'ps) deps \<Rightarrow> ('pos, 'st, 'ps) step list \<Rightarrow> Reparent
    \<Rightarrow> string \<Rightarrow> string \<Rightarrow> (string \<times> 'pos) list \<Rightarrow> TabletPtr option
    \<Rightarrow> EmergencyReparentOptions \<Rightarrow> (string \<times> TabletInfo) list \<Rightarrow> (string \<rightharpoonup> 'st)
    \<Rightarrow> error option outcome \<times> ('pos, 'st, 'ps) step list \<times> Reparent" where
  "selectStage w d h ev0 ks shard validCandidates prevPrimary opts tabletMap statusMap =
     (let waited = waitForAllRelayLogsToApply w h validCandidates tabletMap statusMap
                     (WaitReplicasTimeout opts);
          e = waitForAllRelayLogsToApply_step waited
      in case waited of
           Some err \<Rightarrow> (Return (Some err), [e], ev0)
         | None \<Rightarrow>
             (let found = findMostAdvanced d prevPrimary validCandidates tabletMap opts;
                  e' = findMostAdvanced_step found
              in case found of
                   Panic \<Rightarrow> (Panic, [e, e'], ev0)
                 | Return (Inl err) \<Rightarrow> (Return (Some err), [e, e'], ev0)
                 | Return (Inr (intermediateSource, validCandidateTablets)) \<Rightarrow>
                     logged [e, e']
                       (returned
                          (idealStage w d (h @ [e, e']) ev0 ks shard intermediateSource
                             validCandidateTablets prevPrimary opts tabletMap statusMap))))"

text \<open>Lines 248 to 261: the valid candidates.\<close>

definition noValidCandidates :: error where
  "noValidCandidates =
     Errorf FAILED_PRECONDITION ''no valid candidates for emergency reparent'' []"

definition candidatesStage ::
  "('pos, 'st, 'ps) world \<Rightarrow> ('pos, 'st, 'ps) deps \<Rightarrow> ('pos, 'st, 'ps) step list \<Rightarrow> Reparent
    \<Rightarrow> string \<Rightarrow> string \<Rightarrow> 'ps \<Rightarrow> TabletPtr option
    \<Rightarrow> EmergencyReparentOptions \<Rightarrow> (string \<times> TabletInfo) list \<Rightarrow> (string \<rightharpoonup> 'st)
    \<Rightarrow> error option outcome \<times> ('pos, 'st, 'ps) step list \<times> Reparent" where
  "candidatesStage w d h ev0 ks shard primaryStatusMap prevPrimary opts tabletMap statusMap =
     (let valid = FindValidEmergencyReparentCandidates d statusMap primaryStatusMap;
          e = FindValidEmergencyReparentCandidates_step valid
      in case valid of
           Inl err \<Rightarrow> (Return (Some err), [e], ev0)
         | Inr validCandidates0 \<Rightarrow>
             (let restricted = restrictValidCandidates d validCandidates0 tabletMap;
                  e' = restrictValidCandidates_step restricted
              in case restricted of
                   Inl err \<Rightarrow> (Return (Some err), [e, e'], ev0)
                 | Inr validCandidates \<Rightarrow>
                     if length validCandidates = 0 then
                       (Return (Some noValidCandidates), [e, e'], ev0)
                     else
                       logged [e, e']
                         (selectStage w d (h @ [e, e']) ev0 ks shard validCandidates
                            prevPrimary opts tabletMap statusMap)))"

text \<open>Lines 227 to 246: the tablet map, the stop of replication, the first lock check.\<close>

definition tabletMapStage ::
  "('pos, 'st, 'ps) world \<Rightarrow> ('pos, 'st, 'ps) deps \<Rightarrow> ('pos, 'st, 'ps) step list \<Rightarrow> Reparent
    \<Rightarrow> string \<Rightarrow> string \<Rightarrow> TabletPtr option \<Rightarrow> EmergencyReparentOptions
    \<Rightarrow> error option outcome \<times> ('pos, 'st, 'ps) step list \<times> Reparent" where
  "tabletMapStage w d h ev0 ks shard prevPrimary opts =
     (let e1 = DispatchUpdate_step ''reading all tablets'' [];
          tablets = GetTabletMapForShard w (h @ [e1]) ks shard;
          e2 = GetTabletMapForShard_step tablets
      in case tablets of
           Inl err \<Rightarrow>
             (Return (Some (Wrapf err ''failed to get tablet map for %v/%v: %v''
                              [Str ks, Str shard, ErrArg err])), [e1, e2], ev0)
         | Inr tabletMap \<Rightarrow>
             (let stopped = StopReplicationAndBuildStatusMaps w (h @ [e1, e2]) tabletMap
                              (WaitReplicasTimeout opts) (IgnoreReplicas opts);
                  e3 = StopReplicationAndBuildStatusMaps_step stopped
              in case stopped of
                   Inl err \<Rightarrow>
                     (Return (Some (Wrapf err
                        ''failed to stop replication and build status maps: %v'' [ErrArg err])),
                      [e1, e2, e3], ev0)
                 | Inr (statusMap, primaryStatusMap) \<Rightarrow>
                     (let locked = CheckShardLocked w (h @ [e1, e2, e3]) ks shard;
                          e4 = CheckShardLocked_step locked
                      in case locked of
                           Some err \<Rightarrow>
                             (Return (Some (Wrapf err ''lost topology lock, aborting: %v''
                                              [ErrArg err])), [e1, e2, e3, e4], ev0)
                         | None \<Rightarrow>
                             logged [e1, e2, e3, e4]
                               (candidatesStage w d (h @ [e1, e2, e3, e4]) ev0 ks shard
                                  primaryStatusMap prevPrimary opts tabletMap statusMap))))"

text \<open>Lines 207 to 225, and from there the stages above.\<close>

definition shardStage ::
  "('pos, 'st, 'ps) world \<Rightarrow> ('pos, 'st, 'ps) deps \<Rightarrow> ('pos, 'st, 'ps) step list \<Rightarrow> Reparent
    \<Rightarrow> string \<Rightarrow> string \<Rightarrow> EmergencyReparentOptions
    \<Rightarrow> error option outcome \<times> ('pos, 'st, 'ps) step list \<times> Reparent" where
  "shardStage w d h ev0 ks shard opts =
     (let got = GetShard w h ks shard;
          e = GetShard_step got
      in case got of
           Inl err \<Rightarrow> (Return (Some err), [e], ev0)
         | Inr shardInfo \<Rightarrow>
             (let ev1 = ev0\<lparr>ShardInfo := shardInfo\<rparr> in
              case PrimaryAlias shardInfo of
                None \<Rightarrow> logged [e] (tabletMapStage w d (h @ [e]) ev1 ks shard None opts)
              | Some primaryAlias \<Rightarrow>
                  (let prev = GetTablet w (h @ [e]) primaryAlias;
                       e' = GetTablet_step primaryAlias prev
                   in case prev of
                        Inl err \<Rightarrow> (Return (Some err), [e, e'], ev1)
                      | Inr prevPrimaryInfo \<Rightarrow>
                          logged [e, e']
                            (tabletMapStage w d (h @ [e, e']) ev1 ks shard
                               (Some (Tablet prevPrimaryInfo)) opts))))"

text \<open>
  \<^verbatim>\<open>reparentShardLocked\<close> on the state: the counter of line 205, then the stages on
  the log and the event object of the state.
\<close>

definition reparentShardLocked ::
  "('pos, 'st, 'ps) world \<Rightarrow> ('pos, 'st, 'ps) deps \<Rightarrow> string \<Rightarrow> string
    \<Rightarrow> EmergencyReparentOptions
    \<Rightarrow> ('pos, 'st, 'ps) state \<Rightarrow> error option outcome \<times> ('pos, 'st, 'ps) state" where
  "reparentShardLocked w d ks shard opts s =
     (case shardStage w d (trace s) (ev s) ks shard opts of
        (r, zs, ev1) \<Rightarrow>
          (r, s\<lparr>ersCounter := ersCounter s + 1, trace := trace s @ zs, ev := ev1\<rparr>))"

subsection \<open>ReparentShard, lines 162 to 199\<close>

definition getLockAction :: "('pos, 'st, 'ps) deps \<Rightarrow> TabletAlias option \<Rightarrow> string" where
  "getLockAction d newPrimaryAlias =
     (case newPrimaryAlias of
        None \<Rightarrow> ''EmergencyReparentShard''
      | Some a \<Rightarrow> ''EmergencyReparentShard'' @ ''('' @ TabletAliasString d a @ '')'')"

text \<open>
  The closure deferred at line 174 and the unlock deferred at line 170, run in that
  order with the value of \<^verbatim>\<open>err\<close> at the end of the function. The update of line 181
  carries the text of the error.
\<close>

definition deferred ::
  "error option \<Rightarrow> ('pos, 'st, 'ps) state \<Rightarrow> ('pos, 'st, 'ps) state" where
  "deferred err s =
     (case err of
        None \<Rightarrow>
          s\<lparr>ersSuccessCounter := ersSuccessCounter s + 1,
            trace := trace s @ [DispatchUpdate_step ''finished EmergencyReparentShard'' [],
                                Unlock_step None]\<rparr>
      | Some e \<Rightarrow>
          s\<lparr>ersFailureCounter := ersFailureCounter s + 1,
            trace := trace s @ [DispatchUpdate_step ''failed EmergencyReparentShard: %v''
                                  [ErrArg e],
                                Unlock_step (Some e)]\<rparr>)"

text \<open>
  The result is the pair the function returns. The results are not named, so the
  error returned is the value of \<^verbatim>\<open>err\<close> at line 188, whatever \<^verbatim>\<open>unlock\<close> does to the
  variable afterwards. A panic inside \<^verbatim>\<open>reparentShardLocked\<close> leaves \<^verbatim>\<open>err\<close> nil, the
  value it has after line 165, and unwinds through the two deferred calls.
\<close>

definition ReparentShard ::
  "('pos, 'st, 'ps) world \<Rightarrow> ('pos, 'st, 'ps) deps \<Rightarrow> string \<Rightarrow> string
    \<Rightarrow> EmergencyReparentOptions \<Rightarrow> ('pos, 'st, 'ps) state
    \<Rightarrow> (Reparent option \<times> error option) outcome \<times> ('pos, 'st, 'ps) state" where
  "ReparentShard w d ks shard opts0 s =
     (let opts = opts0\<lparr>lockAction := getLockAction d (NewPrimaryAlias opts0)\<rparr>;
          locked = LockShard w (trace s) ks shard (lockAction opts);
          s1 = logStep (LockShard_step ks shard (lockAction opts) locked) s
      in case locked of
           Some err \<Rightarrow> (Return (None, Some err), s1)
         | None \<Rightarrow>
             (case reparentShardLocked w d ks shard opts
                     (s1\<lparr>ev := \<lparr>ShardInfo = \<lparr>keyspace = [], shardName = [], PrimaryAlias = None\<rparr>,
                                NewPrimary = None\<rparr>\<rparr>) of
                (Panic, s2) \<Rightarrow> (Panic, deferred None s2)
              | (Return err, s2) \<Rightarrow>
                  (let s3 = deferred err s2 in (Return (Some (ev s3), err), s3))))"

section \<open>What the log says about a run\<close>

text \<open>
  The predicates of this section are not part of the Go code: they are statements
  about the log of a run, used by the properties proved below.

  \<open>phase\<close> numbers the steps in the order of the body of \<^verbatim>\<open>reparentShardLocked\<close>.
  The steps that occur at several places (the lock checks, the dispatched updates,
  the unlock) have the number 20, and the fan-out of \<^verbatim>\<open>reparentReplicas\<close> has the
  number of the place it is called from: 11 for the intermediate reparent
  (\<^verbatim>\<open>populateReparentJournal\<close> false), 15 inside \<^verbatim>\<open>promoteNewPrimary\<close>.
\<close>

fun phase :: "('pos, 'st, 'ps) step \<Rightarrow> nat" where
  "phase (LockShard_step ks shard action r) = 0"
| "phase (GetShard_step r) = 1"
| "phase (GetTablet_step a r) = 2"
| "phase (GetTabletMapForShard_step r) = 3"
| "phase (StopReplicationAndBuildStatusMaps_step r) = 4"
| "phase (FindValidEmergencyReparentCandidates_step r) = 6"
| "phase (restrictValidCandidates_step r) = 7"
| "phase (waitForAllRelayLogsToApply_step r) = 8"
| "phase (findMostAdvanced_step r) = 9"
| "phase (intermediateCandidateIsIdeal_step t ts r) = 10"
| "phase (reparentReplicas_step t waitAll populate r) = (if populate then 15 else 11)"
| "phase (identifyPrimaryCandidate_step t ts r) = 12"
| "phase (waitForCatchUp_step t u r) = 13"
| "phase (checkIfConstraintsSatisfied_step t p r) = 14"
| "phase (PromoteReplica_step t r) = 15"
| "phase (promoteNewPrimary_step t r) = 16"
| "phase (CheckShardLocked_step r) = 20"
| "phase (DispatchUpdate_step m args) = 20"
| "phase (Unlock_step r) = 20"

text \<open>The options \<^verbatim>\<open>ReparentShard\<close> passes on, line 164.\<close>

definition lockedOpts ::
  "('pos, 'st, 'ps) deps \<Rightarrow> EmergencyReparentOptions \<Rightarrow> EmergencyReparentOptions" where
  "lockedOpts d opts = opts\<lparr>lockAction := getLockAction d (NewPrimaryAlias opts)\<rparr>"

text \<open>
  The previous primary \<^verbatim>\<open>prevPrimary\<close> of a run, lines 214 to 225: nil when the
  shard record read names no primary, the tablet read for the alias otherwise.
\<close>

definition prevPrimaryRead ::
  "('pos, 'st, 'ps) step list \<Rightarrow> TabletPtr option \<Rightarrow> bool" where
  "prevPrimaryRead zs prevPrimary \<longleftrightarrow>
     (case prevPrimary of
        None \<Rightarrow> (\<exists>shardInfo. GetShard_step (Inr shardInfo) \<in> set zs \<and>
                    PrimaryAlias shardInfo = None)
      | Some p \<Rightarrow>
          (\<exists>shardInfo primaryAlias prevPrimaryInfo.
             GetShard_step (Inr shardInfo) \<in> set zs \<and>
             PrimaryAlias shardInfo = Some primaryAlias \<and>
             GetTablet_step primaryAlias (Inr prevPrimaryInfo) \<in> set zs \<and>
             Tablet prevPrimaryInfo = p))"

text \<open>
  A run that ends without error has checked the constraints of a tablet against the
  previous primary without failure, has promoted that tablet and has written it to
  the event object.
\<close>

definition elected ::
  "('pos, 'st, 'ps) deps \<Rightarrow> EmergencyReparentOptions \<Rightarrow> TabletPtr option
    \<Rightarrow> error option outcome \<Rightarrow> ('pos, 'st, 'ps) step list \<Rightarrow> Reparent \<Rightarrow> bool" where
  "elected d opts prevPrimary r zs ev1 \<longleftrightarrow>
     (r = Return None \<longrightarrow>
       (\<exists>np. checkIfConstraintsSatisfied_step np prevPrimary None \<in> set zs \<and>
          checkIfConstraintsSatisfied d np prevPrimary opts = None \<and>
          promoteNewPrimary_step np None \<in> set zs \<and>
          NewPrimary ev1 = Some (obj np)))"

text \<open>
  Every failed constraint check of a run was made against the previous primary and
  decides the result: without a previous primary the run ends with the joined
  \<^verbatim>\<open>ABORTED\<close> errors and promotes nothing; with a previous primary \<open>p\<close> the only
  promotion of the run is the one of \<open>p\<close>, and the run ends with the constraint
  failure, joined with the error of that promotion when there is one.
\<close>

definition compensated ::
  "('pos, 'st, 'ps) deps \<Rightarrow> EmergencyReparentOptions \<Rightarrow> TabletPtr option
    \<Rightarrow> error option outcome \<Rightarrow> ('pos, 'st, 'ps) step list \<Rightarrow> bool" where
  "compensated d opts prevPrimary r zs \<longleftrightarrow>
     (\<forall>np pp failure.
        checkIfConstraintsSatisfied_step np pp (Some failure) \<in> set zs \<longrightarrow>
        pp = prevPrimary \<and> checkIfConstraintsSatisfied d np pp opts = Some failure \<and>
        (case pp of
           None \<Rightarrow>
             r = Return (Some (undoFailed noPrimaryToUndo failure)) \<and>
             (\<forall>t x. promoteNewPrimary_step t x \<notin> set zs) \<and>
             (\<forall>t x. PromoteReplica_step t x \<notin> set zs)
         | Some p \<Rightarrow>
             (\<exists>undo. promoteNewPrimary_step p undo \<in> set zs \<and>
                (\<forall>t x. promoteNewPrimary_step t x \<in> set zs \<longrightarrow> t = p \<and> x = undo) \<and>
                (\<forall>t x. PromoteReplica_step t x \<in> set zs \<longrightarrow> t = p) \<and>
                r = Return (Some (case undo of None \<Rightarrow> failure
                                  | Some err \<Rightarrow> undoFailed err failure)))))"

text \<open>
  The steps a run logs before it restricts the valid candidates, and a run that
  stops at an empty list of valid candidates.
\<close>

fun preparation :: "('pos, 'st, 'ps) step \<Rightarrow> bool" where
  "preparation (LockShard_step ks shard action r) = True"
| "preparation (GetShard_step r) = True"
| "preparation (GetTablet_step a r) = True"
| "preparation (DispatchUpdate_step f args) = True"
| "preparation (GetTabletMapForShard_step r) = True"
| "preparation (StopReplicationAndBuildStatusMaps_step r) = True"
| "preparation (CheckShardLocked_step r) = True"
| "preparation (FindValidEmergencyReparentCandidates_step r) = True"
| "preparation x = False"

definition stoppedWithoutCandidates ::
  "error option outcome \<Rightarrow> ('pos, 'st, 'ps) step list \<Rightarrow> bool" where
  "stoppedWithoutCandidates r zs \<longleftrightarrow>
     (restrictValidCandidates_step (Inr []) \<in> set zs \<longrightarrow>
        r = Return (Some noValidCandidates) \<and>
        (\<exists>pre. zs = pre @ [restrictValidCandidates_step (Inr [])] \<and> list_all preparation pre))"

text \<open>
  A run that gets past \<^verbatim>\<open>findMostAdvanced\<close> continues with the check of line 280
  and what follows it, \<^verbatim>\<open>idealStage\<close>: the steps \<open>zs\<close> of a stage, logged after \<open>h\<close>,
  are steps \<open>pre\<close> up to \<^verbatim>\<open>findMostAdvanced\<close> followed by the steps of \<^verbatim>\<open>idealStage\<close>
  run on the log \<open>h @ pre\<close>, whose result and event are those of the stage.
\<close>

definition idealReached ::
  "('pos, 'st, 'ps) world \<Rightarrow> ('pos, 'st, 'ps) deps \<Rightarrow> string \<Rightarrow> string
    \<Rightarrow> EmergencyReparentOptions \<Rightarrow> ('pos, 'st, 'ps) step list \<Rightarrow> TabletPtr option
    \<Rightarrow> (string \<times> TabletInfo) list \<Rightarrow> (string \<rightharpoonup> 'st)
    \<Rightarrow> error option outcome \<Rightarrow> ('pos, 'st, 'ps) step list \<Rightarrow> Reparent \<Rightarrow> bool" where
  "idealReached w d ks shard opts h pp tm sm r zs ev1 \<longleftrightarrow>
     (\<exists>pre src ts r' zs' ev0.
        zs = pre @ zs' \<and> (\<forall>x \<in> set pre. phase x \<le> 9 \<or> phase x = 20) \<and>
        idealStage w d (h @ pre) ev0 ks shard src ts pp opts tm sm = (r', zs', ev1) \<and>
        r = Return r')"

text \<open>
  A run in which \<^verbatim>\<open>findMostAdvanced\<close> fails ends with that error, and none of its
  steps comes after the selection of the intermediate source.
\<close>

definition stoppedAtSelection ::
  "error option outcome \<Rightarrow> ('pos, 'st, 'ps) step list \<Rightarrow> bool" where
  "stoppedAtSelection r zs \<longleftrightarrow>
     (\<forall>err. findMostAdvanced_step (Return (Inl err)) \<in> set zs \<longrightarrow>
        r = Return (Some err) \<and> (\<forall>x \<in> set zs. phase x \<le> 9 \<or> phase x = 20))"

section \<open>A small cluster\<close>

text \<open>
  The concrete instance the examples below are evaluated on: the three replicas of
  the first scenario of the specification, in cell \<open>z1\<close> at positions 10, 15 and 12,
  a fourth tablet in cell \<open>z2\<close>, and the previous primary \<open>z1-100\<close>. A position
  is a pair of counters, one for each of two sources of change records; a position is
  at least another when neither counter is smaller, so two positions can be
  incomparable. The helpers that are parameters of the model are given simple
  definitions.
\<close>

definition tabletAt :: "string \<Rightarrow> 32 word \<Rightarrow> nat \<Rightarrow> TabletPtr" where
  "tabletAt c u n = \<lparr>addr = n, obj = \<lparr>Alias = \<lparr>Cell = c, Uid = u\<rparr>\<rparr>\<rparr>"

definition exAliasString :: "TabletAlias \<Rightarrow> string" where
  "exAliasString a =
     Cell a @ ''-'' @
       (if Uid a = 100 then ''100'' else if Uid a = 101 then ''101''
        else if Uid a = 102 then ''102'' else if Uid a = 103 then ''103'' else ''104'')"

definition exOld :: TabletPtr where "exOld = tabletAt ''z1'' 100 1"
definition exA1 :: TabletPtr where "exA1 = tabletAt ''z1'' 101 2"
definition exA2 :: TabletPtr where "exA2 = tabletAt ''z1'' 102 3"
definition exA3 :: TabletPtr where "exA3 = tabletAt ''z1'' 103 4"
definition exB1 :: TabletPtr where "exB1 = tabletAt ''z2'' 104 5"

definition exTabletMap :: "(string \<times> TabletInfo) list" where
  "exTabletMap =
     [(''z1-101'', \<lparr>Tablet = exA1\<rparr>), (''z1-102'', \<lparr>Tablet = exA2\<rparr>),
      (''z1-103'', \<lparr>Tablet = exA3\<rparr>)]"

definition exCandidates :: "(string \<times> (nat \<times> nat)) list" where
  "exCandidates = [(''z1-101'', (10, 0)), (''z1-102'', (15, 0)), (''z1-103'', (12, 0))]"

text \<open>The fourth scenario: the third replica has change records of a second source.\<close>

definition exSplitCandidates :: "(string \<times> (nat \<times> nat)) list" where
  "exSplitCandidates = [(''z1-101'', (10, 0)), (''z1-102'', (15, 0)), (''z1-103'', (12, 2))]"

fun exAsList ::
  "(string \<times> (nat \<times> nat)) list \<Rightarrow> (string \<times> TabletInfo) list
    \<Rightarrow> error + (TabletPtr list \<times> (nat \<times> nat) list)" where
  "exAsList [] tabletMap = Inr ([], [])"
| "exAsList ((a, p) # rest) tabletMap =
     (case map_of tabletMap a of
        None \<Rightarrow>
          Inl (Errorf INTERNAL
            ''candidate %v not found in the tablet map; this an impossible situation'' [Str a])
      | Some ti \<Rightarrow>
          (case exAsList rest tabletMap of
             Inl err \<Rightarrow> Inl err
           | Inr (ts, ps) \<Rightarrow> Inr (Tablet ti # ts, p # ps)))"

fun exInsert ::
  "TabletPtr \<times> (nat \<times> nat) \<Rightarrow> (TabletPtr \<times> (nat \<times> nat)) list
    \<Rightarrow> (TabletPtr \<times> (nat \<times> nat)) list" where
  "exInsert x [] = [x]"
| "exInsert x (y # ys) =
     (if fst (snd y) + snd (snd y) < fst (snd x) + snd (snd x) then x # y # ys
      else y # exInsert x ys)"

definition exSort ::
  "TabletPtr list \<Rightarrow> (nat \<times> nat) list \<Rightarrow> string
    \<Rightarrow> error + (TabletPtr list \<times> (nat \<times> nat) list)" where
  "exSort ts ps idealCell =
     (if length ts \<noteq> length ps
      then Inl (Errorf INTERNAL ''unequal number of tablets and positions'' [])
      else (let zs = foldr exInsert (zip ts ps) [] in Inr (map fst zs, map snd zs)))"

fun exPossible ::
  "TabletPtr \<Rightarrow> TabletPtr option \<Rightarrow> TabletPtr list \<Rightarrow> bool \<Rightarrow> bool \<Rightarrow> TabletPtr option" where
  "exPossible newPrimary prevPrimary [] checkEqualPrimary checkSameCell = None"
| "exPossible newPrimary prevPrimary (c # cs) checkEqualPrimary checkSameCell =
     (if checkEqualPrimary \<and> \<not> TabletAliasEqual (Alias (obj newPrimary)) (Alias (obj c))
      then exPossible newPrimary prevPrimary cs checkEqualPrimary checkSameCell
      else if checkSameCell \<and>
              (case prevPrimary of
                 None \<Rightarrow> False
               | Some p \<Rightarrow> Cell (Alias (obj p)) \<noteq> Cell (Alias (obj c)))
      then exPossible newPrimary prevPrimary cs checkEqualPrimary checkSameCell
      else Some c)"

definition exDeps :: "(nat \<times> nat, bool, (string \<times> (nat \<times> nat)) list) deps" where
  "exDeps =
     \<lparr>AtLeast = (\<lambda>p q. fst q \<le> fst p \<and> snd q \<le> snd p),
      TabletAliasString = exAliasString,
      PromotionRule = (\<lambda>t. if Cell (Alias t) = ''z9'' then MustNotPromoteRule
                            else NeutralPromoteRule),
      getValidCandidatesAndPositionsAsList = exAsList,
      sortTabletsForERS = exSort,
      findPossibleCandidateFromListWithRestrictions = exPossible,
      ReplicaWasRunning = (\<lambda>status. Inr status),
      FindValidEmergencyReparentCandidates = (\<lambda>statusMap primaryStatusMap. Inr primaryStatusMap),
      restrictValidCandidates =
        (\<lambda>validCandidates tabletMap.
           Inr (filter (\<lambda>c. map_of tabletMap (fst c) \<noteq> None) validCandidates))\<rparr>"

definition exOpts :: EmergencyReparentOptions where
  "exOpts =
     \<lparr>NewPrimaryAlias = None, IgnoreReplicas = {}, WaitReplicasTimeout = 30,
      PreventCrossCellPromotion = False, lockAction = []\<rparr>"

text \<open>
  An environment in which every call succeeds: the shard record names \<open>z1-100\<close> as
  its primary, the three replicas were replicating and reported the positions of
  \<open>exCandidates\<close>. The examples change single answers of it.
\<close>

definition exErr :: error where
  "exErr = Errorf UNAVAILABLE ''tablet unreachable'' []"

definition exStatusMap :: "string \<rightharpoonup> bool" where
  "exStatusMap = map_of [(''z1-101'', True), (''z1-102'', True), (''z1-103'', True)]"

definition exWorld :: "(nat \<times> nat, bool, (string \<times> (nat \<times> nat)) list) world" where
  "exWorld =
     \<lparr>LockShard = (\<lambda>h ks shard action. None),
      GetShard = (\<lambda>h ks shard.
        Inr \<lparr>keyspace = ks, shardName = shard,
             PrimaryAlias = Some \<lparr>Cell = ''z1'', Uid = 100\<rparr>\<rparr>),
      GetTablet = (\<lambda>h a. Inr \<lparr>Tablet = exOld\<rparr>),
      GetTabletMapForShard = (\<lambda>h ks shard. Inr exTabletMap),
      CheckShardLocked = (\<lambda>h ks shard. None),
      StopReplicationAndBuildStatusMaps = (\<lambda>h tabletMap timeout ignore.
        Inr (exStatusMap, exCandidates)),
      WaitForRelayLogsToApply = (\<lambda>h ti status. None),
      MasterPosition = (\<lambda>h t. Inr ''position''),
      PopulateReparentJournal = (\<lambda>h t timeNs action a position. None),
      SetMaster = (\<lambda>h t a timeNs waitPosition forceStart. None),
      PromoteReplica = (\<lambda>h t. Inr ''position''),
      waitForCatchUp = (\<lambda>h source target timeout. None),
      UnixNano = (\<lambda>h. 0),
      selectSuccessFirst = (\<lambda>h. True)\<rparr>"

definition exState :: "(nat \<times> nat, bool, (string \<times> (nat \<times> nat)) list) state" where
  "exState =
     \<lparr>ersCounter = 0, ersSuccessCounter = 0, ersFailureCounter = 0, trace = [],
      ev = \<lparr>ShardInfo = \<lparr>keyspace = [], shardName = [], PrimaryAlias = None\<rparr>,
            NewPrimary = None\<rparr>\<rparr>"

text \<open>
  Variations of the environment, the helpers and the options: the shard lock is
  refused; the position of the new primary cannot be read; the shard record names
  the tablet \<open>z2-104\<close> of another cell as its primary; the shard record names no
  primary; no tablet may be promoted; the restriction leaves no valid candidate;
  promotion must stay in the cell of the previous primary; a new primary is
  requested.
\<close>

definition exWorldNoLock :: "(nat \<times> nat, bool, (string \<times> (nat \<times> nat)) list) world" where
  "exWorldNoLock = exWorld\<lparr>LockShard := (\<lambda>h ks shard action. Some exErr)\<rparr>"

definition exWorldPrimaryDown :: "(nat \<times> nat, bool, (string \<times> (nat \<times> nat)) list) world" where
  "exWorldPrimaryDown = exWorld\<lparr>MasterPosition := (\<lambda>h t. Inl exErr)\<rparr>"

definition exWorldOtherCell :: "(nat \<times> nat, bool, (string \<times> (nat \<times> nat)) list) world" where
  "exWorldOtherCell =
     exWorld\<lparr>GetShard := (\<lambda>h ks shard.
                Inr \<lparr>keyspace = ks, shardName = shard,
                     PrimaryAlias = Some \<lparr>Cell = ''z2'', Uid = 104\<rparr>\<rparr>),
             GetTablet := (\<lambda>h a. Inr \<lparr>Tablet = exB1\<rparr>)\<rparr>"

definition exWorldNoPrimary :: "(nat \<times> nat, bool, (string \<times> (nat \<times> nat)) list) world" where
  "exWorldNoPrimary =
     exWorld\<lparr>GetShard := (\<lambda>h ks shard.
                Inr \<lparr>keyspace = ks, shardName = shard, PrimaryAlias = None\<rparr>)\<rparr>"

definition exDepsMustNot :: "(nat \<times> nat, bool, (string \<times> (nat \<times> nat)) list) deps" where
  "exDepsMustNot = exDeps\<lparr>PromotionRule := (\<lambda>t. MustNotPromoteRule)\<rparr>"

definition exDepsNoCandidates :: "(nat \<times> nat, bool, (string \<times> (nat \<times> nat)) list) deps" where
  "exDepsNoCandidates = exDeps\<lparr>restrictValidCandidates := (\<lambda>validCandidates tabletMap. Inr [])\<rparr>"

definition exOptsSameCell :: EmergencyReparentOptions where
  "exOptsSameCell = exOpts\<lparr>PreventCrossCellPromotion := True\<rparr>"

definition exOptsRequested :: "32 word \<Rightarrow> EmergencyReparentOptions" where
  "exOptsRequested u = exOpts\<lparr>NewPrimaryAlias := Some \<lparr>Cell = ''z1'', Uid = u\<rparr>\<rparr>"

text \<open>The two errors of \<^verbatim>\<open>checkIfConstraintsSatisfied\<close> for the tablet \<open>z1-102\<close>.\<close>

definition exGeographic :: error where
  "exGeographic =
     Errorf ABORTED ''elected primary does not satisfy geographic constraint - %s''
       [Str ''z1-102'']"

definition exPromotionRule :: error where
  "exPromotionRule =
     Errorf ABORTED ''elected primary does not satisfy promotion rule constraint - %s''
       [Str ''z1-102'']"

section \<open>Properties of the selection functions\<close>

lemma TabletAliasEqual_iff: "TabletAliasEqual a b \<longleftrightarrow> a = b"
  by (cases a, cases b) (auto simp: TabletAliasEqual_def)

lemma exAliasString_simps:
  "exAliasString \<lparr>Cell = c, Uid = 100\<rparr> = c @ ''-100''"
  "exAliasString \<lparr>Cell = c, Uid = 101\<rparr> = c @ ''-101''"
  "exAliasString \<lparr>Cell = c, Uid = 102\<rparr> = c @ ''-102''"
  "exAliasString \<lparr>Cell = c, Uid = 103\<rparr> = c @ ''-103''"
  "exAliasString \<lparr>Cell = c, Uid = 104\<rparr> = c @ ''-104''"
  by (simp_all add: exAliasString_def)

lemmas ex_tablets = exOld_def exA1_def exA2_def exA3_def exB1_def tabletAt_def

subsection \<open>The constraint check without a previous primary\<close>

text \<open>
  C10. When \<^verbatim>\<open>prevPrimary\<close> is nil, \<^verbatim>\<open>checkIfConstraintsSatisfied\<close> never returns the
  geographic (cross-cell) error, whatever \<^verbatim>\<open>PreventCrossCellPromotion\<close> is, and for a
  candidate whose promotion rule is not \<^verbatim>\<open>MustNotPromoteRule\<close> it returns nil: a
  primary in any cell is accepted.
\<close>

theorem checkIfConstraintsSatisfied_without_prevPrimary:
  "(\<forall>args. checkIfConstraintsSatisfied d newPrimary None opts \<noteq>
        Some (Errorf ABORTED ''elected primary does not satisfy geographic constraint - %s'' args))
   \<and> (PromotionRule d (obj newPrimary) \<noteq> MustNotPromoteRule \<longrightarrow>
        checkIfConstraintsSatisfied d newPrimary None opts = None)"
  by (simp add: checkIfConstraintsSatisfied_def)

theorem checkIfConstraintsSatisfied_without_prevPrimary_witness:
  "PromotionRule exDeps (obj exB1) \<noteq> MustNotPromoteRule
   \<and> checkIfConstraintsSatisfied exDeps exB1 None
        (exOpts\<lparr>PreventCrossCellPromotion := True\<rparr>) = None"
proof -
  have rule: "PromotionRule exDeps (obj exB1) \<noteq> MustNotPromoteRule"
    by (simp add: exDeps_def ex_tablets)
  with checkIfConstraintsSatisfied_without_prevPrimary
         [of exDeps exB1 "exOpts\<lparr>PreventCrossCellPromotion := True\<rparr>"]
  show ?thesis by blast
qed

subsection \<open>The requested primary in the final selection\<close>

text \<open>
  C6. In \<^verbatim>\<open>identifyPrimaryCandidate\<close> with \<^verbatim>\<open>opts.NewPrimaryAlias\<close> set: when a tablet
  of the list of valid candidates has the requested alias, the tablet the tablet map
  holds under that alias is returned, whatever the promotion rules, the cells, the
  previous primary and \<^verbatim>\<open>PreventCrossCellPromotion\<close> are; when no tablet of the list has
  it, the function fails with the \<^verbatim>\<open>ABORTED\<close> error ``requested candidate is not in
  valid candidates list''. The requested alias is one of the tablet map, as it is in
  every run that reaches the function (lines 641 to 644 return \<^verbatim>\<open>INTERNAL\<close> otherwise,
  ``an impossible situation'').
\<close>

theorem identifyPrimaryCandidate_requested:
  assumes "NewPrimaryAlias opts = Some requested"
    and "map_of tabletMap (TabletAliasString d requested) = Some info"
  shows "identifyPrimaryCandidate d newPrimary prevPrimary validCandidates tabletMap opts =
     (if \<exists>c \<in> set validCandidates. Alias (obj c) = requested then Inr (Tablet info)
      else Inl (Errorf ABORTED ''requested candidate %v is not in valid candidates list''
                 [Str (TabletAliasString d requested)]))"
  using assms
  by (simp add: identifyPrimaryCandidate_def list_ex_iff TabletAliasEqual_iff)

theorem identifyPrimaryCandidate_requested_witness:
  "identifyPrimaryCandidate exDeps exA2 (Some exOld) [exB1, exA2]
      ((''z2-104'', \<lparr>Tablet = exB1\<rparr>) # exTabletMap)
      (exOpts\<lparr>NewPrimaryAlias := Some \<lparr>Cell = ''z2'', Uid = 104\<rparr>,
              PreventCrossCellPromotion := True\<rparr>) = Inr exB1
   \<and> identifyPrimaryCandidate exDeps exA2 (Some exOld) [exA1, exA2] exTabletMap
      (exOpts\<lparr>NewPrimaryAlias := Some \<lparr>Cell = ''z1'', Uid = 103\<rparr>\<rparr>) =
     Inl (Errorf ABORTED ''requested candidate %v is not in valid candidates list''
            [Str ''z1-103''])"
proof -
  have present:
    "map_of ((''z2-104'', \<lparr>Tablet = exB1\<rparr>) # exTabletMap)
       (TabletAliasString exDeps \<lparr>Cell = ''z2'', Uid = 104\<rparr>) = Some \<lparr>Tablet = exB1\<rparr>"
    by (simp add: exDeps_def exAliasString_simps)
  have absent:
    "map_of exTabletMap (TabletAliasString exDeps \<lparr>Cell = ''z1'', Uid = 103\<rparr>) =
       Some \<lparr>Tablet = exA3\<rparr>"
    by (simp add: exDeps_def exAliasString_simps exTabletMap_def)
  have name: "TabletAliasString exDeps \<lparr>Cell = ''z1'', Uid = 103\<rparr> = ''z1-103''"
    by (simp add: exDeps_def exAliasString_simps)
  show ?thesis
    using identifyPrimaryCandidate_requested [OF _ present, of
            "exOpts\<lparr>NewPrimaryAlias := Some \<lparr>Cell = ''z2'', Uid = 104\<rparr>,
                    PreventCrossCellPromotion := True\<rparr>" exA2 "Some exOld" "[exB1, exA2]"]
          identifyPrimaryCandidate_requested [OF _ absent, of
            "exOpts\<lparr>NewPrimaryAlias := Some \<lparr>Cell = ''z1'', Uid = 103\<rparr>\<rparr>"
            exA2 "Some exOld" "[exA1, exA2]"]
    by (simp add: name ex_tablets)
qed

subsection \<open>The intermediate source\<close>

lemma splitBrainLoop_ok:
  "\<forall>p \<in> set ps. atl wp p \<Longrightarrow> splitBrainLoop atl wp t ts i ps = Return None"
  by (induction ps arbitrary: i) auto

lemma splitBrainLoop_bad:
  "\<exists>p \<in> set ps. \<not> atl wp p \<Longrightarrow> i + length ps \<le> length ts \<Longrightarrow>
   \<exists>j < length ps. \<not> atl wp (ps ! j) \<and> (\<forall>k < j. atl wp (ps ! k)) \<and>
      splitBrainLoop atl wp t ts i ps =
        Return (Some (Errorf FAILED_PRECONDITION
             ''split brain detected between servers - %v and %v''
             [AliasArg (Alias (obj t)), AliasArg (Alias (obj (ts ! (i + j))))]))"
proof (induction ps arbitrary: i)
  case Nil
  then show ?case by simp
next
  case (Cons p ps)
  show ?case
  proof (cases "atl wp p")
    case False
    with Cons.prems show ?thesis by (intro exI[of _ 0]) auto
  next
    case True
    with Cons.prems have ex: "\<exists>p \<in> set ps. \<not> atl wp p" and len: "Suc i + length ps \<le> length ts"
      by auto
    from Cons.IH[OF ex len] obtain j where j: "j < length ps" "\<not> atl wp (ps ! j)"
      "\<forall>k < j. atl wp (ps ! k)"
      "splitBrainLoop atl wp t ts (Suc i) ps =
        Return (Some (Errorf FAILED_PRECONDITION
             ''split brain detected between servers - %v and %v''
             [AliasArg (Alias (obj t)), AliasArg (Alias (obj (ts ! (Suc i + j))))]))"
      by blast
    show ?thesis
      using True j by (intro exI[of _ "Suc j"]) (auto simp: less_Suc_eq_0_disj)
  qed
qed

lemma findMostAdvanced_sorted:
  assumes "getValidCandidatesAndPositionsAsList d validCandidates tabletMap = Inr (ts0, ps0)"
    and "sortTabletsForERS d ts0 ps0
           (case prevPrimary of None \<Rightarrow> [] | Some p \<Rightarrow> Cell (Alias (obj p))) =
         Inr (head # others, headPosition # otherPositions)"
  shows "findMostAdvanced d prevPrimary validCandidates tabletMap opts =
     (case splitBrainLoop (AtLeast d) headPosition head (head # others) 0
             (headPosition # otherPositions) of
        Panic \<Rightarrow> Panic
      | Return (Some err) \<Rightarrow> Return (Inl err)
      | Return None \<Rightarrow>
          Return (electRequested d validCandidates tabletMap opts head headPosition
                    (head # others)))"
  using assms by (simp add: findMostAdvanced_def)

lemma electRequested_not_split_brain:
  "electRequested d vc tm opts t wp ts \<noteq>
     Inl (Errorf FAILED_PRECONDITION ''split brain detected between servers - %v and %v'' args)"
  by (simp add: electRequested_def Let_def split: option.splits)

lemma ex_split_list:
  "getValidCandidatesAndPositionsAsList exDeps exSplitCandidates exTabletMap =
     Inr ([exA1, exA2, exA3], [(10, 0), (15, 0), (12, 2)])"
  by (simp add: exDeps_def exSplitCandidates_def exTabletMap_def)

lemma ex_split_sort:
  "sortTabletsForERS exDeps [exA1, exA2, exA3] [(10, 0), (15, 0), (12, 2)]
     (case Some exOld of None \<Rightarrow> [] | Some p \<Rightarrow> Cell (Alias (obj p))) =
   Inr (exA2 # [exA3, exA1], (15, 0) # [(12, 2), (10, 0)])"
  by (simp add: exDeps_def exSort_def)

lemma ex_list:
  "getValidCandidatesAndPositionsAsList exDeps exCandidates exTabletMap =
     Inr ([exA1, exA2, exA3], [(10, 0), (15, 0), (12, 0)])"
  by (simp add: exDeps_def exCandidates_def exTabletMap_def)

lemma ex_sort:
  "sortTabletsForERS exDeps [exA1, exA2, exA3] [(10, 0), (15, 0), (12, 0)]
     (case Some exOld of None \<Rightarrow> [] | Some p \<Rightarrow> Cell (Alias (obj p))) =
   Inr (exA2 # [exA3, exA1], (15, 0) # [(12, 0), (10, 0)])"
  by (simp add: exDeps_def exSort_def)

text \<open>
  C1. In \<^verbatim>\<open>findMostAdvanced\<close>, once the valid candidates are a sorted list with the
  head \<open>head\<close> at the position \<open>headPosition\<close>: the function fails with the
  \<^verbatim>\<open>FAILED_PRECONDITION\<close> split brain error if and only if some other candidate has a
  position that \<open>headPosition\<close> is not at least; the error then names the head and the
  first such candidate. When the function returns an intermediate source, the
  position of the tablet it returns (the head, or the requested tablet) is at least
  the position of every valid candidate. \<^verbatim>\<open>AtLeast\<close> is the preorder of the
  specification's data model; the two lists have one length, as after
  \<^verbatim>\<open>sortTabletsForERS\<close>.
\<close>

theorem findMostAdvanced_split_brain:
  assumes list: "getValidCandidatesAndPositionsAsList d validCandidates tabletMap = Inr (ts0, ps0)"
    and sorted: "sortTabletsForERS d ts0 ps0
           (case prevPrimary of None \<Rightarrow> [] | Some p \<Rightarrow> Cell (Alias (obj p))) =
         Inr (head # others, headPosition # otherPositions)"
    and len: "length others = length otherPositions"
    and refl: "\<forall>p. AtLeast d p p"
    and trans: "\<forall>p q r. AtLeast d p q \<longrightarrow> AtLeast d q r \<longrightarrow> AtLeast d p r"
  shows "((\<exists>a b. findMostAdvanced d prevPrimary validCandidates tabletMap opts =
             Return (Inl (Errorf FAILED_PRECONDITION
               ''split brain detected between servers - %v and %v'' [AliasArg a, AliasArg b])))
          \<longleftrightarrow> (\<exists>p \<in> set otherPositions. \<not> AtLeast d headPosition p))
       \<and> ((\<exists>p \<in> set otherPositions. \<not> AtLeast d headPosition p) \<longrightarrow>
            (\<exists>i < length others. \<not> AtLeast d headPosition (otherPositions ! i) \<and>
               findMostAdvanced d prevPrimary validCandidates tabletMap opts =
                 Return (Inl (Errorf FAILED_PRECONDITION
                   ''split brain detected between servers - %v and %v''
                   [AliasArg (Alias (obj head)), AliasArg (Alias (obj (others ! i)))]))))
       \<and> (\<forall>chosen tablets.
             findMostAdvanced d prevPrimary validCandidates tabletMap opts =
               Return (Inr (chosen, tablets)) \<longrightarrow>
             (\<exists>chosenPosition.
                (chosen = head \<and> chosenPosition = headPosition \<or>
                 (\<exists>a info. NewPrimaryAlias opts = Some a \<and>
                    map_of validCandidates (TabletAliasString d a) = Some chosenPosition \<and>
                    map_of tabletMap (TabletAliasString d a) = Some info \<and>
                    chosen = Tablet info)) \<and>
                (\<forall>p \<in> set (headPosition # otherPositions). AtLeast d chosenPosition p)))"
proof -
  let ?res = "findMostAdvanced d prevPrimary validCandidates tabletMap opts"
  let ?loop = "splitBrainLoop (AtLeast d) headPosition head (head # others) 0
                 (headPosition # otherPositions)"
  note unfolded = findMostAdvanced_sorted[OF list sorted, of opts]
  have head_ok: "AtLeast d headPosition headPosition" using refl by blast
  have bad: "\<exists>i < length others. \<not> AtLeast d headPosition (otherPositions ! i) \<and>
       ?res = Return (Inl (Errorf FAILED_PRECONDITION
                   ''split brain detected between servers - %v and %v''
                   [AliasArg (Alias (obj head)), AliasArg (Alias (obj (others ! i)))]))"
    if ex: "\<exists>p \<in> set otherPositions. \<not> AtLeast d headPosition p"
  proof -
    have "Suc 0 + length otherPositions \<le> length (head # others)" using len by simp
    from splitBrainLoop_bad[where atl = "AtLeast d" and wp = headPosition and t = head
          and ps = otherPositions and i = "Suc 0" and ts = "head # others", OF ex this]
    obtain j where
      j: "j < length otherPositions" "\<not> AtLeast d headPosition (otherPositions ! j)"
      and loop: "splitBrainLoop (AtLeast d) headPosition head (head # others) (Suc 0) otherPositions =
        Return (Some (Errorf FAILED_PRECONDITION
             ''split brain detected between servers - %v and %v''
             [AliasArg (Alias (obj head)), AliasArg (Alias (obj ((head # others) ! (Suc 0 + j))))]))"
      by blast
    have "?loop = Return (Some (Errorf FAILED_PRECONDITION
             ''split brain detected between servers - %v and %v''
             [AliasArg (Alias (obj head)), AliasArg (Alias (obj (others ! j)))]))"
      using head_ok loop by simp
    then have "?res = Return (Inl (Errorf FAILED_PRECONDITION
                   ''split brain detected between servers - %v and %v''
                   [AliasArg (Alias (obj head)), AliasArg (Alias (obj (others ! j)))]))"
      using unfolded by simp
    with j len show ?thesis by auto
  qed
  have good: "?res = Return (electRequested d validCandidates tabletMap opts head headPosition
                    (head # others))"
    if all: "\<forall>p \<in> set otherPositions. AtLeast d headPosition p"
  proof -
    have "\<forall>p \<in> set (headPosition # otherPositions). AtLeast d headPosition p"
      using all head_ok by simp
    from splitBrainLoop_ok[where atl = "AtLeast d" and wp = headPosition, OF this]
    have "?loop = Return None" .
    then show ?thesis using unfolded by simp
  qed
  have iff: "(\<exists>a b. ?res = Return (Inl (Errorf FAILED_PRECONDITION
               ''split brain detected between servers - %v and %v'' [AliasArg a, AliasArg b])))
          \<longleftrightarrow> (\<exists>p \<in> set otherPositions. \<not> AtLeast d headPosition p)"
  proof
    assume "\<exists>a b. ?res = Return (Inl (Errorf FAILED_PRECONDITION
               ''split brain detected between servers - %v and %v'' [AliasArg a, AliasArg b]))"
    then obtain a b where ab: "?res = Return (Inl (Errorf FAILED_PRECONDITION
               ''split brain detected between servers - %v and %v'' [AliasArg a, AliasArg b]))"
      by blast
    show "\<exists>p \<in> set otherPositions. \<not> AtLeast d headPosition p"
    proof (rule ccontr)
      assume "\<not> (\<exists>p \<in> set otherPositions. \<not> AtLeast d headPosition p)"
      then have "\<forall>p \<in> set otherPositions. AtLeast d headPosition p" by blast
      from good[OF this] ab
      have "electRequested d validCandidates tabletMap opts head headPosition (head # others) =
              Inl (Errorf FAILED_PRECONDITION
               ''split brain detected between servers - %v and %v'' [AliasArg a, AliasArg b])"
        by simp
      then show False by (simp add: electRequested_not_split_brain)
    qed
  next
    assume "\<exists>p \<in> set otherPositions. \<not> AtLeast d headPosition p"
    from bad[OF this] show "\<exists>a b. ?res = Return (Inl (Errorf FAILED_PRECONDITION
               ''split brain detected between servers - %v and %v'' [AliasArg a, AliasArg b]))"
      by blast
  qed
  have chosen: "\<exists>chosenPosition.
                (chosen = head \<and> chosenPosition = headPosition \<or>
                 (\<exists>a info. NewPrimaryAlias opts = Some a \<and>
                    map_of validCandidates (TabletAliasString d a) = Some chosenPosition \<and>
                    map_of tabletMap (TabletAliasString d a) = Some info \<and>
                    chosen = Tablet info)) \<and>
                (\<forall>p \<in> set (headPosition # otherPositions). AtLeast d chosenPosition p)"
    if res: "?res = Return (Inr (chosen, tablets))" for chosen tablets
  proof -
    have all: "\<forall>p \<in> set otherPositions. AtLeast d headPosition p"
    proof (rule ccontr)
      assume "\<not> (\<forall>p \<in> set otherPositions. AtLeast d headPosition p)"
      then have "\<exists>p \<in> set otherPositions. \<not> AtLeast d headPosition p" by blast
      from bad[OF this] res show False by auto
    qed
    then have dom: "\<forall>p \<in> set (headPosition # otherPositions). AtLeast d headPosition p"
      using head_ok by simp
    from good[OF all] res
    have el: "electRequested d validCandidates tabletMap opts head headPosition (head # others) =
                Inr (chosen, tablets)" by simp
    show ?thesis
    proof (cases "chosen = head")
      case True
      with dom show ?thesis by blast
    next
      case False
      with el obtain a info pos where
        "NewPrimaryAlias opts = Some a"
        "map_of validCandidates (TabletAliasString d a) = Some pos"
        "AtLeast d pos headPosition"
        "map_of tabletMap (TabletAliasString d a) = Some info"
        "chosen = Tablet info"
        by (auto simp: electRequested_def Let_def split: option.splits if_splits)
      moreover from this dom trans have "\<forall>p \<in> set (headPosition # otherPositions). AtLeast d pos p"
        by blast
      ultimately show ?thesis by blast
    qed
  qed
  from iff bad chosen show ?thesis by blast
qed

theorem findMostAdvanced_split_brain_witness:
  "(\<exists>a b. findMostAdvanced exDeps (Some exOld) exSplitCandidates exTabletMap exOpts =
      Return (Inl (Errorf FAILED_PRECONDITION
         ''split brain detected between servers - %v and %v'' [AliasArg a, AliasArg b])))
   \<and> (\<exists>p \<in> set [(12, 2), (10, 0)]. \<not> AtLeast exDeps (15, 0) p)"
proof -
  have refl: "\<forall>p. AtLeast exDeps p p" by (simp add: exDeps_def)
  have trans: "\<forall>p q r. AtLeast exDeps p q \<longrightarrow> AtLeast exDeps q r \<longrightarrow> AtLeast exDeps p r"
    by (auto simp: exDeps_def)
  have len: "length [exA3, exA1] = length [(12, 2), (10, 0 :: nat) :: nat \<times> nat]" by simp
  have bad: "\<exists>p \<in> set [(12, 2), (10, 0)]. \<not> AtLeast exDeps (15, 0) p"
    by (simp add: exDeps_def)
  from findMostAdvanced_split_brain[OF ex_split_list ex_split_sort len refl trans, of exOpts] bad show ?thesis by blast
qed

text \<open>
  C5. In \<^verbatim>\<open>findMostAdvanced\<close> with \<^verbatim>\<open>opts.NewPrimaryAlias\<close> set, once the candidates
  are sorted and the split brain check has passed: a requested alias that is not a
  key of \<^verbatim>\<open>validCandidates\<close> fails with \<^verbatim>\<open>FAILED_PRECONDITION\<close> (``requested primary
  elect has errant GTIDs''); a requested alias whose position is at least the head's
  makes the requested tablet the intermediate source; one whose position is not
  leaves the head as the intermediate source. Every valid candidate is a tablet of
  the tablet map (lines 453 to 455 return \<^verbatim>\<open>INTERNAL\<close> otherwise, ``an impossible
  situation'').
\<close>

theorem findMostAdvanced_requested:
  assumes req: "NewPrimaryAlias opts = Some requested"
    and list: "getValidCandidatesAndPositionsAsList d validCandidates tabletMap = Inr (ts0, ps0)"
    and sorted: "sortTabletsForERS d ts0 ps0
           (case prevPrimary of None \<Rightarrow> [] | Some p \<Rightarrow> Cell (Alias (obj p))) =
         Inr (head # others, headPosition # otherPositions)"
    and nosplit: "\<forall>p \<in> set (headPosition # otherPositions). AtLeast d headPosition p"
    and known: "fst ` set validCandidates \<subseteq> fst ` set tabletMap"
  shows "(map_of validCandidates (TabletAliasString d requested) = None \<longrightarrow>
           findMostAdvanced d prevPrimary validCandidates tabletMap opts =
             Return (Inl (Errorf FAILED_PRECONDITION
               ''requested primary elect %v has errant GTIDs''
               [Str (TabletAliasString d requested)])))
       \<and> (\<forall>pos. map_of validCandidates (TabletAliasString d requested) = Some pos \<and>
                  AtLeast d pos headPosition \<longrightarrow>
              (\<exists>info. map_of tabletMap (TabletAliasString d requested) = Some info \<and>
                 findMostAdvanced d prevPrimary validCandidates tabletMap opts =
                   Return (Inr (Tablet info, head # others))))
       \<and> (\<forall>pos. map_of validCandidates (TabletAliasString d requested) = Some pos \<and>
                  \<not> AtLeast d pos headPosition \<longrightarrow>
              findMostAdvanced d prevPrimary validCandidates tabletMap opts =
                Return (Inr (head, head # others)))"
proof -
  have loop: "splitBrainLoop (AtLeast d) headPosition head (head # others) 0
                 (headPosition # otherPositions) = Return None"
    by (rule splitBrainLoop_ok[where atl = "AtLeast d" and wp = headPosition, OF nosplit])
  have res: "findMostAdvanced d prevPrimary validCandidates tabletMap opts =
      Return (electRequested d validCandidates tabletMap opts head headPosition (head # others))"
    using findMostAdvanced_sorted[OF list sorted, of opts] loop by simp
  have inmap: "\<exists>info. map_of tabletMap (TabletAliasString d requested) = Some info"
    if "map_of validCandidates (TabletAliasString d requested) = Some pos" for pos
  proof -
    from that have "(TabletAliasString d requested, pos) \<in> set validCandidates"
      by (rule map_of_SomeD)
    then have "TabletAliasString d requested \<in> fst ` set validCandidates"
      by force
    with known have "TabletAliasString d requested \<in> fst ` set tabletMap" by blast
    then show ?thesis by (cases "map_of tabletMap (TabletAliasString d requested)")
        (auto simp: map_of_eq_None_iff)
  qed
  show ?thesis
    unfolding res using req inmap
    by (auto simp: electRequested_def Let_def split: option.splits)
qed

theorem findMostAdvanced_requested_witness:
  "findMostAdvanced exDeps (Some exOld) exCandidates exTabletMap
      (exOpts\<lparr>NewPrimaryAlias := Some \<lparr>Cell = ''z1'', Uid = 103\<rparr>\<rparr>) =
     Return (Inr (exA2, [exA2, exA3, exA1]))
   \<and> findMostAdvanced exDeps (Some exOld) exCandidates exTabletMap
      (exOpts\<lparr>NewPrimaryAlias := Some \<lparr>Cell = ''z1'', Uid = 102\<rparr>\<rparr>) =
     Return (Inr (exA2, [exA2, exA3, exA1]))
   \<and> findMostAdvanced exDeps (Some exOld) exCandidates exTabletMap
      (exOpts\<lparr>NewPrimaryAlias := Some \<lparr>Cell = ''z2'', Uid = 104\<rparr>\<rparr>) =
     Return (Inl (Errorf FAILED_PRECONDITION ''requested primary elect %v has errant GTIDs''
                   [Str ''z2-104'']))"
proof -
  have nosplit: "\<forall>p \<in> set ((15, 0) # [(12, 0), (10, 0)]). AtLeast exDeps (15, 0) p"
    by (simp add: exDeps_def)
  have known: "fst ` set exCandidates \<subseteq> fst ` set exTabletMap"
    by (simp add: exCandidates_def exTabletMap_def)
  note inst = findMostAdvanced_requested [OF _ ex_list ex_sort nosplit known]
  have behind:
    "findMostAdvanced exDeps (Some exOld) exCandidates exTabletMap
      (exOpts\<lparr>NewPrimaryAlias := Some \<lparr>Cell = ''z1'', Uid = 103\<rparr>\<rparr>) =
     Return (Inr (exA2, [exA2, exA3, exA1]))"
    using inst [of "exOpts\<lparr>NewPrimaryAlias := Some \<lparr>Cell = ''z1'', Uid = 103\<rparr>\<rparr>"
                   "\<lparr>Cell = ''z1'', Uid = 103\<rparr>"]
    by (simp add: exDeps_def exAliasString_simps exCandidates_def)
  have ahead:
    "findMostAdvanced exDeps (Some exOld) exCandidates exTabletMap
      (exOpts\<lparr>NewPrimaryAlias := Some \<lparr>Cell = ''z1'', Uid = 102\<rparr>\<rparr>) =
     Return (Inr (exA2, [exA2, exA3, exA1]))"
    using inst [of "exOpts\<lparr>NewPrimaryAlias := Some \<lparr>Cell = ''z1'', Uid = 102\<rparr>\<rparr>"
                   "\<lparr>Cell = ''z1'', Uid = 102\<rparr>"]
    by (simp add: exDeps_def exAliasString_simps exCandidates_def exTabletMap_def)
  have absent:
    "findMostAdvanced exDeps (Some exOld) exCandidates exTabletMap
      (exOpts\<lparr>NewPrimaryAlias := Some \<lparr>Cell = ''z2'', Uid = 104\<rparr>\<rparr>) =
     Return (Inl (Errorf FAILED_PRECONDITION ''requested primary elect %v has errant GTIDs''
                   [Str ''z2-104'']))"
    using inst [of "exOpts\<lparr>NewPrimaryAlias := Some \<lparr>Cell = ''z2'', Uid = 104\<rparr>\<rparr>"
                   "\<lparr>Cell = ''z2'', Uid = 104\<rparr>"]
    by (simp add: exDeps_def exAliasString_simps exCandidates_def)
  from behind ahead absent show ?thesis by blast
qed

section \<open>Properties of reparentReplicas\<close>

text \<open>The definitions an example is evaluated with.\<close>

lemmas model_defs = ReparentShard_def reparentShardLocked_def shardStage_def tabletMapStage_def
  candidatesStage_def selectStage_def idealStage_def improveStage_def constraintStage_def
  promoteStage_def promoteNewPrimary_def promoteIntermediatePrimary_def reparentReplicas_def
  reparentReplicasResult_def recError_def replicaOutcomes_def fannedOut_def handleReplica_def
  handlePrimary_def
  waitForAllRelayLogsToApply_def findMostAdvanced_def electRequested_def
  intermediateCandidateIsIdeal_def identifyPrimaryCandidate_def checkIfConstraintsSatisfied_def
  getLockAction_def deferred_def logged_def returned_def logStep_def emitted_def
  TabletAliasEqual_def undoFailed_def noPrimaryToUndo_def noValidCandidates_def Let_def

lemmas ex_defs = exWorld_def exDeps_def exOpts_def exState_def exTabletMap_def exCandidates_def
  exStatusMap_def exSort_def ex_tablets exAliasString_simps exErr_def
  exWorldNoLock_def exWorldPrimaryDown_def exWorldOtherCell_def exWorldNoPrimary_def
  exDepsMustNot_def exDepsNoCandidates_def exOptsSameCell_def exOptsRequested_def
  exGeographic_def exPromotionRule_def

lemma recorded_started_length:
  "length (recordedErrors xs) + length (startedReplication xs) = length xs"
  by (induction xs rule: recordedErrors.induct) simp_all

lemma replicaOutcomes_length:
  "length (replicaOutcomes w d h np tm sm opts) = length (fannedOut d opts np tm)"
  by (simp add: replicaOutcomes_def)

lemma startedReplication_iff: "t \<in> set (startedReplication xs) \<longleftrightarrow> Inr t \<in> set xs"
  by (induction xs rule: startedReplication.induct) auto

lemma handleReplica_started:
  assumes "handleReplica w d h sm np (a, ti) = Inr t"
  shows "t = Tablet ti \<and>
         (\<exists>forceStart.
            (case sm a of None \<Rightarrow> Inr False | Some status \<Rightarrow> ReplicaWasRunning d status) =
              Inr forceStart \<and>
            SetMaster w h (Tablet ti) (Alias (obj np)) 0 [] forceStart = None)"
  using assms by (auto simp: handleReplica_def split: sum.splits option.splits)

lemma replicaOutcomes_started:
  assumes "t \<in> set (startedReplication (replicaOutcomes w d h np tm sm opts))"
  shows "\<exists>a ti forceStart.
           (a, ti) \<in> set (fannedOut d opts np tm) \<and> t = Tablet ti \<and>
           (case sm a of None \<Rightarrow> Inr False | Some status \<Rightarrow> ReplicaWasRunning d status) =
             Inr forceStart \<and>
           SetMaster w h t (Alias (obj np)) 0 [] forceStart = None"
proof -
  from assms obtain r where r: "r \<in> set (fannedOut d opts np tm)"
    and out: "handleReplica w d h sm np r = Inr t"
    by (auto simp: startedReplication_iff replicaOutcomes_def)
  obtain a ti where "r = (a, ti)" by (cases r)
  with r out handleReplica_started[of w d h sm np a ti t] show ?thesis by blast
qed

lemma handlePrimary_None:
  assumes "handlePrimary w h opts np populate = None"
  shows "\<exists>position. MasterPosition w h np = Inr position \<and>
           (populate \<longrightarrow>
              PopulateReparentJournal w h np (UnixNano w h) (lockAction opts) (Alias (obj np))
                position = None)"
  using assms by (auto simp: handlePrimary_def split: sum.splits if_splits)

lemma reparentReplicasResult_Inr:
  assumes "reparentReplicasResult w d h np tm sm opts waitAll populate = Inr replicas"
  shows "handlePrimary w h opts np populate = None"
    and "waitAll \<longrightarrow> replicas = startedReplication (replicaOutcomes w d h np tm sm opts)"
    and "fannedOut d opts np tm = [] \<or>
         startedReplication (replicaOutcomes w d h np tm sm opts) \<noteq> []"
proof -
  let ?fin = "replicaOutcomes w d h np tm sm opts"
  have sum: "length (recordedErrors ?fin) + length (startedReplication ?fin) =
             length (fannedOut d opts np tm)"
    using recorded_started_length[of ?fin] replicaOutcomes_length[of w d h np tm sm opts]
    by simp
  from assms show "handlePrimary w h opts np populate = None"
    by (auto simp: reparentReplicasResult_def Let_def split: option.splits)
  from assms sum show
    "waitAll \<longrightarrow> replicas = startedReplication (replicaOutcomes w d h np tm sm opts)"
    by (auto simp: reparentReplicasResult_def Let_def recError_def
        split: option.splits if_splits)
  from assms sum show "fannedOut d opts np tm = [] \<or>
         startedReplication (replicaOutcomes w d h np tm sm opts) \<noteq> []"
    by (auto simp: reparentReplicasResult_def Let_def recError_def
        split: option.splits if_splits)
qed

text \<open>
  C3, amended. With \<^verbatim>\<open>waitForAllReplicas\<close> true, \<^verbatim>\<open>reparentReplicas\<close> does not return
  through the first replica success. When the step on the new primary fails, the
  function fails with that error, whatever the replicas did (lines 580 to 586).
  When that step succeeds (\<^verbatim>\<open>handlePrimary\<close> returns nil) and there is no replica
  to fan out to, the function returns a nil list and no error (line 611 wraps the
  nil error of an empty recorder). When that step succeeds and there is a replica to
  fan out to, the function fails if and only if the number of errors the replicas
  recorded equals the number of replicas, and otherwise it returns the replicas that
  started replication, a list that is not empty. Every replica either records an
  error or starts replication, and a replica that started replication is a tablet of
  the fan-out whose \<^verbatim>\<open>SetMaster\<close> call returned no error.
\<close>

theorem reparentReplicas_waitForAllReplicas:
  "let h' = h @ [DispatchUpdate_step ''reparenting all tablets'' []];
       replicas = fannedOut d opts np tm;
       finished = replicaOutcomes w d h' np tm sm opts;
       res = fst (reparentReplicas w d h np tm sm opts True populate)
   in case handlePrimary w h' opts np populate of
        Some primaryErr \<Rightarrow>
          res = Inl (Wrapf primaryErr ''failed to PopulateReparentJournal on primary: %v''
                      [ErrArg primaryErr])
      | None \<Rightarrow>
          (replicas = [] \<longrightarrow> res = Inr []) \<and>
          (replicas \<noteq> [] \<longrightarrow>
             ((\<exists>err. res = Inl err) \<longleftrightarrow> length (recordedErrors finished) = length replicas) \<and>
             (length (recordedErrors finished) \<noteq> length replicas \<longrightarrow>
                res = Inr (startedReplication finished) \<and> startedReplication finished \<noteq> [])) \<and>
          length (recordedErrors finished) + length (startedReplication finished) =
            length replicas \<and>
          (\<forall>t \<in> set (startedReplication finished).
             \<exists>a ti forceStart.
               (a, ti) \<in> set replicas \<and> t = Tablet ti \<and>
               (case sm a of None \<Rightarrow> Inr False | Some status \<Rightarrow> ReplicaWasRunning d status) =
                 Inr forceStart \<and>
               SetMaster w h' t (Alias (obj np)) 0 [] forceStart = None)"
proof -
  let ?h = "h @ [DispatchUpdate_step ''reparenting all tablets'' []]"
  let ?fin = "replicaOutcomes w d ?h np tm sm opts"
  let ?res = "fst (reparentReplicas w d h np tm sm opts True populate)"
  have sum: "length (recordedErrors ?fin) + length (startedReplication ?fin) =
             length (fannedOut d opts np tm)"
    using recorded_started_length[of ?fin] replicaOutcomes_length[of w d ?h np tm sm opts]
    by simp
  have started: "\<forall>t \<in> set (startedReplication ?fin).
             \<exists>a ti forceStart.
               (a, ti) \<in> set (fannedOut d opts np tm) \<and> t = Tablet ti \<and>
               (case sm a of None \<Rightarrow> Inr False | Some status \<Rightarrow> ReplicaWasRunning d status) =
                 Inr forceStart \<and>
               SetMaster w ?h t (Alias (obj np)) 0 [] forceStart = None"
    using replicaOutcomes_started[of _ w d ?h np tm sm opts] by blast
  show ?thesis
  proof (cases "handlePrimary w ?h opts np populate")
    case (Some primaryErr)
    then show ?thesis
      by (simp add: reparentReplicas_def reparentReplicasResult_def Let_def)
  next
    case None
    have res: "?res =
      (if length (recordedErrors ?fin) = length (fannedOut d opts np tm) then
         (case recError (recordedErrors ?fin) of
            None \<Rightarrow> Inr []
          | Some err \<Rightarrow>
              Inl (Wrapf err ''%d replica(s) failed: %v''
                    [Num (int (length (fannedOut d opts np tm))), ErrArg err]))
       else Inr (startedReplication ?fin))"
      using None sum by (simp add: reparentReplicas_def reparentReplicasResult_def Let_def)
    have empty: "fannedOut d opts np tm = [] \<longrightarrow> ?res = Inr []"
      using sum by (auto simp: res recError_def)
    have some: "fannedOut d opts np tm \<noteq> [] \<longrightarrow>
             ((\<exists>err. ?res = Inl err) \<longleftrightarrow>
                length (recordedErrors ?fin) = length (fannedOut d opts np tm)) \<and>
             (length (recordedErrors ?fin) \<noteq> length (fannedOut d opts np tm) \<longrightarrow>
                ?res = Inr (startedReplication ?fin) \<and> startedReplication ?fin \<noteq> [])"
      using sum by (auto simp: res recError_def)
    from None empty some sum started show ?thesis
      unfolding Let_def by simp
  qed
qed

text \<open>
  Both replicas of the example start replication and the step on the new primary
  succeeds: the function returns the two replicas. With a tablet map that holds the
  new primary only there is no replica, and the function returns a nil list.
\<close>

theorem reparentReplicas_waitForAllReplicas_witness:
  "handlePrimary exWorld [DispatchUpdate_step ''reparenting all tablets'' []] exOpts exA2 False
     = None \<and>
   length (recordedErrors (replicaOutcomes exWorld exDeps
             [DispatchUpdate_step ''reparenting all tablets'' []] exA2 exTabletMap exStatusMap
             exOpts)) = 0 \<and>
   length (fannedOut exDeps exOpts exA2 exTabletMap) = 2 \<and>
   fst (reparentReplicas exWorld exDeps [] exA2 exTabletMap exStatusMap exOpts True False) =
     Inr [exA1, exA3] \<and>
   fannedOut exDeps exOpts exA2 [(''z1-102'', \<lparr>Tablet = exA2\<rparr>)] = [] \<and>
   fst (reparentReplicas exWorld exDeps [] exA2 [(''z1-102'', \<lparr>Tablet = exA2\<rparr>)] exStatusMap
          exOpts True False) = Inr []"
proof -
  let ?h = "[DispatchUpdate_step ''reparenting all tablets'' []]
              :: (nat \<times> nat, bool, (string \<times> (nat \<times> nat)) list) step list"
  have primary: "handlePrimary exWorld ?h exOpts exA2 False = None"
    by (simp add: handlePrimary_def exWorld_def)
  have fanned: "fannedOut exDeps exOpts exA2 exTabletMap =
                  [(''z1-101'', \<lparr>Tablet = exA1\<rparr>), (''z1-103'', \<lparr>Tablet = exA3\<rparr>)]"
    by (simp add: fannedOut_def exDeps_def exOpts_def exTabletMap_def exA2_def tabletAt_def
        exAliasString_simps)
  have alone: "fannedOut exDeps exOpts exA2 [(''z1-102'', \<lparr>Tablet = exA2\<rparr>)] = []"
    by (simp add: fannedOut_def exDeps_def exOpts_def exA2_def tabletAt_def
        exAliasString_simps)
  have outcomes: "replicaOutcomes exWorld exDeps ?h exA2 exTabletMap exStatusMap exOpts =
                    [Inr exA1, Inr exA3]"
    unfolding replicaOutcomes_def fanned
    by (simp add: handleReplica_def exStatusMap_def exDeps_def exWorld_def)
  from reparentReplicas_waitForAllReplicas
         [where w = exWorld and d = exDeps and h = "[]" and np = exA2 and tm = exTabletMap
            and sm = exStatusMap and opts = exOpts and populate = False]
  have "fst (reparentReplicas exWorld exDeps [] exA2 exTabletMap exStatusMap exOpts True False)
          = Inr [exA1, exA3]"
    by (simp add: primary fanned outcomes Let_def)
  moreover from reparentReplicas_waitForAllReplicas
         [where w = exWorld and d = exDeps and h = "[]" and np = exA2
            and tm = "[(''z1-102'', \<lparr>Tablet = exA2\<rparr>)]"
            and sm = exStatusMap and opts = exOpts and populate = False]
  have "fst (reparentReplicas exWorld exDeps [] exA2 [(''z1-102'', \<lparr>Tablet = exA2\<rparr>)]
          exStatusMap exOpts True False) = Inr []"
    by (simp add: primary alone Let_def)
  ultimately show ?thesis by (simp add: primary fanned alone outcomes)
qed

text \<open>
  The position of the new primary cannot be read while both replicas start
  replication: the function fails although no replica recorded an error, so the
  number of recorded errors (0) is not the number of replicas (2).
\<close>

theorem reparentReplicas_primary_failure:
  "fst (reparentReplicas exWorldPrimaryDown exDeps [] exA2 exTabletMap exStatusMap exOpts
          True False) =
     Inl (Wrapf exErr ''failed to PopulateReparentJournal on primary: %v'' [ErrArg exErr]) \<and>
   length (recordedErrors (replicaOutcomes exWorldPrimaryDown exDeps
             [DispatchUpdate_step ''reparenting all tablets'' []] exA2 exTabletMap exStatusMap
             exOpts)) = 0 \<and>
   length (fannedOut exDeps exOpts exA2 exTabletMap) = 2"
  by (simp add: model_defs ex_defs)

section \<open>Properties of a run\<close>

subsection \<open>The steps of the stages\<close>

lemmas run_splits = sum.splits option.splits outcome.splits prod.splits if_splits

lemma logged_eq:
  "logged pre x = (r, zs, e) \<longleftrightarrow> (\<exists>zs'. x = (r, zs', e) \<and> zs = pre @ zs')"
  by (cases x) (auto simp: logged_def)

lemma returned_eq:
  "returned x = (r, zs, e) \<longleftrightarrow> (\<exists>err. x = (err, zs, e) \<and> r = Return err)"
  by (cases x) (auto simp: returned_def)

lemma reparentReplicas_steps:
  "reparentReplicas w d h np tm sm opts waitAll populate = (r, zs) \<Longrightarrow>
   zs = [DispatchUpdate_step ''reparenting all tablets'' [],
         reparentReplicas_step np waitAll populate r]"
  by (auto simp: reparentReplicas_def Let_def)

lemma promoteNewPrimary_phase:
  "promoteNewPrimary w d h np opts tm sm = (r, zs) \<Longrightarrow> \<forall>x \<in> set zs. 15 \<le> phase x"
  by (auto simp: promoteNewPrimary_def Let_def split: run_splits dest!: reparentReplicas_steps)

lemma promoteStage_phase:
  "promoteStage w d h ev0 np opts tm sm = (r, zs, ev1) \<Longrightarrow> \<forall>x \<in> set zs. 15 \<le> phase x"
  by (auto simp: promoteStage_def split: run_splits dest!: promoteNewPrimary_phase)

lemma constraintStage_phase:
  "constraintStage w d h ev0 np pp opts tm sm = (r, zs, ev1) \<Longrightarrow> \<forall>x \<in> set zs. 14 \<le> phase x"
  by (fastforce simp: constraintStage_def Let_def logged_eq split: run_splits
      dest!: promoteStage_phase)


lemma improveStage_phase:
  "improveStage w d h ev0 isIdeal src pp opts tm sm = (r, zs, ev1) \<Longrightarrow>
   \<forall>x \<in> set zs. 11 \<le> phase x"
  by (fastforce simp: improveStage_def promoteIntermediatePrimary_def Let_def logged_eq
      split: run_splits dest!: constraintStage_phase reparentReplicas_steps)

lemma idealStage_phase:
  "idealStage w d h ev0 ks shard src ts pp opts tm sm = (r, zs, ev1) \<Longrightarrow>
   \<forall>x \<in> set zs. 10 \<le> phase x"
  by (fastforce simp: idealStage_def Let_def logged_eq split: run_splits
      dest!: improveStage_phase)

lemma idealStage_selected:
  "idealStage w d h ev0 ks shard src ts pp opts tm sm = (r, zs, ev1) \<Longrightarrow>
   \<forall>found. findMostAdvanced_step found \<notin> set zs"
  by (drule idealStage_phase) fastforce

lemma selectStage_phase:
  "selectStage w d h ev0 ks shard vc pp opts tm sm = (r, zs, ev1) \<Longrightarrow>
   \<forall>x \<in> set zs. 8 \<le> phase x"
  by (fastforce simp: selectStage_def Let_def logged_eq returned_eq split: run_splits
      dest!: idealStage_phase)

subsection \<open>ReparentShard in terms of the stages\<close>

lemma checkIfConstraintsSatisfied_lockAction:
  "checkIfConstraintsSatisfied d np pp (opts\<lparr>lockAction := a\<rparr>) =
   checkIfConstraintsSatisfied d np pp opts"
  by (simp add: checkIfConstraintsSatisfied_def)

lemma reparentShardLocked_run:
  "reparentShardLocked w d ks shard opts s = (r, s') \<Longrightarrow>
   \<exists>zs ev1. shardStage w d (trace s) (ev s) ks shard opts = (r, zs, ev1) \<and>
      trace s' = trace s @ zs \<and> ev s' = ev1 \<and>
      ersCounter s' = ersCounter s + 1 \<and>
      ersSuccessCounter s' = ersSuccessCounter s \<and>
      ersFailureCounter s' = ersFailureCounter s"
proof -
  assume run: "reparentShardLocked w d ks shard opts s = (r, s')"
  obtain r0 zs ev1 where st: "shardStage w d (trace s) (ev s) ks shard opts = (r0, zs, ev1)"
    by (cases "shardStage w d (trace s) (ev s) ks shard opts") auto
  with run have "r = r0"
    and "s' = s\<lparr>ersCounter := ersCounter s + 1, trace := trace s @ zs, ev := ev1\<rparr>"
    by (simp_all add: reparentShardLocked_def)
  with st show ?thesis by simp
qed

lemma deferred_trace:
  "trace (deferred None s) =
     trace s @ [DispatchUpdate_step ''finished EmergencyReparentShard'' [], Unlock_step None]"
  "trace (deferred (Some e) s) =
     trace s @ [DispatchUpdate_step ''failed EmergencyReparentShard: %v'' [ErrArg e],
                Unlock_step (Some e)]"
  by (simp_all add: deferred_def)

lemma deferred_ev: "ev (deferred err s) = ev s"
  by (cases err) (simp_all add: deferred_def)

lemma deferred_counters:
  "ersSuccessCounter (deferred None s) = ersSuccessCounter s + 1"
  "ersSuccessCounter (deferred (Some e) s) = ersSuccessCounter s"
  "ersFailureCounter (deferred None s) = ersFailureCounter s"
  "ersFailureCounter (deferred (Some e) s) = ersFailureCounter s + 1"
  by (simp_all add: deferred_def)

lemmas deferred_simps = deferred_trace deferred_ev deferred_counters

lemma ReparentShard_lock_failed:
  assumes "ReparentShard w d ks shard opts s = (res, s')"
    and "LockShard w (trace s) ks shard (getLockAction d (NewPrimaryAlias opts)) = Some lockErr"
  shows "res = Return (None, Some lockErr) \<and>
         emitted s s' = [LockShard_step ks shard (getLockAction d (NewPrimaryAlias opts))
                           (Some lockErr)] \<and>
         ersSuccessCounter s' = ersSuccessCounter s \<and>
         ersFailureCounter s' = ersFailureCounter s"
proof -
  from assms have "res = Return (None, Some lockErr)"
    and "s' = logStep (LockShard_step ks shard (getLockAction d (NewPrimaryAlias opts))
                         (Some lockErr)) s"
    by (simp_all add: ReparentShard_def Let_def)
  then show ?thesis by (simp add: logStep_def emitted_def)
qed

lemma ReparentShard_locked:
  assumes run: "ReparentShard w d ks shard opts s = (res, s')"
    and lock: "LockShard w (trace s) ks shard (getLockAction d (NewPrimaryAlias opts)) = None"
  shows "\<exists>r zs fin ev1.
           shardStage w d
             (trace s @ [LockShard_step ks shard (getLockAction d (NewPrimaryAlias opts)) None])
             \<lparr>ShardInfo = \<lparr>keyspace = [], shardName = [], PrimaryAlias = None\<rparr>,
              NewPrimary = None\<rparr> ks shard (lockedOpts d opts) = (r, zs, ev1) \<and>
           emitted s s' =
             LockShard_step ks shard (getLockAction d (NewPrimaryAlias opts)) None # zs @ fin \<and>
           ev s' = ev1 \<and> (\<forall>x \<in> set fin. phase x = 20) \<and>
           (r = Panic \<longrightarrow> res = Panic) \<and>
           (r = Return None \<longrightarrow>
              res = Return (Some ev1, None) \<and>
              fin = [DispatchUpdate_step ''finished EmergencyReparentShard'' [],
                     Unlock_step None] \<and>
              ersSuccessCounter s' = ersSuccessCounter s + 1 \<and>
              ersFailureCounter s' = ersFailureCounter s) \<and>
           (\<forall>err. r = Return (Some err) \<longrightarrow>
              res = Return (Some ev1, Some err) \<and>
              fin = [DispatchUpdate_step ''failed EmergencyReparentShard: %v'' [ErrArg err],
                     Unlock_step (Some err)] \<and>
              ersSuccessCounter s' = ersSuccessCounter s \<and>
              ersFailureCounter s' = ersFailureCounter s + 1)"
proof -
  let ?action = "getLockAction d (NewPrimaryAlias opts)"
  let ?s1 = "(logStep (LockShard_step ks shard ?action None) s)
               \<lparr>ev := \<lparr>ShardInfo = \<lparr>keyspace = [], shardName = [], PrimaryAlias = None\<rparr>,
                        NewPrimary = None\<rparr>\<rparr>"
  obtain r s2 where locked: "reparentShardLocked w d ks shard (lockedOpts d opts) ?s1 = (r, s2)"
    by (cases "reparentShardLocked w d ks shard (lockedOpts d opts) ?s1")
  from reparentShardLocked_run[OF locked] obtain zs ev1 where
    stage: "shardStage w d (trace ?s1) (ev ?s1) ks shard (lockedOpts d opts) = (r, zs, ev1)"
    and s2: "trace s2 = trace ?s1 @ zs" "ev s2 = ev1"
      "ersSuccessCounter s2 = ersSuccessCounter ?s1" "ersFailureCounter s2 = ersFailureCounter ?s1"
    by blast
  have res: "res = (case r of Panic \<Rightarrow> Panic
               | Return err \<Rightarrow> Return (Some (ev (deferred err s2)), err))"
    and s': "s' = (case r of Panic \<Rightarrow> deferred None s2 | Return err \<Rightarrow> deferred err s2)"
    using run lock locked
    by (auto simp: ReparentShard_def Let_def lockedOpts_def split: outcome.splits)
  have t1: "trace ?s1 = trace s @ [LockShard_step ks shard ?action None]"
    and e1: "ev ?s1 = \<lparr>ShardInfo = \<lparr>keyspace = [], shardName = [], PrimaryAlias = None\<rparr>,
                        NewPrimary = None\<rparr>"
    and c1: "ersSuccessCounter ?s1 = ersSuccessCounter s"
            "ersFailureCounter ?s1 = ersFailureCounter s"
    by (simp_all add: logStep_def)
  have em: "emitted s (deferred err s2) =
      LockShard_step ks shard ?action None # zs @ drop (length (trace s2)) (trace (deferred err s2))"
    for err
    by (cases err) (simp_all add: emitted_def deferred_simps s2(1) t1)
  show ?thesis
  proof (cases r)
    case Panic
    with res s' stage s2 show ?thesis
      unfolding t1 e1 c1
      by (intro exI[of _ r] exI[of _ zs] exI[of _ ev1]
            exI[of _ "[DispatchUpdate_step ''finished EmergencyReparentShard'' [],
                       Unlock_step None]"])
         (simp add: em deferred_simps)
  next
    case (Return err)
    show ?thesis
    proof (cases err)
      case None
      with Return res s' stage s2 show ?thesis
        unfolding t1 e1 c1
        by (intro exI[of _ r] exI[of _ zs] exI[of _ ev1]
            exI[of _ "[DispatchUpdate_step ''finished EmergencyReparentShard'' [],
                       Unlock_step None]"])
         (simp add: em deferred_simps)
    next
      case (Some e)
      with Return res s' stage s2 show ?thesis
        unfolding t1 e1 c1
        by (intro exI[of _ r] exI[of _ zs] exI[of _ ev1]
            exI[of _ "[DispatchUpdate_step ''failed EmergencyReparentShard: %v'' [ErrArg e],
                     Unlock_step (Some e)]"])
         (simp add: em deferred_simps)
    qed
  qed
qed

lemma emitted_late:
  assumes "em = LockShard_step ks shard a None # zs @ fin" and "\<forall>x \<in> set fin. phase x = 20"
  shows "checkIfConstraintsSatisfied_step np pp f \<in> set zs
           \<longleftrightarrow> checkIfConstraintsSatisfied_step np pp f \<in> set em"
    and "promoteNewPrimary_step t u \<in> set zs \<longleftrightarrow> promoteNewPrimary_step t u \<in> set em"
    and "PromoteReplica_step t v \<in> set zs \<longleftrightarrow> PromoteReplica_step t v \<in> set em"
    and "GetShard_step g \<in> set zs \<longleftrightarrow> GetShard_step g \<in> set em"
    and "GetTablet_step b gt \<in> set zs \<longleftrightarrow> GetTablet_step b gt \<in> set em"
  using assms by fastforce+

lemma prevPrimaryRead_emitted:
  assumes "em = LockShard_step ks shard a None # zs @ fin" and "\<forall>x \<in> set fin. phase x = 20"
  shows "prevPrimaryRead zs pp \<longleftrightarrow> prevPrimaryRead em pp"
  unfolding prevPrimaryRead_def emitted_late(4,5)[OF assms] ..

subsection \<open>The constraint check and the undo of the promotion\<close>

lemma compensated_Cons [simp]:
  assumes "phase x < 14 \<or> phase x = 20"
  shows "compensated d opts pp r (x # zs) = compensated d opts pp r zs"
proof -
  have eqs: "\<And>np p f. checkIfConstraintsSatisfied_step np p f \<in> set (x # zs)
                \<longleftrightarrow> checkIfConstraintsSatisfied_step np p f \<in> set zs"
    "\<And>t u. promoteNewPrimary_step t u \<in> set (x # zs) \<longleftrightarrow> promoteNewPrimary_step t u \<in> set zs"
    "\<And>t u. PromoteReplica_step t u \<in> set (x # zs) \<longleftrightarrow> PromoteReplica_step t u \<in> set zs"
    using assms by auto
  show ?thesis unfolding compensated_def eqs ..
qed

lemma compensated_Nil [simp]: "compensated d opts pp r []"
  by (simp add: compensated_def)

lemma promoteStage_steps:
  "promoteStage w d h ev0 t opts tm sm = (r, zs, ev1) \<Longrightarrow>
   promoteNewPrimary_step t r \<in> set zs
   \<and> (\<forall>t' x. promoteNewPrimary_step t' x \<in> set zs \<longrightarrow> t' = t \<and> x = r)
   \<and> (\<forall>t' x. PromoteReplica_step t' x \<in> set zs \<longrightarrow> t' = t)
   \<and> (r = None \<longrightarrow> NewPrimary ev1 = Some (obj t))
   \<and> ShardInfo ev1 = ShardInfo ev0"
  by (auto simp: promoteStage_def promoteNewPrimary_def Let_def split: run_splits
      dest!: reparentReplicas_steps)

lemma constraintStage_undo:
  "checkIfConstraintsSatisfied d np (Some p) opts = Some failure \<Longrightarrow>
   constraintStage w d h ev0 np (Some p) opts tm sm =
     (case promoteStage w d (h @ [checkIfConstraintsSatisfied_step np (Some p) (Some failure)])
             ev0 p opts tm sm of
        (undo, zs', ev1) \<Rightarrow>
          (Some (case undo of None \<Rightarrow> failure | Some err \<Rightarrow> undoFailed err failure),
           checkIfConstraintsSatisfied_step np (Some p) (Some failure) # zs', ev1))"
  by (simp add: constraintStage_def Let_def logged_def split: prod.splits option.splits)

lemma constraintStage_compensated:
  assumes run: "constraintStage w d h ev0 np pp opts tm sm = (r, zs, ev1)"
  shows "compensated d opts pp (Return r) zs"
proof (cases "checkIfConstraintsSatisfied d np pp opts")
  case None
  with run obtain zs' where
    "promoteStage w d (h @ [checkIfConstraintsSatisfied_step np pp None]) ev0 np opts tm sm =
       (r, zs', ev1)"
    and zs: "zs = checkIfConstraintsSatisfied_step np pp None # zs'"
    by (auto simp: constraintStage_def Let_def logged_eq)
  from promoteStage_phase[OF this(1)] have "\<forall>x \<in> set zs'. 15 \<le> phase x" .
  then have "\<forall>np' pp' f. checkIfConstraintsSatisfied_step np' pp' (Some f) \<notin> set zs'"
    by fastforce
  then show ?thesis by (simp add: compensated_def zs)
next
  case (Some failure)
  note failure = this
  show ?thesis
  proof (cases pp)
    case None
    with failure run have "r = Some (undoFailed noPrimaryToUndo failure)"
      "zs = [checkIfConstraintsSatisfied_step np None (Some failure)]"
      by (simp_all add: constraintStage_def Let_def)
    then show ?thesis using failure None by (simp add: compensated_def)
  next
    case (Some p)
    obtain undo zs' ev1' where
      undo': "promoteStage w d (h @ [checkIfConstraintsSatisfied_step np (Some p) (Some failure)])
               ev0 p opts tm sm = (undo, zs', ev1')"
      by (cases "promoteStage w d
                   (h @ [checkIfConstraintsSatisfied_step np (Some p) (Some failure)])
                   ev0 p opts tm sm") auto
    from failure Some have "checkIfConstraintsSatisfied d np (Some p) opts = Some failure"
      by simp
    from constraintStage_undo[OF this, of w h ev0 tm sm] run Some undo'
    have zs: "zs = checkIfConstraintsSatisfied_step np (Some p) (Some failure) # zs'"
      and r: "r = Some (case undo of None \<Rightarrow> failure | Some err \<Rightarrow> undoFailed err failure)"
      and "ev1' = ev1"
      by simp_all
    with undo' have undo: "promoteStage w d
        (h @ [checkIfConstraintsSatisfied_step np (Some p) (Some failure)])
        ev0 p opts tm sm = (undo, zs', ev1)" by simp
    from promoteStage_phase[OF undo]
    have nocheck: "\<forall>np' pp' f. checkIfConstraintsSatisfied_step np' pp' f \<notin> set zs'"
      by fastforce
    from promoteStage_steps[OF undo] have
      a: "promoteNewPrimary_step p undo \<in> set zs'"
      and b: "\<forall>t' x. promoteNewPrimary_step t' x \<in> set zs' \<longrightarrow> t' = p \<and> x = undo"
      and c: "\<forall>t' x. PromoteReplica_step t' x \<in> set zs' \<longrightarrow> t' = p"
      by blast+
    show ?thesis
    proof (unfold compensated_def, intro allI impI, goal_cases)
      case (1 np' pp' failure')
      with nocheck zs have eq: "np' = np" "pp' = Some p" "failure' = failure" by auto
      have a': "promoteNewPrimary_step p undo \<in> set zs" using a zs by simp
      have b': "\<forall>t x. promoteNewPrimary_step t x \<in> set zs \<longrightarrow> t = p \<and> x = undo"
        using b unfolding zs by (simp del: all_simps)
      have c': "\<forall>t x. PromoteReplica_step t x \<in> set zs \<longrightarrow> t = p"
        using c unfolding zs by (simp del: all_simps)
      have f: "Return r = Return (Some (case undo of None \<Rightarrow> failure'
                                  | Some err \<Rightarrow> undoFailed err failure'))"
        using r unfolding eq by simp
      have g: "pp' = pp" "checkIfConstraintsSatisfied d np' pp' opts = Some failure'"
        using eq Some failure by simp_all
      from a' b' c' f g show ?case
        unfolding eq(2) option.case by (intro conjI exI[of _ undo]) blast+
    qed
  qed
qed

lemma improveStage_compensated:
  "improveStage w d h ev0 isIdeal src pp opts tm sm = (r, zs, ev1) \<Longrightarrow>
   compensated d opts pp (Return r) zs"
  by (auto simp: improveStage_def promoteIntermediatePrimary_def Let_def logged_eq
      split: run_splits dest!: constraintStage_compensated reparentReplicas_steps)

lemma idealStage_compensated:
  "idealStage w d h ev0 ks shard src ts pp opts tm sm = (r, zs, ev1) \<Longrightarrow>
   compensated d opts pp (Return r) zs"
  by (auto simp: idealStage_def Let_def logged_eq
      split: run_splits dest!: improveStage_compensated)

lemma selectStage_compensated:
  "selectStage w d h ev0 ks shard vc pp opts tm sm = (r, zs, ev1) \<Longrightarrow>
   compensated d opts pp r zs"
  by (auto simp: selectStage_def Let_def logged_eq returned_eq
      split: run_splits dest!: idealStage_compensated)

lemma candidatesStage_compensated:
  "candidatesStage w d h ev0 ks shard psm pp opts tm sm = (r, zs, ev1) \<Longrightarrow>
   compensated d opts pp r zs"
  by (auto simp: candidatesStage_def Let_def logged_eq
      split: run_splits dest!: selectStage_compensated)

lemma tabletMapStage_compensated:
  "tabletMapStage w d h ev0 ks shard pp opts = (r, zs, ev1) \<Longrightarrow>
   compensated d opts pp r zs"
  by (auto simp: tabletMapStage_def Let_def logged_eq
      split: run_splits dest!: candidatesStage_compensated)

lemma promoteStage_promoted:
  "promoteStage w d h ev0 t opts tm sm = (r, zs, ev1) \<Longrightarrow>
   promoteNewPrimary_step t r \<in> set zs \<and> (r = None \<longrightarrow> NewPrimary ev1 = Some (obj t))"
  by (auto simp: promoteStage_def promoteNewPrimary_def Let_def split: run_splits
      dest!: reparentReplicas_steps)

lemma constraintStage_elected:
  "constraintStage w d h ev0 np pp opts tm sm = (r, zs, ev1) \<Longrightarrow>
   elected d opts pp (Return r) zs ev1"
  by (auto simp: constraintStage_def Let_def logged_eq elected_def
      split: run_splits dest!: promoteStage_promoted)

lemma improveStage_elected:
  "improveStage w d h ev0 isIdeal src pp opts tm sm = (r, zs, ev1) \<Longrightarrow>
   elected d opts pp (Return r) zs ev1"
  by (auto simp: improveStage_def promoteIntermediatePrimary_def Let_def logged_eq elected_def
      split: run_splits dest!: constraintStage_elected reparentReplicas_steps)

lemma idealStage_elected:
  "idealStage w d h ev0 ks shard src ts pp opts tm sm = (r, zs, ev1) \<Longrightarrow>
   elected d opts pp (Return r) zs ev1"
  by (auto simp: idealStage_def Let_def logged_eq elected_def
      split: run_splits dest!: improveStage_elected)

lemma selectStage_elected:
  "selectStage w d h ev0 ks shard vc pp opts tm sm = (r, zs, ev1) \<Longrightarrow>
   elected d opts pp r zs ev1"
  by (auto simp: selectStage_def Let_def logged_eq returned_eq elected_def
      split: run_splits dest!: idealStage_elected)

lemma candidatesStage_elected:
  "candidatesStage w d h ev0 ks shard psm pp opts tm sm = (r, zs, ev1) \<Longrightarrow>
   elected d opts pp r zs ev1"
  by (auto simp: candidatesStage_def Let_def logged_eq elected_def
      split: run_splits dest!: selectStage_elected)

lemma tabletMapStage_elected:
  "tabletMapStage w d h ev0 ks shard pp opts = (r, zs, ev1) \<Longrightarrow>
   elected d opts pp r zs ev1"
  by (auto simp: tabletMapStage_def Let_def logged_eq elected_def
      split: run_splits dest!: candidatesStage_elected)

lemma shardStage_run:
  assumes "shardStage w d h ev0 ks shard opts = (r, zs, ev1)"
  shows "\<exists>pp. elected d opts pp r zs ev1 \<and> compensated d opts pp r zs \<and>
           ((\<exists>np pp' x. checkIfConstraintsSatisfied_step np pp' x \<in> set zs) \<longrightarrow>
              prevPrimaryRead zs pp)"
proof (cases "GetShard w h ks shard")
  case (Inl err)
  with assms have "r = Return (Some err)" "zs = [GetShard_step (Inl err)]"
    by (simp_all add: shardStage_def Let_def)
  then show ?thesis by (simp add: elected_def)
next
  case (Inr shardInfo)
  note shard = this
  show ?thesis
  proof (cases "PrimaryAlias shardInfo")
    case None
    with shard assms obtain zs' where
      stage: "tabletMapStage w d (h @ [GetShard_step (Inr shardInfo)])
                (ev0\<lparr>ShardInfo := shardInfo\<rparr>) ks shard None opts = (r, zs', ev1)"
      and zs: "zs = GetShard_step (Inr shardInfo) # zs'"
      by (auto simp: shardStage_def Let_def logged_eq)
    have "elected d opts None r zs ev1"
      using tabletMapStage_elected[OF stage] by (auto simp: elected_def zs)
    moreover have "compensated d opts None r zs"
      using tabletMapStage_compensated[OF stage] by (simp add: zs)
    moreover have "prevPrimaryRead zs None"
      using None by (auto simp: prevPrimaryRead_def zs)
    ultimately show ?thesis by blast
  next
    case (Some primaryAlias)
    note known = this
    show ?thesis
    proof (cases "GetTablet w (h @ [GetShard_step (Inr shardInfo)]) primaryAlias")
      case (Inl err)
      with shard known assms have "r = Return (Some err)"
        "zs = [GetShard_step (Inr shardInfo), GetTablet_step primaryAlias (Inl err)]"
        by (simp_all add: shardStage_def Let_def)
      then show ?thesis by (simp add: elected_def)
    next
      case (Inr prevPrimaryInfo)
      with shard known assms obtain zs' where
        stage: "tabletMapStage w d
                  (h @ [GetShard_step (Inr shardInfo),
                        GetTablet_step primaryAlias (Inr prevPrimaryInfo)])
                  (ev0\<lparr>ShardInfo := shardInfo\<rparr>) ks shard (Some (Tablet prevPrimaryInfo)) opts
                = (r, zs', ev1)"
        and zs: "zs = GetShard_step (Inr shardInfo) #
                      GetTablet_step primaryAlias (Inr prevPrimaryInfo) # zs'"
        by (auto simp: shardStage_def Let_def logged_eq)
      have "elected d opts (Some (Tablet prevPrimaryInfo)) r zs ev1"
        using tabletMapStage_elected[OF stage] by (auto simp: elected_def zs)
      moreover have "compensated d opts (Some (Tablet prevPrimaryInfo)) r zs"
        using tabletMapStage_compensated[OF stage] by (simp add: zs)
      moreover have "prevPrimaryRead zs (Some (Tablet prevPrimaryInfo))"
        using known by (auto simp: prevPrimaryRead_def zs)
      ultimately show ?thesis by blast
    qed
  qed
qed

subsection \<open>The example runs\<close>

lemma ex_same_cell_result:
  "fst (ReparentShard exWorld exDeps ''ks'' ''0'' exOptsSameCell exState) =
     Return (Some \<lparr>ShardInfo = \<lparr>keyspace = ''ks'', shardName = ''0'',
                                   PrimaryAlias = Some \<lparr>Cell = ''z1'', Uid = 100\<rparr>\<rparr>,
                    NewPrimary = Some (obj exA2)\<rparr>, None)"
  by (simp add: model_defs ex_defs)

lemma ex_same_cell_state:
  "ersSuccessCounter (snd (ReparentShard exWorld exDeps ''ks'' ''0'' exOptsSameCell exState)) = 1"
  "ersFailureCounter (snd (ReparentShard exWorld exDeps ''ks'' ''0'' exOptsSameCell exState)) = 0"
  "ev (snd (ReparentShard exWorld exDeps ''ks'' ''0'' exOptsSameCell exState)) =
     \<lparr>ShardInfo = \<lparr>keyspace = ''ks'', shardName = ''0'',
                    PrimaryAlias = Some \<lparr>Cell = ''z1'', Uid = 100\<rparr>\<rparr>,
      NewPrimary = Some (obj exA2)\<rparr>"
  by (simp_all add: model_defs ex_defs)

lemma ex_same_cell_read:
  "prevPrimaryRead
     (emitted exState (snd (ReparentShard exWorld exDeps ''ks'' ''0'' exOptsSameCell exState))) pp
   \<longleftrightarrow> pp = Some exOld"
  by (cases pp) (auto simp: prevPrimaryRead_def model_defs ex_defs)

lemma ex_other_cell_run:
  "fst (ReparentShard exWorldOtherCell exDeps ''ks'' ''0''
          ((exOptsRequested 102)\<lparr>PreventCrossCellPromotion := True\<rparr>) exState) =
     Return (Some \<lparr>ShardInfo = \<lparr>keyspace = ''ks'', shardName = ''0'',
                                   PrimaryAlias = Some \<lparr>Cell = ''z2'', Uid = 104\<rparr>\<rparr>,
                    NewPrimary = Some (obj exB1)\<rparr>, Some exGeographic)"
  "checkIfConstraintsSatisfied_step exA2 (Some exB1) (Some exGeographic)
     \<in> set (emitted exState (snd (ReparentShard exWorldOtherCell exDeps ''ks'' ''0''
          ((exOptsRequested 102)\<lparr>PreventCrossCellPromotion := True\<rparr>) exState)))"
  "promoteNewPrimary_step exB1 None
     \<in> set (emitted exState (snd (ReparentShard exWorldOtherCell exDeps ''ks'' ''0''
          ((exOptsRequested 102)\<lparr>PreventCrossCellPromotion := True\<rparr>) exState)))"
  by (simp_all add: model_defs ex_defs)

lemma ex_no_primary_run:
  "checkIfConstraintsSatisfied_step exA2 None (Some exPromotionRule)
     \<in> set (emitted exState (snd (ReparentShard exWorldNoPrimary exDepsMustNot ''ks'' ''0''
          (exOptsRequested 102) exState)))"
  by (simp_all add: model_defs ex_defs)

lemma ex_no_candidates_run:
  "restrictValidCandidates_step (Inr [])
     \<in> set (emitted exState (snd (ReparentShard exWorld exDepsNoCandidates ''ks'' ''0''
                                     exOpts exState)))"
  by (simp add: model_defs ex_defs)



subsection \<open>The counters\<close>

text \<open>
  C9, amended. For every invocation of \<^verbatim>\<open>ReparentShard\<close> that returns: when the shard
  lock was acquired, exactly one of \<^verbatim>\<open>ersSuccessCounter\<close> and \<^verbatim>\<open>ersFailureCounter\<close> is
  incremented, by 1: the success counter when the error returned is nil, the failure
  counter otherwise. When \<^verbatim>\<open>LockShard\<close> fails, the function returns that error and a
  nil event at line 167, before the closure of line 174 is deferred, and neither
  counter changes. The counters are 64-bit gauges.
\<close>

theorem ReparentShard_counters:
  assumes run: "ReparentShard w d ks shard opts s = (Return (e, err), s')"
  shows "(case LockShard w (trace s) ks shard (getLockAction d (NewPrimaryAlias opts)) of
            Some lockErr \<Rightarrow>
              e = None \<and> err = Some lockErr \<and>
              ersSuccessCounter s' = ersSuccessCounter s \<and>
              ersFailureCounter s' = ersFailureCounter s
          | None \<Rightarrow>
              (case err of
                 None \<Rightarrow>
                   ersSuccessCounter s' = ersSuccessCounter s + 1 \<and>
                   ersFailureCounter s' = ersFailureCounter s
               | Some failure \<Rightarrow>
                   ersSuccessCounter s' = ersSuccessCounter s \<and>
                   ersFailureCounter s' = ersFailureCounter s + 1))"
proof (cases "LockShard w (trace s) ks shard (getLockAction d (NewPrimaryAlias opts))")
  case (Some lockErr)
  from ReparentShard_lock_failed[OF run Some] Some show ?thesis by simp
next
  case None
  from ReparentShard_locked[OF run None] obtain r zs fin ev1 where
    panic: "r = Panic \<longrightarrow> Return (e, err) = Panic"
    and ok: "r = Return None \<longrightarrow>
              Return (e, err) = Return (Some ev1, None) \<and>
              ersSuccessCounter s' = ersSuccessCounter s + 1 \<and>
              ersFailureCounter s' = ersFailureCounter s"
    and failed: "\<forall>x. r = Return (Some x) \<longrightarrow>
              Return (e, err) = Return (Some ev1, Some x) \<and>
              ersSuccessCounter s' = ersSuccessCounter s \<and>
              ersFailureCounter s' = ersFailureCounter s + 1"
    by blast
  show ?thesis
  proof (cases r)
    case Panic
    with panic show ?thesis by simp
  next
    case (Return x)
    with ok failed None show ?thesis by (cases x) auto
  qed
qed

text \<open>The first scenario, with promotion kept in the cell: one success is counted.\<close>

theorem ReparentShard_counters_witness:
  "fst (ReparentShard exWorld exDeps ''ks'' ''0'' exOptsSameCell exState) =
     Return (Some \<lparr>ShardInfo = \<lparr>keyspace = ''ks'', shardName = ''0'',
                                   PrimaryAlias = Some \<lparr>Cell = ''z1'', Uid = 100\<rparr>\<rparr>,
                    NewPrimary = Some (obj exA2)\<rparr>, None) \<and>
   ersSuccessCounter (snd (ReparentShard exWorld exDeps ''ks'' ''0'' exOptsSameCell exState)) =
     ersSuccessCounter exState + 1 \<and>
   ersFailureCounter (snd (ReparentShard exWorld exDeps ''ks'' ''0'' exOptsSameCell exState)) =
     ersFailureCounter exState"
proof -
  let ?run = "ReparentShard exWorld exDeps ''ks'' ''0'' exOptsSameCell exState"
  have run: "?run = (Return (Some \<lparr>ShardInfo = \<lparr>keyspace = ''ks'', shardName = ''0'',
                                   PrimaryAlias = Some \<lparr>Cell = ''z1'', Uid = 100\<rparr>\<rparr>,
                    NewPrimary = Some (obj exA2)\<rparr>, None), snd ?run)"
    using ex_same_cell_result by (simp add: prod_eq_iff)
  have "LockShard exWorld (trace exState) ''ks'' ''0''
          (getLockAction exDeps (NewPrimaryAlias exOptsSameCell)) = None"
    by (simp add: exWorld_def)
  with ReparentShard_counters[OF run] ex_same_cell_result show ?thesis by simp
qed

text \<open>
  The shard lock is refused: the invocation returns the error of \<^verbatim>\<open>LockShard\<close>, and
  the failure counter is what it was.
\<close>

theorem ReparentShard_lock_failure_not_counted:
  "fst (ReparentShard exWorldNoLock exDeps ''ks'' ''0'' exOpts exState) =
     Return (None, Some exErr) \<and>
   ersSuccessCounter (snd (ReparentShard exWorldNoLock exDeps ''ks'' ''0'' exOpts exState)) =
     ersSuccessCounter exState \<and>
   ersFailureCounter (snd (ReparentShard exWorldNoLock exDeps ''ks'' ''0'' exOpts exState)) =
     ersFailureCounter exState"
  by (simp add: ReparentShard_def logStep_def exWorldNoLock_def exWorld_def Let_def)

subsection \<open>The primary of a successful run\<close>

text \<open>
  C2. A run of \<^verbatim>\<open>ReparentShard\<close> that returns a nil error returns the event object,
  and the \<^verbatim>\<open>NewPrimary\<close> of that object is a tablet \<open>np\<close> that passed the constraint
  check against the previous primary \<open>pp\<close> read from the topology and that
  \<^verbatim>\<open>promoteNewPrimary\<close> promoted without error. No constraint check of the run
  failed: the undo of lines 322 to 337 always ends in an error, so the primary of a
  successful run is never reached through it. The promotion rule of \<open>np\<close> is not
  \<^verbatim>\<open>MUST_NOT\<close>, and when \<^verbatim>\<open>PreventCrossCellPromotion\<close> is set and the previous primary
  is known, \<open>np\<close> is in the cell of the previous primary.
\<close>

theorem ReparentShard_success_constraints:
  assumes run: "ReparentShard w d ks shard opts s = (Return (e, None), s')"
  shows "\<exists>np pp.
           e = Some (ev s') \<and> NewPrimary (ev s') = Some (obj np) \<and>
           prevPrimaryRead (emitted s s') pp \<and>
           checkIfConstraintsSatisfied_step np pp None \<in> set (emitted s s') \<and>
           promoteNewPrimary_step np None \<in> set (emitted s s') \<and>
           (\<forall>np' pp' failure.
              checkIfConstraintsSatisfied_step np' pp' (Some failure) \<notin> set (emitted s s')) \<and>
           PromotionRule d (obj np) \<noteq> MustNotPromoteRule \<and>
           (PreventCrossCellPromotion opts \<longrightarrow>
              (\<forall>p. pp = Some p \<longrightarrow> Cell (Alias (obj np)) = Cell (Alias (obj p))))"
proof (cases "LockShard w (trace s) ks shard (getLockAction d (NewPrimaryAlias opts))")
  case (Some lockErr)
  from ReparentShard_lock_failed[OF run Some] show ?thesis by simp
next
  case None
  let ?ev0 = "\<lparr>ShardInfo = \<lparr>keyspace = [], shardName = [], PrimaryAlias = None\<rparr>,
               NewPrimary = None\<rparr>"
  let ?lock = "LockShard_step ks shard (getLockAction d (NewPrimaryAlias opts)) None"
  from ReparentShard_locked[OF run None] obtain r zs fin ev1 where
    stage: "shardStage w d (trace s @ [?lock]) ?ev0 ks shard (lockedOpts d opts) = (r, zs, ev1)"
    and em: "emitted s s' = ?lock # zs @ fin"
    and ev: "ev s' = ev1"
    and fin: "\<forall>x \<in> set fin. phase x = 20"
    and panic: "r = Panic \<longrightarrow> Return (e, None :: error option) = Panic"
    and ok: "r = Return None \<longrightarrow> Return (e, None :: error option) = Return (Some ev1, None)"
    and failed: "\<forall>x. r = Return (Some x) \<longrightarrow>
                   Return (e, None :: error option) = Return (Some ev1, Some x)"
    by blast
  have r: "r = Return None"
  proof (cases r)
    case Panic
    with panic show ?thesis by simp
  next
    case (Return x)
    with failed show ?thesis by (cases x) auto
  qed
  with ok ev have e: "e = Some (ev s')" by simp
  from shardStage_run[OF stage] obtain pp where
    el: "elected d (lockedOpts d opts) pp r zs ev1"
    and co: "compensated d (lockedOpts d opts) pp r zs"
    and rd: "(\<exists>np pp' x. checkIfConstraintsSatisfied_step np pp' x \<in> set zs) \<longrightarrow>
               prevPrimaryRead zs pp"
    by blast
  from el r obtain np where
    np: "checkIfConstraintsSatisfied_step np pp None \<in> set zs"
      "checkIfConstraintsSatisfied d np pp (lockedOpts d opts) = None"
      "promoteNewPrimary_step np None \<in> set zs"
      "NewPrimary ev1 = Some (obj np)"
    by (auto simp: elected_def)
  from np(1) rd have rd': "prevPrimaryRead (emitted s s') pp"
    using prevPrimaryRead_emitted[OF em fin] by blast
  have nofail: "checkIfConstraintsSatisfied_step np' pp' (Some failure) \<notin> set zs"
    for np' pp' failure
    using co r unfolding compensated_def by (cases pp') fastforce+
  from np(2) have sat: "checkIfConstraintsSatisfied d np pp opts = None"
    by (simp add: lockedOpts_def checkIfConstraintsSatisfied_lockAction)
  then have rule: "PromotionRule d (obj np) \<noteq> MustNotPromoteRule"
    and cell: "PreventCrossCellPromotion opts \<longrightarrow>
                 (\<forall>p. pp = Some p \<longrightarrow> Cell (Alias (obj np)) = Cell (Alias (obj p)))"
    by (auto simp: checkIfConstraintsSatisfied_def split: if_splits)
  from e ev np(1,3,4) rd' nofail rule cell show ?thesis
    unfolding emitted_late(1,2)[OF em fin]
    by (intro exI[of _ np] exI[of _ pp]) simp
qed

text \<open>
  The first scenario, with promotion kept in the cell of the previous primary
  \<open>z1-100\<close>: the run promotes \<open>z1-102\<close>.
\<close>

theorem ReparentShard_success_constraints_witness:
  "fst (ReparentShard exWorld exDeps ''ks'' ''0'' exOptsSameCell exState) =
     Return (Some \<lparr>ShardInfo = \<lparr>keyspace = ''ks'', shardName = ''0'',
                                   PrimaryAlias = Some \<lparr>Cell = ''z1'', Uid = 100\<rparr>\<rparr>,
                    NewPrimary = Some (obj exA2)\<rparr>, None) \<and>
   PromotionRule exDeps (obj exA2) \<noteq> MustNotPromoteRule \<and>
   Cell (Alias (obj exA2)) = Cell (Alias (obj exOld))"
proof -
  let ?run = "ReparentShard exWorld exDeps ''ks'' ''0'' exOptsSameCell exState"
  have run: "?run = (Return (Some \<lparr>ShardInfo = \<lparr>keyspace = ''ks'', shardName = ''0'',
                                   PrimaryAlias = Some \<lparr>Cell = ''z1'', Uid = 100\<rparr>\<rparr>,
                    NewPrimary = Some (obj exA2)\<rparr>, None), snd ?run)"
    using ex_same_cell_result by (simp add: prod_eq_iff)
  from ReparentShard_success_constraints[OF run] obtain np :: TabletPtr and pp where
    np: "NewPrimary (ev (snd ?run)) = Some (obj np)"
    and pp: "prevPrimaryRead (emitted exState (snd ?run)) pp"
    and rule: "PromotionRule exDeps (obj np) \<noteq> MustNotPromoteRule"
    and cell: "PreventCrossCellPromotion exOptsSameCell \<longrightarrow>
                 (\<forall>p. pp = Some p \<longrightarrow> Cell (Alias (obj np)) = Cell (Alias (obj p)))"
    by blast
  from np have "obj np = obj exA2" by (simp add: ex_same_cell_state)
  moreover from pp have "pp = Some exOld" by (simp only: ex_same_cell_read)
  moreover have "PreventCrossCellPromotion exOptsSameCell"
    by (simp add: exOptsSameCell_def)
  ultimately show ?thesis using rule cell ex_same_cell_result by simp
qed

subsection \<open>The steps of a run from the check of line 280 on\<close>

text \<open>
  A run that logs a step of the check of line 280 or a later one, other than the
  deferred update and unlock, has reached \<^verbatim>\<open>idealStage\<close>; a run that logs the
  constraint check has reached \<^verbatim>\<open>constraintStage\<close>. The lemmas give the log of the
  call, the steps before it and the values it was called with.
\<close>

lemma constraintStage_undone:
  assumes "constraintStage w d h ev0 np (Some p) opts tm sm = (r, zs, ev1)"
    and "checkIfConstraintsSatisfied d np (Some p) opts = Some failure"
  shows "let c = checkIfConstraintsSatisfied_step np (Some p) (Some failure);
             promoted = PromoteReplica w (h @ [c]) p;
             dispatched = DispatchUpdate_step ''reparenting all tablets'' [];
             reparented = reparentReplicasResult w d (h @ [c, PromoteReplica_step p promoted,
                            dispatched]) p tm sm opts False True
         in (\<forall>err. promoted = Inl err \<longrightarrow>
               zs = [c, PromoteReplica_step p promoted,
                     promoteNewPrimary_step p
                       (Some (Wrapf err
                          ''primary-elect tablet %v failed to be upgraded to primary: %v''
                          [AliasArg (Alias (obj p)), ErrArg err]))] \<and>
               r = Some (undoFailed
                          (Wrapf err
                             ''primary-elect tablet %v failed to be upgraded to primary: %v''
                             [AliasArg (Alias (obj p)), ErrArg err]) failure) \<and>
               ev1 = ev0) \<and>
            (\<forall>position err. promoted = Inr position \<longrightarrow> reparented = Inl err \<longrightarrow>
               zs = [c, PromoteReplica_step p promoted, dispatched,
                     reparentReplicas_step p False True reparented,
                     promoteNewPrimary_step p (Some err)] \<and>
               r = Some (undoFailed err failure) \<and> ev1 = ev0) \<and>
            (\<forall>position replicas. promoted = Inr position \<longrightarrow> reparented = Inr replicas \<longrightarrow>
               zs = [c, PromoteReplica_step p promoted, dispatched,
                     reparentReplicas_step p False True reparented,
                     promoteNewPrimary_step p None] \<and>
               r = Some failure \<and> ev1 = ev0\<lparr>NewPrimary := Some (obj p)\<rparr>)"
  using assms
  by (auto simp: constraintStage_def promoteStage_def promoteNewPrimary_def
      reparentReplicas_def logged_def Let_def split: sum.splits option.splits prod.splits)

lemma idealReached_Cons:
  assumes "idealReached w d ks shard opts (h @ [e]) pp tm sm r zs ev1"
    and "phase e \<le> 9 \<or> phase e = 20"
  shows "idealReached w d ks shard opts h pp tm sm r (e # zs) ev1"
proof -
  from assms(1) obtain pre src ts r' zs' ev0 where
    "zs = pre @ zs'" "\<forall>x \<in> set pre. phase x \<le> 9 \<or> phase x = 20"
    "idealStage w d ((h @ [e]) @ pre) ev0 ks shard src ts pp opts tm sm = (r', zs', ev1)"
    "r = Return r'"
    unfolding idealReached_def by blast
  with assms(2) have "e # zs = (e # pre) @ zs'"
    "\<forall>x \<in> set (e # pre). phase x \<le> 9 \<or> phase x = 20"
    "idealStage w d (h @ (e # pre)) ev0 ks shard src ts pp opts tm sm = (r', zs', ev1)"
    "r = Return r'"
    by simp_all
  then show ?thesis unfolding idealReached_def by blast
qed

lemma idealReached_after:
  assumes "idealStage w d (h @ pre) ev0 ks shard src ts pp opts tm sm = (r', zs', ev1)"
    and "\<forall>x \<in> set pre. phase x \<le> 9 \<or> phase x = 20"
  shows "idealReached w d ks shard opts h pp tm sm (Return r') (pre @ zs') ev1"
  unfolding idealReached_def using assms by blast

lemma selectStage_ideal:
  assumes "selectStage w d h ev0 ks shard vc pp opts tm sm = (r, zs, ev1)"
    and "x \<in> set zs" and "10 \<le> phase x" and "phase x < 20"
  shows "idealReached w d ks shard opts h pp tm sm r zs ev1"
proof -
  from assms obtain src ts r' zs' where
    "zs = [waitForAllRelayLogsToApply_step None,
           findMostAdvanced_step (Return (Inr (src, ts)))] @ zs'"
    "idealStage w d (h @ [waitForAllRelayLogsToApply_step None,
                          findMostAdvanced_step (Return (Inr (src, ts)))])
       ev0 ks shard src ts pp opts tm sm = (r', zs', ev1)"
    "r = Return r'"
    by (auto simp: selectStage_def Let_def logged_eq returned_eq split: run_splits)
  with idealReached_after[OF this(2)] show ?thesis by simp
qed

lemma candidatesStage_ideal:
  assumes "candidatesStage w d h ev0 ks shard psm pp opts tm sm = (r, zs, ev1)"
    and "x \<in> set zs" and "10 \<le> phase x" and "phase x < 20"
  shows "idealReached w d ks shard opts h pp tm sm r zs ev1"
proof -
  from assms obtain e e' zs' where
    zs: "zs = e # e' # zs'" and e: "phase e \<le> 9" "phase e' \<le> 9"
    and sel: "selectStage w d (h @ [e, e']) ev0 ks shard
                (projr (restrictValidCandidates d
                   (projr (FindValidEmergencyReparentCandidates d sm psm)) tm))
                pp opts tm sm = (r, zs', ev1)"
    and x: "x \<in> set zs'"
    by (auto simp: candidatesStage_def Let_def logged_eq split: run_splits)
  from selectStage_ideal[OF sel x assms(3,4)]
  have "idealReached w d ks shard opts ((h @ [e]) @ [e']) pp tm sm r zs' ev1" by simp
  then show ?thesis unfolding zs using e by (intro idealReached_Cons) simp_all
qed

lemma prevPrimaryRead_mono:
  assumes "prevPrimaryRead zs pp" and "set zs \<subseteq> set zs'"
  shows "prevPrimaryRead zs' pp"
  using assms unfolding prevPrimaryRead_def by (cases pp) (simp, blast)+

lemma tabletMapStage_ideal:
  assumes "tabletMapStage w d h ev0 ks shard pp opts = (r, zs, ev1)"
    and "x \<in> set zs" and "10 \<le> phase x" and "phase x < 20"
  shows "\<exists>pre tm sm psm.
           (\<forall>y \<in> set pre. phase y \<le> 9 \<or> phase y = 20) \<and>
           GetTabletMapForShard_step (Inr tm) \<in> set pre \<and>
           StopReplicationAndBuildStatusMaps_step (Inr (sm, psm)) \<in> set pre \<and>
           (\<exists>zs'. zs = pre @ zs' \<and>
              idealReached w d ks shard opts (h @ pre) pp tm sm r zs' ev1)"
proof -
  let ?e1 = "DispatchUpdate_step ''reading all tablets'' [] :: ('a, 'b, 'c) step"
  from assms obtain tm sm psm zs' where
    zs: "zs = [?e1, GetTabletMapForShard_step (Inr tm),
               StopReplicationAndBuildStatusMaps_step (Inr (sm, psm)),
               CheckShardLocked_step None] @ zs'"
    and cand: "candidatesStage w d
                 (h @ [?e1, GetTabletMapForShard_step (Inr tm),
                       StopReplicationAndBuildStatusMaps_step (Inr (sm, psm)),
                       CheckShardLocked_step None])
                 ev0 ks shard psm pp opts tm sm = (r, zs', ev1)"
    and x: "x \<in> set zs'"
    by (auto simp: tabletMapStage_def Let_def logged_eq split: run_splits)
  from candidatesStage_ideal[OF cand x assms(3,4)] zs show ?thesis
    by (intro exI[of _ "[?e1, GetTabletMapForShard_step (Inr tm),
               StopReplicationAndBuildStatusMaps_step (Inr (sm, psm)),
               CheckShardLocked_step None]"] exI[of _ tm] exI[of _ sm] exI[of _ psm]) simp
qed

lemma shardStage_ideal:
  assumes "shardStage w d h ev0 ks shard opts = (r, zs, ev1)"
    and "x \<in> set zs" and "10 \<le> phase x" and "phase x < 20"
  shows "\<exists>pre pp tm sm psm src ts r' zs' ev0'.
           zs = pre @ zs' \<and>
           (\<forall>y \<in> set pre. phase y \<le> 9 \<or> phase y = 20) \<and>
           prevPrimaryRead pre pp \<and>
           GetTabletMapForShard_step (Inr tm) \<in> set pre \<and>
           StopReplicationAndBuildStatusMaps_step (Inr (sm, psm)) \<in> set pre \<and>
           idealStage w d (h @ pre) ev0' ks shard src ts pp opts tm sm = (r', zs', ev1) \<and>
           r = Return r'"
proof -
  from assms obtain pre0 pp ev0' zs0 where
    zs: "zs = pre0 @ zs0" and quiet: "\<forall>y \<in> set pre0. phase y \<le> 9 \<or> phase y = 20"
    and rd: "prevPrimaryRead pre0 pp"
    and tms: "tabletMapStage w d (h @ pre0) ev0' ks shard pp opts = (r, zs0, ev1)"
    and x: "x \<in> set zs0"
  proof (cases "GetShard w h ks shard")
    case (Inl err)
    with assms show ?thesis by (auto simp: shardStage_def Let_def)
  next
    case (Inr shardInfo)
    note shard = this
    show ?thesis
    proof (cases "PrimaryAlias shardInfo")
      case None
      with shard assms obtain zs0 where
        "zs = [GetShard_step (Inr shardInfo)] @ zs0"
        "tabletMapStage w d (h @ [GetShard_step (Inr shardInfo)])
           (ev0\<lparr>ShardInfo := shardInfo\<rparr>) ks shard None opts = (r, zs0, ev1)"
        "x \<in> set zs0"
        by (auto simp: shardStage_def Let_def logged_eq)
      moreover have "prevPrimaryRead [GetShard_step (Inr shardInfo)] None"
        using None by (simp add: prevPrimaryRead_def)
      ultimately show ?thesis by (intro that[of "[GetShard_step (Inr shardInfo)]" zs0 None]) auto
    next
      case (Some primaryAlias)
      note known = this
      show ?thesis
      proof (cases "GetTablet w (h @ [GetShard_step (Inr shardInfo)]) primaryAlias")
        case (Inl err)
        with shard known assms show ?thesis by (auto simp: shardStage_def Let_def)
      next
        case (Inr prevPrimaryInfo)
        let ?pre = "[GetShard_step (Inr shardInfo),
                     GetTablet_step primaryAlias (Inr prevPrimaryInfo)]"
        from Inr shard known assms obtain zs0 where
          "zs = ?pre @ zs0"
          "tabletMapStage w d (h @ ?pre) (ev0\<lparr>ShardInfo := shardInfo\<rparr>) ks shard
             (Some (Tablet prevPrimaryInfo)) opts = (r, zs0, ev1)"
          "x \<in> set zs0"
          by (auto simp: shardStage_def Let_def logged_eq)
        moreover have "prevPrimaryRead ?pre (Some (Tablet prevPrimaryInfo))"
          using known by (auto simp: prevPrimaryRead_def)
        ultimately show ?thesis
          by (intro that[of ?pre zs0 "Some (Tablet prevPrimaryInfo)"]) auto
      qed
    qed
  qed
  from tabletMapStage_ideal[OF tms x assms(3,4)] obtain pre1 tm sm psm zs1 where
    quiet1: "\<forall>y \<in> set pre1. phase y \<le> 9 \<or> phase y = 20"
    and tm: "GetTabletMapForShard_step (Inr tm) \<in> set pre1"
    and sm: "StopReplicationAndBuildStatusMaps_step (Inr (sm, psm)) \<in> set pre1"
    and zs0: "zs0 = pre1 @ zs1"
    and reached: "idealReached w d ks shard opts ((h @ pre0) @ pre1) pp tm sm r zs1 ev1"
    by blast
  from reached obtain pre2 src ts r' zs' ev0'' where
    zs1: "zs1 = pre2 @ zs'" and quiet2: "\<forall>y \<in> set pre2. phase y \<le> 9 \<or> phase y = 20"
    and ideal: "idealStage w d (((h @ pre0) @ pre1) @ pre2) ev0'' ks shard src ts pp opts tm sm
                  = (r', zs', ev1)"
    and r: "r = Return r'"
    unfolding idealReached_def by blast
  let ?pre = "pre0 @ pre1 @ pre2"
  have "zs = ?pre @ zs'" using zs zs0 zs1 by simp
  moreover have "\<forall>y \<in> set ?pre. phase y \<le> 9 \<or> phase y = 20"
    using quiet quiet1 quiet2 by auto
  moreover have "prevPrimaryRead ?pre pp" using rd by (rule prevPrimaryRead_mono) auto
  moreover have "GetTabletMapForShard_step (Inr tm) \<in> set ?pre"
    "StopReplicationAndBuildStatusMaps_step (Inr (sm, psm)) \<in> set ?pre"
    using tm sm by simp_all
  moreover have "idealStage w d (h @ ?pre) ev0'' ks shard src ts pp opts tm sm = (r', zs', ev1)"
    using ideal by simp
  ultimately show ?thesis using r by blast
qed

lemma ReparentShard_ideal:
  assumes run: "ReparentShard w d ks shard opts s = (res, s')"
    and x: "x \<in> set (emitted s s')" "10 \<le> phase x" "phase x < 20"
  shows "\<exists>pre pp tm sm psm src ts r' zs' fin ev0.
           emitted s s' = pre @ zs' @ fin \<and>
           (\<forall>y \<in> set pre. phase y \<le> 9 \<or> phase y = 20) \<and>
           prevPrimaryRead pre pp \<and>
           GetTabletMapForShard_step (Inr tm) \<in> set pre \<and>
           StopReplicationAndBuildStatusMaps_step (Inr (sm, psm)) \<in> set pre \<and>
           idealStage w d (trace s @ pre) ev0 ks shard src ts pp (lockedOpts d opts) tm sm =
             (r', zs', ev s') \<and>
           res = Return (Some (ev s'), r') \<and>
           fin = (case r' of
                    None \<Rightarrow> [DispatchUpdate_step ''finished EmergencyReparentShard'' [],
                             Unlock_step None]
                  | Some err \<Rightarrow>
                      [DispatchUpdate_step ''failed EmergencyReparentShard: %v'' [ErrArg err],
                       Unlock_step (Some err)])"
proof (cases "LockShard w (trace s) ks shard (getLockAction d (NewPrimaryAlias opts))")
  case (Some lockErr)
  from ReparentShard_lock_failed[OF run Some] x show ?thesis by auto
next
  case None
  let ?ev0 = "\<lparr>ShardInfo = \<lparr>keyspace = [], shardName = [], PrimaryAlias = None\<rparr>,
               NewPrimary = None\<rparr>"
  let ?lock = "LockShard_step ks shard (getLockAction d (NewPrimaryAlias opts)) None"
  from ReparentShard_locked[OF run None] obtain r zs fin ev1 where
    stage: "shardStage w d (trace s @ [?lock]) ?ev0 ks shard (lockedOpts d opts) = (r, zs, ev1)"
    and em: "emitted s s' = ?lock # zs @ fin"
    and ev: "ev s' = ev1"
    and fin: "\<forall>x \<in> set fin. phase x = 20"
    and ok: "r = Return None \<longrightarrow>
              res = Return (Some ev1, None) \<and>
              fin = [DispatchUpdate_step ''finished EmergencyReparentShard'' [],
                     Unlock_step None] \<and>
              ersSuccessCounter s' = ersSuccessCounter s + 1 \<and>
              ersFailureCounter s' = ersFailureCounter s"
    and failed: "\<forall>err. r = Return (Some err) \<longrightarrow>
              res = Return (Some ev1, Some err) \<and>
              fin = [DispatchUpdate_step ''failed EmergencyReparentShard: %v'' [ErrArg err],
                     Unlock_step (Some err)] \<and>
              ersSuccessCounter s' = ersSuccessCounter s \<and>
              ersFailureCounter s' = ersFailureCounter s + 1"
    by (elim exE conjE) blast
  from x em fin have "x \<in> set zs" by fastforce
  from shardStage_ideal[OF stage this x(2,3)] obtain pre pp tm sm psm src ts r' zs' ev0' where
    zs: "zs = pre @ zs'"
    and quiet: "\<forall>y \<in> set pre. phase y \<le> 9 \<or> phase y = 20"
    and rd: "prevPrimaryRead pre pp"
    and tm: "GetTabletMapForShard_step (Inr tm) \<in> set pre"
    and sm: "StopReplicationAndBuildStatusMaps_step (Inr (sm, psm)) \<in> set pre"
    and ideal: "idealStage w d ((trace s @ [?lock]) @ pre) ev0' ks shard src ts pp
                  (lockedOpts d opts) tm sm = (r', zs', ev1)"
    and r: "r = Return r'"
    by blast
  let ?pre = "?lock # pre"
  have "emitted s s' = ?pre @ zs' @ fin" using em zs by simp
  moreover have "\<forall>y \<in> set ?pre. phase y \<le> 9 \<or> phase y = 20" using quiet by simp
  moreover have "prevPrimaryRead ?pre pp" using rd by (rule prevPrimaryRead_mono) auto
  moreover have "GetTabletMapForShard_step (Inr tm) \<in> set ?pre"
    "StopReplicationAndBuildStatusMaps_step (Inr (sm, psm)) \<in> set ?pre"
    using tm sm by simp_all
  moreover have "idealStage w d (trace s @ ?pre) ev0' ks shard src ts pp
                  (lockedOpts d opts) tm sm = (r', zs', ev s')"
    using ideal ev by simp
  moreover have "res = Return (Some (ev s'), r')"
    using ok failed r ev by (cases r') auto
  moreover have "fin = (case r' of
                    None \<Rightarrow> [DispatchUpdate_step ''finished EmergencyReparentShard'' [],
                             Unlock_step None]
                  | Some err \<Rightarrow>
                      [DispatchUpdate_step ''failed EmergencyReparentShard: %v'' [ErrArg err],
                       Unlock_step (Some err)])"
    using ok failed r by (cases r') auto
  ultimately show ?thesis by blast
qed





lemma improveStage_constraint:
  assumes run: "improveStage w d h ev0 isIdeal src pp opts tm sm = (r, zs, ev1)"
    and x: "x \<in> set zs" "14 \<le> phase x" "phase x < 20"
  shows "\<exists>pre np zs'.
           zs = pre @ zs' \<and> (\<forall>y \<in> set pre. phase y < 14 \<or> phase y = 20) \<and>
           constraintStage w d (h @ pre) ev0 np pp opts tm sm = (r, zs', ev1)"
proof (cases isIdeal)
  case True
  with run have "constraintStage w d (h @ []) ev0 src pp opts tm sm = (r, zs, ev1)"
    by (simp add: improveStage_def)
  then show ?thesis by (intro exI[of _ "[]"] exI[of _ src] exI[of _ zs]) simp
next
  case False
  let ?D = "DispatchUpdate_step ''reparenting all tablets'' [] :: ('a, 'b, 'c) step"
  let ?res = "reparentReplicasResult w d (h @ [?D]) src tm sm opts True False"
  note defs = improveStage_def promoteIntermediatePrimary_def reparentReplicas_def Let_def
  show ?thesis
  proof (cases ?res)
    case (Inl err)
    with run False have "zs = [?D, reparentReplicas_step src True False ?res]"
      by (simp add: defs)
    with x have False by auto
    then show ?thesis ..
  next
    case (Inr replicas)
    let ?R = "reparentReplicas_step src True False (Inr replicas) :: ('a, 'b, 'c) step"
    let ?better = "identifyPrimaryCandidate d src pp (replicas @ [src]) tm opts"
    let ?I = "identifyPrimaryCandidate_step src (replicas @ [src]) ?better"
    show ?thesis
    proof (cases ?better)
      case (Inl err)
      with run False Inr have "zs = [?D, ?R, ?I]" by (simp add: defs)
      with x have False by auto
      then show ?thesis ..
    next
      case better: (Inr betterCandidate)
      show ?thesis
      proof (cases "TabletAliasEqual (Alias (obj betterCandidate)) (Alias (obj src))")
        case True
        with run False Inr better obtain zs' where
          "zs = [?D, ?R, ?I] @ zs'"
          "constraintStage w d (h @ [?D, ?R, ?I]) ev0 src pp opts tm sm = (r, zs', ev1)"
          by (auto simp: defs logged_eq)
        then show ?thesis by (intro exI[of _ "[?D, ?R, ?I]"] exI[of _ src] exI[of _ zs']) simp
      next
        case differs: False
        let ?caught = "waitForCatchUp w (h @ [?D, ?R, ?I]) src betterCandidate
                         (WaitReplicasTimeout opts)"
        let ?W = "waitForCatchUp_step src betterCandidate ?caught"
        show ?thesis
        proof (cases ?caught)
          case (Some err)
          with run False Inr better differs have "zs = [?D, ?R, ?I, ?W]" by (auto simp: defs)
          with x have False by auto
          then show ?thesis ..
        next
          case None
          with run False Inr better differs obtain zs' where
            "zs = [?D, ?R, ?I, ?W] @ zs'"
            "constraintStage w d (h @ [?D, ?R, ?I, ?W]) ev0 betterCandidate pp opts tm sm
               = (r, zs', ev1)"
            by (auto simp: defs logged_eq)
          then show ?thesis
            by (intro exI[of _ "[?D, ?R, ?I, ?W]"] exI[of _ betterCandidate] exI[of _ zs']) simp
        qed
      qed
    qed
  qed
qed

lemma improveStage_late:
  "improveStage w d h ev0 isIdeal src pp opts tm sm = (r, zs, ev1) \<Longrightarrow>
   \<forall>x \<in> set zs. 11 \<le> phase x"
  by (rule improveStage_phase)

lemma improveStage_ideal:
  assumes "improveStage w d h ev0 True src pp opts tm sm = (r, zs, ev1)"
  shows "\<forall>x \<in> set zs. 14 \<le> phase x"
proof -
  from assms have "constraintStage w d h ev0 src pp opts tm sm = (r, zs, ev1)"
    by (simp add: improveStage_def)
  then show ?thesis by (rule constraintStage_phase)
qed

lemma idealStage_steps:
  assumes run: "idealStage w d h ev0 ks shard src ts pp opts tm sm = (r, zs, ev1)"
  shows "\<exists>rest.
           zs = intermediateCandidateIsIdeal_step src ts
                  (intermediateCandidateIsIdeal d src pp ts tm opts) # rest \<and>
           (\<forall>x \<in> set rest. 11 \<le> phase x) \<and>
           (intermediateCandidateIsIdeal d src pp ts tm opts = Inr True \<longrightarrow>
              (\<forall>x \<in> set rest. 14 \<le> phase x)) \<and>
           ((\<exists>x \<in> set rest. phase x < 20) \<longrightarrow>
              (\<exists>isIdeal rest'.
                 intermediateCandidateIsIdeal d src pp ts tm opts = Inr isIdeal \<and>
                 rest = CheckShardLocked_step None # rest' \<and>
                 improveStage w d
                   (h @ [intermediateCandidateIsIdeal_step src ts (Inr isIdeal),
                         CheckShardLocked_step None])
                   ev0 isIdeal src pp opts tm sm = (r, rest', ev1)))"
proof (cases "intermediateCandidateIsIdeal d src pp ts tm opts")
  case (Inl err)
  with run have "zs = [intermediateCandidateIsIdeal_step src ts (Inl err)]"
    by (simp add: idealStage_def Let_def)
  with Inl show ?thesis by simp
next
  case (Inr isIdeal)
  let ?e = "intermediateCandidateIsIdeal_step src ts (Inr isIdeal) :: ('a, 'b, 'c) step"
  show ?thesis
  proof (cases "CheckShardLocked w (h @ [?e]) ks shard")
    case (Some err)
    with run Inr have "zs = [?e, CheckShardLocked_step (Some err)]"
      by (simp add: idealStage_def Let_def)
    with Inr show ?thesis by simp
  next
    case None
    with run Inr obtain rest' where
      zs: "zs = [?e, CheckShardLocked_step None] @ rest'"
      and imp: "improveStage w d (h @ [?e, CheckShardLocked_step None]) ev0 isIdeal src pp opts
                  tm sm = (r, rest', ev1)"
      by (auto simp: idealStage_def Let_def logged_eq)
    from improveStage_late[OF imp] have late: "\<forall>x \<in> set rest'. 11 \<le> phase x" .
    have "isIdeal \<longrightarrow> (\<forall>x \<in> set rest'. 14 \<le> phase x)"
    proof
      assume isIdeal
      with imp show "\<forall>x \<in> set rest'. 14 \<le> phase x"
        by (intro improveStage_ideal[of w d _ ev0 src pp opts tm sm r rest' ev1]) simp
    qed
    with zs Inr imp late show ?thesis by simp
  qed
qed


lemma idealStage_constraint:
  assumes run: "idealStage w d h ev0 ks shard src ts pp opts tm sm = (r, zs, ev1)"
    and x: "x \<in> set zs" "14 \<le> phase x" "phase x < 20"
  shows "\<exists>pre np zs'.
           zs = pre @ zs' \<and> (\<forall>y \<in> set pre. phase y < 14 \<or> phase y = 20) \<and>
           constraintStage w d (h @ pre) ev0 np pp opts tm sm = (r, zs', ev1)"
proof -
  from idealStage_steps[OF run] obtain rest where
    zs: "zs = intermediateCandidateIsIdeal_step src ts
                (intermediateCandidateIsIdeal d src pp ts tm opts) # rest"
    and reach: "(\<exists>x \<in> set rest. phase x < 20) \<longrightarrow>
              (\<exists>isIdeal rest'.
                 intermediateCandidateIsIdeal d src pp ts tm opts = Inr isIdeal \<and>
                 rest = CheckShardLocked_step None # rest' \<and>
                 improveStage w d
                   (h @ [intermediateCandidateIsIdeal_step src ts (Inr isIdeal),
                         CheckShardLocked_step None])
                   ev0 isIdeal src pp opts tm sm = (r, rest', ev1))"
    by blast
  from zs x have xr: "x \<in> set rest" by auto
  with x(3) have "\<exists>x \<in> set rest. phase x < 20" by blast
  with reach obtain isIdeal rest' where
    ideal: "intermediateCandidateIsIdeal d src pp ts tm opts = Inr isIdeal"
    and rest': "rest = CheckShardLocked_step None # rest'"
    and imp: "improveStage w d
                (h @ [intermediateCandidateIsIdeal_step src ts (Inr isIdeal),
                      CheckShardLocked_step None])
                ev0 isIdeal src pp opts tm sm = (r, rest', ev1)"
    by blast
  from xr rest' x have "x \<in> set rest'" by auto
  from improveStage_constraint[OF imp this x(2,3)] obtain pre np zs' where
    "rest' = pre @ zs'" "\<forall>y \<in> set pre. phase y < 14 \<or> phase y = 20"
    "constraintStage w d
       ((h @ [intermediateCandidateIsIdeal_step src ts (Inr isIdeal),
              CheckShardLocked_step None]) @ pre) ev0 np pp opts tm sm = (r, zs', ev1)"
    by blast
  with zs rest' ideal show ?thesis
    by (intro exI[of _ "intermediateCandidateIsIdeal_step src ts (Inr isIdeal) #
                        CheckShardLocked_step None # pre"] exI[of _ np] exI[of _ zs']) simp
qed

lemma constraintStage_head:
  assumes "constraintStage w d h ev0 np pp opts tm sm = (r, zs, ev1)"
  shows "\<exists>rest. zs = checkIfConstraintsSatisfied_step np pp
                        (checkIfConstraintsSatisfied d np pp opts) # rest \<and>
           (\<forall>x \<in> set rest. 15 \<le> phase x) \<and>
           (pp = None \<longrightarrow> checkIfConstraintsSatisfied d np pp opts \<noteq> None \<longrightarrow>
              rest = [] \<and> ev1 = ev0)"
  using assms
  by (auto simp: constraintStage_def Let_def logged_eq split: option.splits prod.splits
      dest!: promoteStage_phase)


lemma ReparentShard_constraint_reached:
  assumes run: "ReparentShard w d ks shard opts s = (res, s')"
    and check: "checkIfConstraintsSatisfied_step np pp result \<in> set (emitted s s')"
  shows "\<exists>pre tm sm psm r' rest fin ev0.
           emitted s s' = pre @ (checkIfConstraintsSatisfied_step np pp result # rest) @ fin \<and>
           (\<forall>y \<in> set pre. phase y < 14 \<or> phase y = 20) \<and>
           prevPrimaryRead pre pp \<and>
           GetTabletMapForShard_step (Inr tm) \<in> set pre \<and>
           StopReplicationAndBuildStatusMaps_step (Inr (sm, psm)) \<in> set pre \<and>
           result = checkIfConstraintsSatisfied d np pp (lockedOpts d opts) \<and>
           constraintStage w d (trace s @ pre) ev0 np pp (lockedOpts d opts) tm sm =
             (r', checkIfConstraintsSatisfied_step np pp result # rest, ev s') \<and>
           res = Return (Some (ev s'), r') \<and>
           fin = (case r' of
                    None \<Rightarrow> [DispatchUpdate_step ''finished EmergencyReparentShard'' [],
                             Unlock_step None]
                  | Some err \<Rightarrow>
                      [DispatchUpdate_step ''failed EmergencyReparentShard: %v'' [ErrArg err],
                       Unlock_step (Some err)])"
proof -
  let ?c = "checkIfConstraintsSatisfied_step np pp result :: ('a, 'b, 'c) step"
  from ReparentShard_ideal[OF run check] have "\<exists>pre pp tm sm psm src ts r' zs' fin ev0.
           emitted s s' = pre @ zs' @ fin \<and>
           (\<forall>y \<in> set pre. phase y \<le> 9 \<or> phase y = 20) \<and>
           prevPrimaryRead pre pp \<and>
           GetTabletMapForShard_step (Inr tm) \<in> set pre \<and>
           StopReplicationAndBuildStatusMaps_step (Inr (sm, psm)) \<in> set pre \<and>
           idealStage w d (trace s @ pre) ev0 ks shard src ts pp (lockedOpts d opts) tm sm =
             (r', zs', ev s') \<and>
           res = Return (Some (ev s'), r') \<and>
           fin = (case r' of
                    None \<Rightarrow> [DispatchUpdate_step ''finished EmergencyReparentShard'' [],
                             Unlock_step None]
                  | Some err \<Rightarrow>
                      [DispatchUpdate_step ''failed EmergencyReparentShard: %v'' [ErrArg err],
                       Unlock_step (Some err)])"
    by simp
  then obtain pre0 pp0 tm sm psm src ts r' zs' fin ev0 where
    em0: "emitted s s' = pre0 @ zs' @ fin"
    and quiet: "\<forall>y \<in> set pre0. phase y \<le> 9 \<or> phase y = 20"
    and rd: "prevPrimaryRead pre0 pp0"
    and tm: "GetTabletMapForShard_step (Inr tm) \<in> set pre0"
    and sm: "StopReplicationAndBuildStatusMaps_step (Inr (sm, psm)) \<in> set pre0"
    and ideal: "idealStage w d (trace s @ pre0) ev0 ks shard src ts pp0 (lockedOpts d opts)
                  tm sm = (r', zs', ev s')"
    and res: "res = Return (Some (ev s'), r')"
    and fin: "fin = (case r' of
                    None \<Rightarrow> [DispatchUpdate_step ''finished EmergencyReparentShard'' [],
                             Unlock_step None]
                  | Some err \<Rightarrow>
                      [DispatchUpdate_step ''failed EmergencyReparentShard: %v'' [ErrArg err],
                       Unlock_step (Some err)])"
    by (elim exE conjE) (rule that, assumption+)
  have finq: "\<forall>y \<in> set fin. phase y = 20" unfolding fin by (cases r') simp_all
  from check em0 quiet finq have inner: "?c \<in> set zs'" by fastforce
  from idealStage_constraint[OF ideal this] obtain p np0 zc where
    zs': "zs' = p @ zc" and pq: "\<forall>y \<in> set p. phase y < 14 \<or> phase y = 20"
    and cs: "constraintStage w d ((trace s @ pre0) @ p) ev0 np0 pp0 (lockedOpts d opts) tm sm
               = (r', zc, ev s')"
    by auto
  from constraintStage_head[OF cs] obtain rest where
    zc: "zc = checkIfConstraintsSatisfied_step np0 pp0
                (checkIfConstraintsSatisfied d np0 pp0 (lockedOpts d opts)) # rest"
    and late: "\<forall>x \<in> set rest. 15 \<le> phase x"
    by blast
  from inner zs' pq have "?c \<in> set zc" by fastforce
  with zc late have same: "np = np0" "pp = pp0"
    "result = checkIfConstraintsSatisfied d np0 pp0 (lockedOpts d opts)"
    by fastforce+
  let ?pre = "pre0 @ p"
  have "emitted s s' = ?pre @ (?c # rest) @ fin" using em0 zs' zc same by simp
  moreover have "\<forall>y \<in> set ?pre. phase y < 14 \<or> phase y = 20" using quiet pq by fastforce
  moreover have "prevPrimaryRead ?pre pp" using rd unfolding same
    by (rule prevPrimaryRead_mono) simp
  moreover have "GetTabletMapForShard_step (Inr tm) \<in> set ?pre"
    "StopReplicationAndBuildStatusMaps_step (Inr (sm, psm)) \<in> set ?pre"
    using tm sm by simp_all
  moreover have "result = checkIfConstraintsSatisfied d np pp (lockedOpts d opts)"
    using same by simp
  moreover have "constraintStage w d (trace s @ ?pre) ev0 np pp (lockedOpts d opts) tm sm =
             (r', ?c # rest, ev s')"
    using cs zc same by simp
  ultimately show ?thesis using res fin by blast
qed

lemma ReparentShard_undo:
  assumes run: "ReparentShard w d ks shard opts s = (res, s')"
    and check: "checkIfConstraintsSatisfied_step np pp (Some failure) \<in> set (emitted s s')"
  shows "case pp of
      None \<Rightarrow>
        (\<exists>pre. emitted s s' =
           pre @ [checkIfConstraintsSatisfied_step np None (Some failure),
                  DispatchUpdate_step ''failed EmergencyReparentShard: %v''
                    [ErrArg (undoFailed noPrimaryToUndo failure)],
                  Unlock_step (Some (undoFailed noPrimaryToUndo failure))])
    | Some p \<Rightarrow>
        (\<exists>pre post tm sm psm.
           emitted s s' =
             pre @ checkIfConstraintsSatisfied_step np (Some p) (Some failure) #
                   PromoteReplica_step p
                     (PromoteReplica w
                        (trace s @ pre @ [checkIfConstraintsSatisfied_step np (Some p)
                                            (Some failure)]) p) # post \<and>
           GetTabletMapForShard_step (Inr tm) \<in> set pre \<and>
           StopReplicationAndBuildStatusMaps_step (Inr (sm, psm)) \<in> set pre \<and>
           (\<forall>err. PromoteReplica w
                    (trace s @ pre @ [checkIfConstraintsSatisfied_step np (Some p)
                                        (Some failure)]) p = Inl err \<longrightarrow>
              (let undo = Wrapf err
                            ''primary-elect tablet %v failed to be upgraded to primary: %v''
                            [AliasArg (Alias (obj p)), ErrArg err]
               in post = [promoteNewPrimary_step p (Some undo),
                          DispatchUpdate_step ''failed EmergencyReparentShard: %v''
                            [ErrArg (undoFailed undo failure)],
                          Unlock_step (Some (undoFailed undo failure))] \<and>
                  res = Return (Some (ev s'), Some (undoFailed undo failure)))) \<and>
           (\<forall>position.
              PromoteReplica w
                (trace s @ pre @ [checkIfConstraintsSatisfied_step np (Some p)
                                    (Some failure)]) p = Inr position \<longrightarrow>
              (let h = trace s @ pre @
                         [checkIfConstraintsSatisfied_step np (Some p) (Some failure),
                          PromoteReplica_step p (Inr position),
                          DispatchUpdate_step ''reparenting all tablets'' []];
                   reparented = reparentReplicasResult w d h p tm sm (lockedOpts d opts)
                                  False True
               in (\<forall>err. reparented = Inl err \<longrightarrow>
                     post = [DispatchUpdate_step ''reparenting all tablets'' [],
                             reparentReplicas_step p False True (Inl err),
                             promoteNewPrimary_step p (Some err),
                             DispatchUpdate_step ''failed EmergencyReparentShard: %v''
                               [ErrArg (undoFailed err failure)],
                             Unlock_step (Some (undoFailed err failure))] \<and>
                     res = Return (Some (ev s'), Some (undoFailed err failure))) \<and>
                  (\<forall>replicas. reparented = Inr replicas \<longrightarrow>
                     post = [DispatchUpdate_step ''reparenting all tablets'' [],
                             reparentReplicas_step p False True (Inr replicas),
                             promoteNewPrimary_step p None,
                             DispatchUpdate_step ''failed EmergencyReparentShard: %v''
                               [ErrArg failure],
                             Unlock_step (Some failure)] \<and>
                     res = Return (Some (ev s'), Some failure) \<and>
                     NewPrimary (ev s') = Some (obj p) \<and>
                     (\<exists>primaryPosition.
                        MasterPosition w h p = Inr primaryPosition \<and>
                        PopulateReparentJournal w h p (UnixNano w h)
                          (getLockAction d (NewPrimaryAlias opts)) (Alias (obj p))
                          primaryPosition = None) \<and>
                     (fannedOut d (lockedOpts d opts) p tm = [] \<or>
                      (\<exists>a ti forceStart.
                         (a, ti) \<in> set (fannedOut d (lockedOpts d opts) p tm) \<and>
                         (case sm a of None \<Rightarrow> Inr False
                          | Some status \<Rightarrow> ReplicaWasRunning d status) = Inr forceStart \<and>
                         SetMaster w h (Tablet ti) (Alias (obj p)) 0 [] forceStart = None))))))"
proof -
  from ReparentShard_constraint_reached[OF run check]
  obtain pre tm sm psm r' rest fin ev0 where
    em: "emitted s s' =
           pre @ (checkIfConstraintsSatisfied_step np pp (Some failure) # rest) @ fin"
    and tm: "GetTabletMapForShard_step (Inr tm) \<in> set pre"
    and sm: "StopReplicationAndBuildStatusMaps_step (Inr (sm, psm)) \<in> set pre"
    and failure: "Some failure = checkIfConstraintsSatisfied d np pp (lockedOpts d opts)"
    and cs: "constraintStage w d (trace s @ pre) ev0 np pp (lockedOpts d opts) tm sm =
               (r', checkIfConstraintsSatisfied_step np pp (Some failure) # rest, ev s')"
    and res: "res = Return (Some (ev s'), r')"
    and fin: "fin = (case r' of
                    None \<Rightarrow> [DispatchUpdate_step ''finished EmergencyReparentShard'' [],
                             Unlock_step None]
                  | Some err \<Rightarrow>
                      [DispatchUpdate_step ''failed EmergencyReparentShard: %v'' [ErrArg err],
                       Unlock_step (Some err)])"
    by (elim exE conjE) (rule that, assumption+)
  show ?thesis
  proof (cases pp)
    case None
    with cs failure have "r' = Some (undoFailed noPrimaryToUndo failure)" "rest = []"
      by (auto simp: constraintStage_def Let_def split: option.splits)
    with em fin None show ?thesis by simp
  next
    case (Some p)
    let ?c = "checkIfConstraintsSatisfied_step np (Some p) (Some failure) :: ('a, 'b, 'c) step"
    let ?promoted = "PromoteReplica w (trace s @ pre @ [?c]) p"
    let ?D = "DispatchUpdate_step ''reparenting all tablets'' [] :: ('a, 'b, 'c) step"
    from cs Some have cs': "constraintStage w d (trace s @ pre) ev0 np (Some p)
                              (lockedOpts d opts) tm sm = (r', ?c # rest, ev s')"
      by simp
    from failure Some have failure':
      "checkIfConstraintsSatisfied d np (Some p) (lockedOpts d opts) = Some failure"
      by simp
    note undone = constraintStage_undone[OF cs' failure', unfolded Let_def, simplified]
    have first: "\<forall>err. ?promoted = Inl err \<longrightarrow>
              (let undo = Wrapf err
                            ''primary-elect tablet %v failed to be upgraded to primary: %v''
                            [AliasArg (Alias (obj p)), ErrArg err]
               in rest @ fin = [PromoteReplica_step p ?promoted,
                          promoteNewPrimary_step p (Some undo),
                          DispatchUpdate_step ''failed EmergencyReparentShard: %v''
                            [ErrArg (undoFailed undo failure)],
                          Unlock_step (Some (undoFailed undo failure))] \<and>
                  res = Return (Some (ev s'), Some (undoFailed undo failure)))"
      using undone res fin by (auto simp: Let_def)
    have second: "\<forall>position. ?promoted = Inr position \<longrightarrow>
              (let h = trace s @ pre @ [?c, PromoteReplica_step p (Inr position), ?D];
                   reparented = reparentReplicasResult w d h p tm sm (lockedOpts d opts)
                                  False True
               in (\<forall>err. reparented = Inl err \<longrightarrow>
                     rest @ fin = [PromoteReplica_step p ?promoted, ?D,
                             reparentReplicas_step p False True (Inl err),
                             promoteNewPrimary_step p (Some err),
                             DispatchUpdate_step ''failed EmergencyReparentShard: %v''
                               [ErrArg (undoFailed err failure)],
                             Unlock_step (Some (undoFailed err failure))] \<and>
                     res = Return (Some (ev s'), Some (undoFailed err failure))) \<and>
                  (\<forall>replicas. reparented = Inr replicas \<longrightarrow>
                     rest @ fin = [PromoteReplica_step p ?promoted, ?D,
                             reparentReplicas_step p False True (Inr replicas),
                             promoteNewPrimary_step p None,
                             DispatchUpdate_step ''failed EmergencyReparentShard: %v''
                               [ErrArg failure],
                             Unlock_step (Some failure)] \<and>
                     res = Return (Some (ev s'), Some failure) \<and>
                     NewPrimary (ev s') = Some (obj p)))"
      using undone res fin by (auto simp: Let_def)
    have rpcs: "(\<exists>primaryPosition.
                        MasterPosition w h p = Inr primaryPosition \<and>
                        PopulateReparentJournal w h p (UnixNano w h)
                          (getLockAction d (NewPrimaryAlias opts)) (Alias (obj p))
                          primaryPosition = None) \<and>
                     (fannedOut d (lockedOpts d opts) p tm = [] \<or>
                      (\<exists>a ti forceStart.
                         (a, ti) \<in> set (fannedOut d (lockedOpts d opts) p tm) \<and>
                         (case sm a of None \<Rightarrow> Inr False
                          | Some status \<Rightarrow> ReplicaWasRunning d status) = Inr forceStart \<and>
                         SetMaster w h (Tablet ti) (Alias (obj p)) 0 [] forceStart = None))"
      if rr: "reparentReplicasResult w d h p tm sm (lockedOpts d opts) False True = Inr replicas"
      for h replicas
    proof
      from handlePrimary_None[OF reparentReplicasResult_Inr(1)[OF rr]]
      show "\<exists>primaryPosition.
                        MasterPosition w h p = Inr primaryPosition \<and>
                        PopulateReparentJournal w h p (UnixNano w h)
                          (getLockAction d (NewPrimaryAlias opts)) (Alias (obj p))
                          primaryPosition = None"
        by (simp add: lockedOpts_def)
      from reparentReplicasResult_Inr(3)[OF rr]
      show "fannedOut d (lockedOpts d opts) p tm = [] \<or>
                      (\<exists>a ti forceStart.
                         (a, ti) \<in> set (fannedOut d (lockedOpts d opts) p tm) \<and>
                         (case sm a of None \<Rightarrow> Inr False
                          | Some status \<Rightarrow> ReplicaWasRunning d status) = Inr forceStart \<and>
                         SetMaster w h (Tablet ti) (Alias (obj p)) 0 [] forceStart = None)"
      proof
        assume "fannedOut d (lockedOpts d opts) p tm = []"
        then show ?thesis by simp
      next
        assume "startedReplication (replicaOutcomes w d h p tm sm (lockedOpts d opts)) \<noteq> []"
        then obtain t where
          "t \<in> set (startedReplication (replicaOutcomes w d h p tm sm (lockedOpts d opts)))"
          by (cases "startedReplication (replicaOutcomes w d h p tm sm (lockedOpts d opts))")
            auto
        from replicaOutcomes_started[OF this] show ?thesis by blast
      qed
    qed
    from undone have rest: "\<exists>post. rest = PromoteReplica_step p ?promoted # post"
      by (cases ?promoted; cases "reparentReplicasResult w d
            (trace s @ pre @ [?c, PromoteReplica_step p ?promoted, ?D]) p tm sm
            (lockedOpts d opts) False True") (auto simp: Let_def)
    then obtain post0 where post0: "rest = PromoteReplica_step p ?promoted # post0" ..
    let ?post = "post0 @ fin"
    from em Some post0 have em': "emitted s s' = pre @ ?c # PromoteReplica_step p ?promoted # ?post"
      by simp
    show ?thesis
      unfolding Some option.case
    proof (rule exI[of _ pre], rule exI[of _ ?post], rule exI[of _ tm], rule exI[of _ sm],
        rule exI[of _ psm], intro conjI)
      show "emitted s s' = pre @ ?c # PromoteReplica_step p ?promoted # ?post" by (rule em')
      show "GetTabletMapForShard_step (Inr tm) \<in> set pre" by (rule tm)
      show "StopReplicationAndBuildStatusMaps_step (Inr (sm, psm)) \<in> set pre" by (rule sm)
      from first post0 show "\<forall>err. ?promoted = Inl err \<longrightarrow>
              (let undo = Wrapf err
                            ''primary-elect tablet %v failed to be upgraded to primary: %v''
                            [AliasArg (Alias (obj p)), ErrArg err]
               in ?post = [promoteNewPrimary_step p (Some undo),
                          DispatchUpdate_step ''failed EmergencyReparentShard: %v''
                            [ErrArg (undoFailed undo failure)],
                          Unlock_step (Some (undoFailed undo failure))] \<and>
                  res = Return (Some (ev s'), Some (undoFailed undo failure)))"
        by (simp add: Let_def)
      show "\<forall>position.
              ?promoted = Inr position \<longrightarrow>
              (let h = trace s @ pre @ [?c, PromoteReplica_step p (Inr position), ?D];
                   reparented = reparentReplicasResult w d h p tm sm (lockedOpts d opts)
                                  False True
               in (\<forall>err. reparented = Inl err \<longrightarrow>
                     ?post = [?D,
                             reparentReplicas_step p False True (Inl err),
                             promoteNewPrimary_step p (Some err),
                             DispatchUpdate_step ''failed EmergencyReparentShard: %v''
                               [ErrArg (undoFailed err failure)],
                             Unlock_step (Some (undoFailed err failure))] \<and>
                     res = Return (Some (ev s'), Some (undoFailed err failure))) \<and>
                  (\<forall>replicas. reparented = Inr replicas \<longrightarrow>
                     ?post = [?D,
                             reparentReplicas_step p False True (Inr replicas),
                             promoteNewPrimary_step p None,
                             DispatchUpdate_step ''failed EmergencyReparentShard: %v''
                               [ErrArg failure],
                             Unlock_step (Some failure)] \<and>
                     res = Return (Some (ev s'), Some failure) \<and>
                     NewPrimary (ev s') = Some (obj p) \<and>
                     (\<exists>primaryPosition.
                        MasterPosition w h p = Inr primaryPosition \<and>
                        PopulateReparentJournal w h p (UnixNano w h)
                          (getLockAction d (NewPrimaryAlias opts)) (Alias (obj p))
                          primaryPosition = None) \<and>
                     (fannedOut d (lockedOpts d opts) p tm = [] \<or>
                      (\<exists>a ti forceStart.
                         (a, ti) \<in> set (fannedOut d (lockedOpts d opts) p tm) \<and>
                         (case sm a of None \<Rightarrow> Inr False
                          | Some status \<Rightarrow> ReplicaWasRunning d status) = Inr forceStart \<and>
                         SetMaster w h (Tablet ti) (Alias (obj p)) 0 [] forceStart = None))))"
      proof (intro allI impI)
        fix position
        assume pr: "?promoted = Inr position"
        let ?h = "trace s @ pre @ [?c, PromoteReplica_step p (Inr position), ?D]"
        let ?reparented = "reparentReplicasResult w d ?h p tm sm (lockedOpts d opts) False True"
        from second pr have
          failed: "\<And>err. ?reparented = Inl err \<Longrightarrow>
                     rest @ fin = [PromoteReplica_step p ?promoted, ?D,
                             reparentReplicas_step p False True (Inl err),
                             promoteNewPrimary_step p (Some err),
                             DispatchUpdate_step ''failed EmergencyReparentShard: %v''
                               [ErrArg (undoFailed err failure)],
                             Unlock_step (Some (undoFailed err failure))] \<and>
                     res = Return (Some (ev s'), Some (undoFailed err failure))"
          and okay: "\<And>replicas. ?reparented = Inr replicas \<Longrightarrow>
                     rest @ fin = [PromoteReplica_step p ?promoted, ?D,
                             reparentReplicas_step p False True (Inr replicas),
                             promoteNewPrimary_step p None,
                             DispatchUpdate_step ''failed EmergencyReparentShard: %v''
                               [ErrArg failure],
                             Unlock_step (Some failure)] \<and>
                     res = Return (Some (ev s'), Some failure) \<and>
                     NewPrimary (ev s') = Some (obj p)"
          unfolding Let_def by blast+
        show "let h = ?h;
                  reparented = reparentReplicasResult w d h p tm sm (lockedOpts d opts)
                                  False True
               in (\<forall>err. reparented = Inl err \<longrightarrow>
                     ?post = [?D,
                             reparentReplicas_step p False True (Inl err),
                             promoteNewPrimary_step p (Some err),
                             DispatchUpdate_step ''failed EmergencyReparentShard: %v''
                               [ErrArg (undoFailed err failure)],
                             Unlock_step (Some (undoFailed err failure))] \<and>
                     res = Return (Some (ev s'), Some (undoFailed err failure))) \<and>
                  (\<forall>replicas. reparented = Inr replicas \<longrightarrow>
                     ?post = [?D,
                             reparentReplicas_step p False True (Inr replicas),
                             promoteNewPrimary_step p None,
                             DispatchUpdate_step ''failed EmergencyReparentShard: %v''
                               [ErrArg failure],
                             Unlock_step (Some failure)] \<and>
                     res = Return (Some (ev s'), Some failure) \<and>
                     NewPrimary (ev s') = Some (obj p) \<and>
                     (\<exists>primaryPosition.
                        MasterPosition w h p = Inr primaryPosition \<and>
                        PopulateReparentJournal w h p (UnixNano w h)
                          (getLockAction d (NewPrimaryAlias opts)) (Alias (obj p))
                          primaryPosition = None) \<and>
                     (fannedOut d (lockedOpts d opts) p tm = [] \<or>
                      (\<exists>a ti forceStart.
                         (a, ti) \<in> set (fannedOut d (lockedOpts d opts) p tm) \<and>
                         (case sm a of None \<Rightarrow> Inr False
                          | Some status \<Rightarrow> ReplicaWasRunning d status) = Inr forceStart \<and>
                         SetMaster w h (Tablet ti) (Alias (obj p)) 0 [] forceStart = None)))"
          unfolding Let_def
        proof (intro conjI allI impI)
          fix err
          assume rr: "?reparented = Inl err"
          from failed[OF rr] post0
          show "?post = [?D,
                             reparentReplicas_step p False True (Inl err),
                             promoteNewPrimary_step p (Some err),
                             DispatchUpdate_step ''failed EmergencyReparentShard: %v''
                               [ErrArg (undoFailed err failure)],
                             Unlock_step (Some (undoFailed err failure))]"
            by simp
          from failed[OF rr]
          show "res = Return (Some (ev s'), Some (undoFailed err failure))" by simp
        next
          fix replicas
          assume rr: "?reparented = Inr replicas"
          from okay[OF rr] post0
          show "?post = [?D,
                             reparentReplicas_step p False True (Inr replicas),
                             promoteNewPrimary_step p None,
                             DispatchUpdate_step ''failed EmergencyReparentShard: %v''
                               [ErrArg failure],
                             Unlock_step (Some failure)]"
            by simp
          from okay[OF rr]
          show "res = Return (Some (ev s'), Some failure)" by simp
          from okay[OF rr]
          show "NewPrimary (ev s') = Some (obj p)" by simp
          from rpcs[OF rr]
          show "\<exists>primaryPosition.
                        MasterPosition w ?h p = Inr primaryPosition \<and>
                        PopulateReparentJournal w ?h p (UnixNano w ?h)
                          (getLockAction d (NewPrimaryAlias opts)) (Alias (obj p))
                          primaryPosition = None"
            by (rule conjunct1)
          from rpcs[OF rr]
          show "fannedOut d (lockedOpts d opts) p tm = [] \<or>
                      (\<exists>a ti forceStart.
                         (a, ti) \<in> set (fannedOut d (lockedOpts d opts) p tm) \<and>
                         (case sm a of None \<Rightarrow> Inr False
                          | Some status \<Rightarrow> ReplicaWasRunning d status) = Inr forceStart \<and>
                         SetMaster w ?h (Tablet ti) (Alias (obj p)) 0 [] forceStart = None)"
            by (rule conjunct2)
        qed
      qed
    qed
  qed
qed

subsection \<open>A failed constraint check\<close>

text \<open>
  The result of a run whose constraint check fails, and the tablets it promotes.
\<close>

lemma ReparentShard_compensated:
  assumes run: "ReparentShard w d ks shard opts s = (res, s')"
    and check: "checkIfConstraintsSatisfied_step np pp (Some failure) \<in> set (emitted s s')"
  shows "checkIfConstraintsSatisfied d np pp opts = Some failure \<and>
         prevPrimaryRead (emitted s s') pp \<and>
         (case pp of
            None \<Rightarrow>
              res = Return (Some (ev s'), Some (undoFailed noPrimaryToUndo failure)) \<and>
              (\<forall>t x. promoteNewPrimary_step t x \<notin> set (emitted s s')) \<and>
              (\<forall>t x. PromoteReplica_step t x \<notin> set (emitted s s'))
          | Some p \<Rightarrow>
              (\<exists>undo. promoteNewPrimary_step p undo \<in> set (emitted s s') \<and>
                 (\<forall>t x. promoteNewPrimary_step t x \<in> set (emitted s s') \<longrightarrow> t = p \<and> x = undo) \<and>
                 (\<forall>t x. PromoteReplica_step t x \<in> set (emitted s s') \<longrightarrow> t = p) \<and>
                 res = Return (Some (ev s'),
                               Some (case undo of None \<Rightarrow> failure
                                     | Some err \<Rightarrow> undoFailed err failure))))"
proof (cases "LockShard w (trace s) ks shard (getLockAction d (NewPrimaryAlias opts))")
  case (Some lockErr)
  from ReparentShard_lock_failed[OF run Some] check show ?thesis by simp
next
  case None
  let ?ev0 = "\<lparr>ShardInfo = \<lparr>keyspace = [], shardName = [], PrimaryAlias = None\<rparr>,
               NewPrimary = None\<rparr>"
  let ?lock = "LockShard_step ks shard (getLockAction d (NewPrimaryAlias opts)) None"
  from ReparentShard_locked[OF run None] obtain r zs fin ev1 where
    stage: "shardStage w d (trace s @ [?lock]) ?ev0 ks shard (lockedOpts d opts) = (r, zs, ev1)"
    and em: "emitted s s' = ?lock # zs @ fin"
    and ev: "ev s' = ev1"
    and fin: "\<forall>x \<in> set fin. phase x = 20"
    and failed: "\<forall>x. r = Return (Some x) \<longrightarrow> res = Return (Some ev1, Some x)"
    by blast
  note late = emitted_late[OF em fin]
  from check have check': "checkIfConstraintsSatisfied_step np pp (Some failure) \<in> set zs"
    unfolding late .
  from shardStage_run[OF stage] check' obtain pp0 where
    co: "compensated d (lockedOpts d opts) pp0 r zs" and rd: "prevPrimaryRead zs pp0"
    by blast
  have sat: "checkIfConstraintsSatisfied d np pp (lockedOpts d opts) =
             checkIfConstraintsSatisfied d np pp opts"
    by (simp add: lockedOpts_def checkIfConstraintsSatisfied_lockAction)
  from co[unfolded compensated_def, rule_format, OF check'] have
    pp: "pp = pp0" and fl: "checkIfConstraintsSatisfied d np pp opts = Some failure"
    and rest: "(case pp of
           None \<Rightarrow>
             r = Return (Some (undoFailed noPrimaryToUndo failure)) \<and>
             (\<forall>t x. promoteNewPrimary_step t x \<notin> set zs) \<and>
             (\<forall>t x. PromoteReplica_step t x \<notin> set zs)
         | Some p \<Rightarrow>
             (\<exists>undo. promoteNewPrimary_step p undo \<in> set zs \<and>
                (\<forall>t x. promoteNewPrimary_step t x \<in> set zs \<longrightarrow> t = p \<and> x = undo) \<and>
                (\<forall>t x. PromoteReplica_step t x \<in> set zs \<longrightarrow> t = p) \<and>
                r = Return (Some (case undo of None \<Rightarrow> failure
                                  | Some err \<Rightarrow> undoFailed err failure))))"
    unfolding sat by blast+
  from rd pp have rd': "prevPrimaryRead (emitted s s') pp"
    using prevPrimaryRead_emitted[OF em fin] by blast
  show ?thesis
  proof (cases pp)
    case None
    with rest have r: "r = Return (Some (undoFailed noPrimaryToUndo failure))"
      and a: "\<forall>t x. promoteNewPrimary_step t x \<notin> set zs"
      and b: "\<forall>t x. PromoteReplica_step t x \<notin> set zs"
      by simp_all
    from r failed have "res = Return (Some ev1, Some (undoFailed noPrimaryToUndo failure))"
      by blast
    then have
      res: "res = Return (Some (ev s'), Some (undoFailed noPrimaryToUndo failure))"
      unfolding ev .
    have a': "\<forall>t x. promoteNewPrimary_step t x \<notin> set (emitted s s')"
      using a unfolding late .
    have b': "\<forall>t x. PromoteReplica_step t x \<notin> set (emitted s s')"
      using b unfolding late .
    show ?thesis
      unfolding None option.case
    proof (intro conjI)
      show "checkIfConstraintsSatisfied d np None opts = Some failure"
        using fl None by simp
      show "prevPrimaryRead (emitted s s') None"
        using rd' None by simp
    qed (rule res a' b')+
  next
    case (Some p)
    from rest[unfolded Some option.case] obtain undo where
      u: "promoteNewPrimary_step p undo \<in> set zs"
        "\<forall>t x. promoteNewPrimary_step t x \<in> set zs \<longrightarrow> t = p \<and> x = undo"
        "\<forall>t x. PromoteReplica_step t x \<in> set zs \<longrightarrow> t = p"
        "r = Return (Some (case undo of None \<Rightarrow> failure | Some err \<Rightarrow> undoFailed err failure))"
      by blast
    from u(4) failed have
      "res = Return (Some ev1, Some (case undo of None \<Rightarrow> failure
                                     | Some err \<Rightarrow> undoFailed err failure))"
      by blast
    then have
      res: "res = Return (Some (ev s'), Some (case undo of None \<Rightarrow> failure
                                     | Some err \<Rightarrow> undoFailed err failure))"
      unfolding ev .
    from u(1-3) res fl rd' show ?thesis
      unfolding late Some option.case by (intro conjI exI[of _ undo]) blast+
  qed
qed

text \<open>
  C4. When the constraint check of a run of \<^verbatim>\<open>ReparentShard\<close> fails with \<open>failure\<close>
  for the tablet \<open>np\<close> and the previous primary \<open>pp\<close> of the run, the run returns the
  event object and an error.

  Without a previous primary the error is the \<^verbatim>\<open>ABORTED\<close> error
  \<open>undoFailed noPrimaryToUndo failure\<close>; the run has no step of \<^verbatim>\<open>promoteNewPrimary\<close>
  and promotes no tablet: the constraint check is followed by the deferred update
  and unlock alone.

  With a previous primary \<open>p\<close> the run has one result \<open>undo\<close> of
  \<^verbatim>\<open>promoteNewPrimary\<close>, for the tablet \<open>p\<close>, and promotes no other tablet; the error
  returned is \<open>failure\<close> alone when \<open>undo\<close> is nil, and the \<^verbatim>\<open>ABORTED\<close> error
  \<open>undoFailed err failure\<close> that joins the two when \<open>undo\<close> is the error \<open>err\<close>. The
  undo is the promotion of lines 419 to 445 run on \<open>p\<close>: directly after the
  constraint check the run calls \<^verbatim>\<open>PromoteReplica\<close> on \<open>p\<close>, on the log up to the
  check. When that call fails the run stops with the wrapped error joined to
  \<open>failure\<close>. When it succeeds the run calls \<^verbatim>\<open>reparentReplicas\<close> on \<open>p\<close> with the
  tablet map and the status map read before, without waiting for all replicas and
  with the reparent journal populated; its error, if any, is joined to \<open>failure\<close>.
  When it returns replicas, the run returns \<open>failure\<close> alone, the new primary of the
  event is \<open>p\<close>, \<^verbatim>\<open>MasterPosition\<close> and \<^verbatim>\<open>PopulateReparentJournal\<close> succeeded on \<open>p\<close>
  and, unless there was no replica to fan out to, \<^verbatim>\<open>SetMaster\<close> succeeded on a
  replica with \<open>p\<close> as its source.
\<close>

theorem ReparentShard_constraint_failure:
  assumes run: "ReparentShard w d ks shard opts s = (res, s')"
    and check: "checkIfConstraintsSatisfied_step np pp (Some failure) \<in> set (emitted s s')"
  shows "checkIfConstraintsSatisfied d np pp opts = Some failure \<and>
         prevPrimaryRead (emitted s s') pp \<and>
         (case pp of
            None \<Rightarrow>
              res = Return (Some (ev s'), Some (undoFailed noPrimaryToUndo failure)) \<and>
              (\<forall>t x. promoteNewPrimary_step t x \<notin> set (emitted s s')) \<and>
              (\<forall>t x. PromoteReplica_step t x \<notin> set (emitted s s')) \<and>
              (\<exists>pre. emitted s s' =
                pre @ [checkIfConstraintsSatisfied_step np None (Some failure),
                       DispatchUpdate_step ''failed EmergencyReparentShard: %v''
                         [ErrArg (undoFailed noPrimaryToUndo failure)],
                       Unlock_step (Some (undoFailed noPrimaryToUndo failure))])
          | Some p \<Rightarrow>
              (\<exists>undo. promoteNewPrimary_step p undo \<in> set (emitted s s') \<and>
                 (\<forall>t x. promoteNewPrimary_step t x \<in> set (emitted s s') \<longrightarrow> t = p \<and> x = undo) \<and>
                 (\<forall>t x. PromoteReplica_step t x \<in> set (emitted s s') \<longrightarrow> t = p) \<and>
                 res = Return (Some (ev s'),
                               Some (case undo of None \<Rightarrow> failure
                                     | Some err \<Rightarrow> undoFailed err failure))) \<and>
              (\<exists>pre post tm sm psm.
                emitted s s' =
                  pre @ checkIfConstraintsSatisfied_step np (Some p) (Some failure) #
                        PromoteReplica_step p
                          (PromoteReplica w
                             (trace s @ pre @ [checkIfConstraintsSatisfied_step np (Some p)
                                                 (Some failure)]) p) # post \<and>
                GetTabletMapForShard_step (Inr tm) \<in> set pre \<and>
                StopReplicationAndBuildStatusMaps_step (Inr (sm, psm)) \<in> set pre \<and>
                (\<forall>err. PromoteReplica w
                         (trace s @ pre @ [checkIfConstraintsSatisfied_step np (Some p)
                                             (Some failure)]) p = Inl err \<longrightarrow>
                   (let undo = Wrapf err
                                 ''primary-elect tablet %v failed to be upgraded to primary: %v''
                                 [AliasArg (Alias (obj p)), ErrArg err]
                    in post = [promoteNewPrimary_step p (Some undo),
                               DispatchUpdate_step ''failed EmergencyReparentShard: %v''
                                 [ErrArg (undoFailed undo failure)],
                               Unlock_step (Some (undoFailed undo failure))] \<and>
                       res = Return (Some (ev s'), Some (undoFailed undo failure)))) \<and>
                (\<forall>position.
                   PromoteReplica w
                     (trace s @ pre @ [checkIfConstraintsSatisfied_step np (Some p)
                                         (Some failure)]) p = Inr position \<longrightarrow>
                   (let h = trace s @ pre @
                              [checkIfConstraintsSatisfied_step np (Some p) (Some failure),
                               PromoteReplica_step p (Inr position),
                               DispatchUpdate_step ''reparenting all tablets'' []];
                        reparented = reparentReplicasResult w d h p tm sm (lockedOpts d opts)
                                       False True
                    in (\<forall>err. reparented = Inl err \<longrightarrow>
                          post = [DispatchUpdate_step ''reparenting all tablets'' [],
                                  reparentReplicas_step p False True (Inl err),
                                  promoteNewPrimary_step p (Some err),
                                  DispatchUpdate_step ''failed EmergencyReparentShard: %v''
                                    [ErrArg (undoFailed err failure)],
                                  Unlock_step (Some (undoFailed err failure))] \<and>
                          res = Return (Some (ev s'), Some (undoFailed err failure))) \<and>
                       (\<forall>replicas. reparented = Inr replicas \<longrightarrow>
                          post = [DispatchUpdate_step ''reparenting all tablets'' [],
                                  reparentReplicas_step p False True (Inr replicas),
                                  promoteNewPrimary_step p None,
                                  DispatchUpdate_step ''failed EmergencyReparentShard: %v''
                                    [ErrArg failure],
                                  Unlock_step (Some failure)] \<and>
                          res = Return (Some (ev s'), Some failure) \<and>
                          NewPrimary (ev s') = Some (obj p) \<and>
                          (\<exists>primaryPosition.
                             MasterPosition w h p = Inr primaryPosition \<and>
                             PopulateReparentJournal w h p (UnixNano w h)
                               (getLockAction d (NewPrimaryAlias opts)) (Alias (obj p))
                               primaryPosition = None) \<and>
                          (fannedOut d (lockedOpts d opts) p tm = [] \<or>
                           (\<exists>a ti forceStart.
                              (a, ti) \<in> set (fannedOut d (lockedOpts d opts) p tm) \<and>
                              (case sm a of None \<Rightarrow> Inr False
                               | Some status \<Rightarrow> ReplicaWasRunning d status) = Inr forceStart \<and>
                              SetMaster w h (Tablet ti) (Alias (obj p)) 0 [] forceStart = None)))))))"
proof (cases pp)
  case None
  from ReparentShard_compensated[OF run check] ReparentShard_undo[OF run check]
  show ?thesis
    unfolding None option.case
    apply -
    apply (elim conjE)
    apply (intro conjI; assumption)
    done
next
  case (Some p)
  from ReparentShard_compensated[OF run check] ReparentShard_undo[OF run check]
  show ?thesis
    unfolding Some option.case
    apply -
    apply (elim conjE)
    apply (intro conjI; assumption)
    done
qed

text \<open>
  The requested tablet \<open>z1-102\<close> is not in the cell of the previous primary
  \<open>z2-104\<close>: the run calls \<^verbatim>\<open>PromoteReplica\<close> on \<open>z2-104\<close> directly after the
  check and returns the geographic constraint failure alone. The requested tablet
  must not be promoted and the shard record names no primary: the run ends with the
  check and returns the joined error.
\<close>

theorem ReparentShard_constraint_failure_witness:
  "fst (ReparentShard exWorldOtherCell exDeps ''ks'' ''0''
          ((exOptsRequested 102)\<lparr>PreventCrossCellPromotion := True\<rparr>) exState) =
     Return (Some \<lparr>ShardInfo = \<lparr>keyspace = ''ks'', shardName = ''0'',
                                   PrimaryAlias = Some \<lparr>Cell = ''z2'', Uid = 104\<rparr>\<rparr>,
                    NewPrimary = Some (obj exB1)\<rparr>, Some exGeographic) \<and>
   checkIfConstraintsSatisfied exDeps exA2 (Some exB1)
     ((exOptsRequested 102)\<lparr>PreventCrossCellPromotion := True\<rparr>) = Some exGeographic \<and>
   (\<exists>undo. promoteNewPrimary_step exB1 undo
      \<in> set (emitted exState (snd (ReparentShard exWorldOtherCell exDeps ''ks'' ''0''
          ((exOptsRequested 102)\<lparr>PreventCrossCellPromotion := True\<rparr>) exState)))) \<and>
   (\<exists>pre post.
      emitted exState (snd (ReparentShard exWorldOtherCell exDeps ''ks'' ''0''
          ((exOptsRequested 102)\<lparr>PreventCrossCellPromotion := True\<rparr>) exState)) =
        pre @ checkIfConstraintsSatisfied_step exA2 (Some exB1) (Some exGeographic) #
              PromoteReplica_step exB1
                (PromoteReplica exWorldOtherCell
                   (trace exState @ pre @
                      [checkIfConstraintsSatisfied_step exA2 (Some exB1) (Some exGeographic)])
                   exB1) # post) \<and>
   fst (ReparentShard exWorldNoPrimary exDepsMustNot ''ks'' ''0'' (exOptsRequested 102) exState) =
     Return (Some (ev (snd (ReparentShard exWorldNoPrimary exDepsMustNot ''ks'' ''0''
                             (exOptsRequested 102) exState))),
             Some (undoFailed noPrimaryToUndo exPromotionRule)) \<and>
   (\<exists>pre.
      emitted exState (snd (ReparentShard exWorldNoPrimary exDepsMustNot ''ks'' ''0''
                              (exOptsRequested 102) exState)) =
        pre @ [checkIfConstraintsSatisfied_step exA2 None (Some exPromotionRule),
               DispatchUpdate_step ''failed EmergencyReparentShard: %v''
                 [ErrArg (undoFailed noPrimaryToUndo exPromotionRule)],
               Unlock_step (Some (undoFailed noPrimaryToUndo exPromotionRule))])"
proof -
  let ?opts = "(exOptsRequested 102)\<lparr>PreventCrossCellPromotion := True\<rparr>"
  let ?run = "ReparentShard exWorldOtherCell exDeps ''ks'' ''0'' ?opts exState"
  let ?run' = "ReparentShard exWorldNoPrimary exDepsMustNot ''ks'' ''0''
                 (exOptsRequested 102) exState"
  have run: "?run = (fst ?run, snd ?run)" and run': "?run' = (fst ?run', snd ?run')"
    by simp_all
  note other = ReparentShard_constraint_failure[OF run ex_other_cell_run(2),
      unfolded option.case]
  note none = ReparentShard_constraint_failure[OF run' ex_no_primary_run,
      unfolded option.case]
  from other
  have "checkIfConstraintsSatisfied exDeps exA2 (Some exB1) ?opts = Some exGeographic"
    by (rule conjunct1)
  moreover from other
  have "\<exists>undo. promoteNewPrimary_step exB1 undo \<in> set (emitted exState (snd ?run))"
    by (elim conjE exE) (rule exI)
  moreover from other
  have "\<exists>pre post.
      emitted exState (snd ?run) =
        pre @ checkIfConstraintsSatisfied_step exA2 (Some exB1) (Some exGeographic) #
              PromoteReplica_step exB1
                (PromoteReplica exWorldOtherCell
                   (trace exState @ pre @
                      [checkIfConstraintsSatisfied_step exA2 (Some exB1) (Some exGeographic)])
                   exB1) # post"
    by (elim conjE exE) (rule exI, rule exI)
  moreover from none
  have "fst ?run' = Return (Some (ev (snd ?run')),
                            Some (undoFailed noPrimaryToUndo exPromotionRule))"
    by (elim conjE)
  moreover from none
  have "\<exists>pre.
      emitted exState (snd ?run') =
        pre @ [checkIfConstraintsSatisfied_step exA2 None (Some exPromotionRule),
               DispatchUpdate_step ''failed EmergencyReparentShard: %v''
                 [ErrArg (undoFailed noPrimaryToUndo exPromotionRule)],
               Unlock_step (Some (undoFailed noPrimaryToUndo exPromotionRule))]"
    by (elim conjE)
  ultimately show ?thesis using ex_other_cell_run(1) by (intro conjI)
qed

subsection \<open>Runs without a valid candidate\<close>

lemma stoppedWithoutCandidates_Cons [simp]:
  assumes "preparation x"
  shows "stoppedWithoutCandidates r (x # zs) = stoppedWithoutCandidates r zs"
proof -
  have ne: "x \<noteq> restrictValidCandidates_step (Inr [])" using assms by auto
  have "(\<exists>pre. x # zs = pre @ [restrictValidCandidates_step (Inr [])] \<and> list_all preparation pre)
        \<longleftrightarrow> (\<exists>pre. zs = pre @ [restrictValidCandidates_step (Inr [])] \<and> list_all preparation pre)"
    (is "?L \<longleftrightarrow> ?R")
  proof
    assume ?L
    then obtain pre where pre: "x # zs = pre @ [restrictValidCandidates_step (Inr [])]"
      "list_all preparation pre" by blast
    with ne obtain pre' where "pre = x # pre'" by (cases pre) auto
    with pre show ?R by auto
  next
    assume ?R
    then obtain pre where "zs = pre @ [restrictValidCandidates_step (Inr [])]"
      "list_all preparation pre" by blast
    with assms have "x # zs = (x # pre) @ [restrictValidCandidates_step (Inr [])]"
      "list_all preparation (x # pre)" by simp_all
    then show ?L by blast
  qed
  with ne show ?thesis by (simp add: stoppedWithoutCandidates_def)
qed

lemma stoppedWithoutCandidates_late:
  "\<forall>x \<in> set zs. 8 \<le> phase x \<Longrightarrow> stoppedWithoutCandidates r zs"
  by (fastforce simp: stoppedWithoutCandidates_def)

lemma stoppedWithoutCandidates_Nil [simp]: "stoppedWithoutCandidates r []"
  by (simp add: stoppedWithoutCandidates_def)

lemma stoppedWithoutCandidates_here [simp]:
  "stoppedWithoutCandidates r [restrictValidCandidates_step (Inr [])]
     \<longleftrightarrow> r = Return (Some noValidCandidates)"
  by (auto simp: stoppedWithoutCandidates_def intro: exI[of _ "[]"])

lemma stoppedWithoutCandidates_restricted:
  "x \<noteq> Inr [] \<Longrightarrow> \<forall>y \<in> set zs. 8 \<le> phase y \<Longrightarrow>
   stoppedWithoutCandidates r (restrictValidCandidates_step x # zs)"
  by (fastforce simp: stoppedWithoutCandidates_def)

lemma candidatesStage_stopped:
  "candidatesStage w d h ev0 ks shard psm pp opts tm sm = (r, zs, ev1) \<Longrightarrow>
   stoppedWithoutCandidates r zs"
  by (auto simp: candidatesStage_def Let_def logged_eq
      split: run_splits dest!: selectStage_phase
      intro!: stoppedWithoutCandidates_restricted)

lemma tabletMapStage_stopped:
  "tabletMapStage w d h ev0 ks shard pp opts = (r, zs, ev1) \<Longrightarrow>
   stoppedWithoutCandidates r zs"
  by (auto simp: tabletMapStage_def Let_def logged_eq
      split: run_splits dest!: candidatesStage_stopped)

lemma shardStage_stopped:
  "shardStage w d h ev0 ks shard opts = (r, zs, ev1) \<Longrightarrow> stoppedWithoutCandidates r zs"
  by (auto simp: shardStage_def Let_def logged_eq
      split: run_splits dest!: tabletMapStage_stopped)

text \<open>
  C8. When \<^verbatim>\<open>restrictValidCandidates\<close> returns an empty list in a run of
  \<^verbatim>\<open>ReparentShard\<close>, the run returns the event object and the \<^verbatim>\<open>FAILED_PRECONDITION\<close>
  error \<open>noValidCandidates\<close>. The restriction is the last step of
  \<^verbatim>\<open>reparentShardLocked\<close>: after it the log has only the update and the unlock of the
  deferred calls of \<^verbatim>\<open>ReparentShard\<close>, and before it only the steps up to the search
  for valid candidates. The run waits for no relay log, selects no source, reparents
  no replica and promotes no tablet.
\<close>

theorem ReparentShard_no_valid_candidates:
  assumes run: "ReparentShard w d ks shard opts s = (res, s')"
    and empty: "restrictValidCandidates_step (Inr []) \<in> set (emitted s s')"
  shows "res = Return (Some (ev s'), Some noValidCandidates) \<and>
         (\<exists>pre. emitted s s' =
                  pre @ [restrictValidCandidates_step (Inr []),
                         DispatchUpdate_step ''failed EmergencyReparentShard: %v''
                           [ErrArg noValidCandidates],
                         Unlock_step (Some noValidCandidates)] \<and>
                list_all preparation pre)"
proof (cases "LockShard w (trace s) ks shard (getLockAction d (NewPrimaryAlias opts))")
  case (Some lockErr)
  from ReparentShard_lock_failed[OF run Some] empty show ?thesis by simp
next
  case None
  let ?ev0 = "\<lparr>ShardInfo = \<lparr>keyspace = [], shardName = [], PrimaryAlias = None\<rparr>,
               NewPrimary = None\<rparr>"
  let ?lock = "LockShard_step ks shard (getLockAction d (NewPrimaryAlias opts)) None"
  let ?R = "restrictValidCandidates_step (Inr []) :: ('a, 'b, 'c) step"
  from ReparentShard_locked[OF run None] obtain r zs fin ev1 where
    stage: "shardStage w d (trace s @ [?lock]) ?ev0 ks shard (lockedOpts d opts) = (r, zs, ev1)"
    and em: "emitted s s' = ?lock # zs @ fin"
    and ev: "ev s' = ev1"
    and fin: "\<forall>x \<in> set fin. phase x = 20"
    and failed: "\<forall>x. r = Return (Some x) \<longrightarrow>
                   res = Return (Some ev1, Some x) \<and>
                   fin = [DispatchUpdate_step ''failed EmergencyReparentShard: %v'' [ErrArg x],
                          Unlock_step (Some x)] \<and>
                   ersSuccessCounter s' = ersSuccessCounter s \<and>
                   ersFailureCounter s' = ersFailureCounter s + 1"
    by (elim exE conjE) blast
  from empty em fin have "?R \<in> set zs" by fastforce
  with shardStage_stopped[OF stage] obtain pre where
    r: "r = Return (Some noValidCandidates)"
    and zs: "zs = pre @ [?R]" and pre: "list_all preparation pre"
    unfolding stoppedWithoutCandidates_def by blast
  from failed r have res: "res = Return (Some ev1, Some noValidCandidates)"
    and fin': "fin = [DispatchUpdate_step ''failed EmergencyReparentShard: %v''
                        [ErrArg noValidCandidates],
                      Unlock_step (Some noValidCandidates)]"
    by blast+
  have "emitted s s' = (?lock # pre) @ [?R,
          DispatchUpdate_step ''failed EmergencyReparentShard: %v'' [ErrArg noValidCandidates],
          Unlock_step (Some noValidCandidates)]"
    unfolding em zs fin' by simp
  moreover have "list_all preparation (?lock # pre)" using pre by simp
  ultimately show ?thesis unfolding res ev by blast
qed

text \<open>The restriction leaves no candidate of the example.\<close>

theorem ReparentShard_no_valid_candidates_witness:
  "restrictValidCandidates_step (Inr [])
     \<in> set (emitted exState (snd (ReparentShard exWorld exDepsNoCandidates ''ks'' ''0''
                                     exOpts exState))) \<and>
   fst (ReparentShard exWorld exDepsNoCandidates ''ks'' ''0'' exOpts exState) =
     Return (Some (ev (snd (ReparentShard exWorld exDepsNoCandidates ''ks'' ''0''
                              exOpts exState))),
             Some (Errorf FAILED_PRECONDITION ''no valid candidates for emergency reparent'' []))"
proof -
  let ?run = "ReparentShard exWorld exDepsNoCandidates ''ks'' ''0'' exOpts exState"
  have run: "?run = (fst ?run, snd ?run)" by simp
  from ReparentShard_no_valid_candidates[OF run ex_no_candidates_run] ex_no_candidates_run
  show ?thesis by (simp add: noValidCandidates_def)
qed

subsection \<open>The intermediate reparent and the final selection\<close>




subsection \<open>A failed selection of the intermediate source\<close>

text \<open>
  The orchestrator's side of the split brain check: a run in which
  \<^verbatim>\<open>findMostAdvanced\<close> fails returns that error, reparents no replica and promotes no
  tablet.
\<close>

lemma stoppedAtSelection_Cons [simp]:
  assumes "phase x \<le> 8 \<or> phase x = 20"
  shows "stoppedAtSelection r (x # zs) = stoppedAtSelection r zs"
proof -
  have "findMostAdvanced_step (Return (Inl err)) \<in> set (x # zs)
        \<longleftrightarrow> findMostAdvanced_step (Return (Inl err)) \<in> set zs" for err
    using assms by auto
  moreover have "(\<forall>y \<in> set (x # zs). phase y \<le> 9 \<or> phase y = 20)
        \<longleftrightarrow> (\<forall>y \<in> set zs. phase y \<le> 9 \<or> phase y = 20)"
    using assms by auto
  ultimately show ?thesis unfolding stoppedAtSelection_def by simp
qed

lemma stoppedAtSelection_Nil [simp]: "stoppedAtSelection r []"
  by (simp add: stoppedAtSelection_def)

lemma stoppedAtSelection_here [simp]:
  "stoppedAtSelection r [findMostAdvanced_step (Return (Inl err))] \<longleftrightarrow> r = Return (Some err)"
  by (auto simp: stoppedAtSelection_def)

lemma selectStage_stopped:
  "selectStage w d h ev0 ks shard vc pp opts tm sm = (r, zs, ev1) \<Longrightarrow>
   stoppedAtSelection r zs"
  by (auto simp: selectStage_def Let_def logged_eq returned_eq stoppedAtSelection_def
      split: run_splits dest!: idealStage_selected)

lemma candidatesStage_stoppedAtSelection:
  "candidatesStage w d h ev0 ks shard psm pp opts tm sm = (r, zs, ev1) \<Longrightarrow>
   stoppedAtSelection r zs"
  by (auto simp: candidatesStage_def Let_def logged_eq
      split: run_splits dest!: selectStage_stopped)

lemma tabletMapStage_stoppedAtSelection:
  "tabletMapStage w d h ev0 ks shard pp opts = (r, zs, ev1) \<Longrightarrow>
   stoppedAtSelection r zs"
  by (auto simp: tabletMapStage_def Let_def logged_eq
      split: run_splits dest!: candidatesStage_stoppedAtSelection)

lemma shardStage_stoppedAtSelection:
  "shardStage w d h ev0 ks shard opts = (r, zs, ev1) \<Longrightarrow> stoppedAtSelection r zs"
  by (auto simp: shardStage_def Let_def logged_eq
      split: run_splits dest!: tabletMapStage_stoppedAtSelection)

lemma ReparentShard_stops_at_failed_selection:
  assumes run: "ReparentShard w d ks shard opts s = (res, s')"
    and failed: "findMostAdvanced_step (Return (Inl err)) \<in> set (emitted s s')"
  shows "res = Return (Some (ev s'), Some err) \<and>
         (\<forall>t x. PromoteReplica_step t x \<notin> set (emitted s s')) \<and>
         (\<forall>t waitAll populate x. reparentReplicas_step t waitAll populate x \<notin> set (emitted s s'))"
proof (cases "LockShard w (trace s) ks shard (getLockAction d (NewPrimaryAlias opts))")
  case (Some lockErr)
  from ReparentShard_lock_failed[OF run Some] failed show ?thesis by simp
next
  case None
  let ?ev0 = "\<lparr>ShardInfo = \<lparr>keyspace = [], shardName = [], PrimaryAlias = None\<rparr>,
               NewPrimary = None\<rparr>"
  let ?lock = "LockShard_step ks shard (getLockAction d (NewPrimaryAlias opts)) None"
  from ReparentShard_locked[OF run None] obtain r zs fin ev1 where
    stage: "shardStage w d (trace s @ [?lock]) ?ev0 ks shard (lockedOpts d opts) = (r, zs, ev1)"
    and em: "emitted s s' = ?lock # zs @ fin"
    and ev: "ev s' = ev1"
    and fin: "\<forall>x \<in> set fin. phase x = 20"
    and failing: "\<forall>x. r = Return (Some x) \<longrightarrow> res = Return (Some ev1, Some x)"
    by blast
  from failed em fin have "findMostAdvanced_step (Return (Inl err)) \<in> set zs" by fastforce
  with shardStage_stoppedAtSelection[OF stage] have r: "r = Return (Some err)"
    and zs: "\<forall>x \<in> set zs. phase x \<le> 9 \<or> phase x = 20"
    unfolding stoppedAtSelection_def by blast+
  from r failing have "res = Return (Some ev1, Some err)" by blast
  then have res: "res = Return (Some (ev s'), Some err)" unfolding ev .
  from zs fin have "\<forall>x \<in> set (emitted s s'). phase x \<le> 9 \<or> phase x = 20"
    unfolding em by auto
  then have "\<forall>t x. PromoteReplica_step t x \<notin> set (emitted s s')"
    and "\<forall>t waitAll populate x.
           reparentReplicas_step t waitAll populate x \<notin> set (emitted s s')"
    by (fastforce split: if_splits)+
  with res show ?thesis by blast
qed

end
